theory Spec2Isabelle
  imports Complex_Main
begin

section \<open>The fluid solvers of OpenIFEM: InsIMEX and ParallelNavierStokes\<close>

text \<open>
  The two classes drive the deal.II library: finite-element assembly, Krylov solvers,
  constraint handling and mesh adaptation are library calls. The embedding keeps the
  control flow, the arguments and the member updates of every function of the two source
  files, and takes the library routines as parameters (the records \<open>linalg\<close> and
  \<open>femlib\<close>). A \<open>double\<close> is modelled as a \<open>real\<close>, an \<open>unsigned int\<close> as a \<open>nat\<close>
  (no counter of the code can wrap: the Newton counter is bounded by \<open>max_iteration\<close>).
  An exception (\<open>AssertThrow\<close>, or one thrown by a library solver) is the value
  \<open>Inl (e, s)\<close>, carrying the state reached when it was thrown; nothing in the two files
  catches an exception, so it ends the run.
\<close>

subsection \<open>Vectors\<close>

type_synonym vec = "real list"

record block_vector =
  block0 :: vec
  block1 :: vec

text \<open>\<open>v = 0\<close>, \<open>v = a\<close>, \<open>v *= a\<close>, \<open>v += w\<close> and \<open>v.l2_norm()\<close>.\<close>

definition vec_fill :: "real \<Rightarrow> vec \<Rightarrow> vec" where
  "vec_fill a v = map (\<lambda>_. a) v"

definition vec_scale :: "real \<Rightarrow> vec \<Rightarrow> vec" where
  "vec_scale a v = map (\<lambda>x. x * a) v"

definition vec_add :: "vec \<Rightarrow> vec \<Rightarrow> vec" where
  "vec_add v w = map (\<lambda>(x, y). x + y) (zip v w)"

definition l2_norm :: "vec \<Rightarrow> real" where
  "l2_norm v = sqrt (sum_list (map (\<lambda>x. x * x) v))"

definition bv_fill :: "real \<Rightarrow> block_vector \<Rightarrow> block_vector" where
  "bv_fill a v = \<lparr>block0 = vec_fill a (block0 v), block1 = vec_fill a (block1 v)\<rparr>"

definition bv_add :: "block_vector \<Rightarrow> block_vector \<Rightarrow> block_vector" where
  "bv_add v w = \<lparr>block0 = vec_add (block0 v) (block0 w), block1 = vec_add (block1 v) (block1 w)\<rparr>"

definition bv_l2_norm :: "block_vector \<Rightarrow> real" where
  "bv_l2_norm v = l2_norm (block0 v @ block1 v)"

text \<open>\<open>BlockVector::reinit(dofs_per_block)\<close>: one zero block per entry.\<close>

definition bv_reinit :: "nat list \<Rightarrow> block_vector" where
  "bv_reinit sizes = \<lparr>block0 = replicate (sizes ! 0) 0, block1 = replicate (sizes ! 1) 0\<rparr>"

subsection \<open>Sparse matrices and their patterns\<close>

type_synonym sparsity = "(nat \<times> nat) list"

record sparse_matrix =
  sm_m :: nat
  sm_n :: nat
  sm_entries :: "((nat \<times> nat) \<times> real) list"

record block_sparsity_pattern =
  row_sizes :: "nat list"
  col_sizes :: "nat list"
  pat00 :: sparsity
  pat01 :: sparsity
  pat10 :: sparsity
  pat11 :: sparsity

record block_sparse_matrix =
  blk00 :: sparse_matrix
  blk01 :: sparse_matrix
  blk10 :: sparse_matrix
  blk11 :: sparse_matrix

text \<open>\<open>clear()\<close> leaves an empty matrix; \<open>reinit(pattern)\<close> a zero matrix on the pattern;
  \<open>A = 0\<close> zeroes the entries and keeps the pattern.\<close>

definition sm_clear :: sparse_matrix where
  "sm_clear = \<lparr>sm_m = 0, sm_n = 0, sm_entries = []\<rparr>"

definition sm_reinit :: "nat \<Rightarrow> nat \<Rightarrow> sparsity \<Rightarrow> sparse_matrix" where
  "sm_reinit m n p = \<lparr>sm_m = m, sm_n = n, sm_entries = map (\<lambda>ij. (ij, 0)) p\<rparr>"

definition sm_zero :: "sparse_matrix \<Rightarrow> sparse_matrix" where
  "sm_zero A = A\<lparr>sm_entries := map (\<lambda>(ij, _). (ij, 0)) (sm_entries A)\<rparr>"

definition sm_pattern :: "sparse_matrix \<Rightarrow> sparsity" where
  "sm_pattern A = map fst (sm_entries A)"

definition bsm_clear :: block_sparse_matrix where
  "bsm_clear = \<lparr>blk00 = sm_clear, blk01 = sm_clear, blk10 = sm_clear, blk11 = sm_clear\<rparr>"

definition bsm_reinit :: "block_sparsity_pattern \<Rightarrow> block_sparse_matrix" where
  "bsm_reinit p =
     \<lparr>blk00 = sm_reinit (row_sizes p ! 0) (col_sizes p ! 0) (pat00 p),
      blk01 = sm_reinit (row_sizes p ! 0) (col_sizes p ! 1) (pat01 p),
      blk10 = sm_reinit (row_sizes p ! 1) (col_sizes p ! 0) (pat10 p),
      blk11 = sm_reinit (row_sizes p ! 1) (col_sizes p ! 1) (pat11 p)\<rparr>"

definition bsm_zero :: "block_sparse_matrix \<Rightarrow> block_sparse_matrix" where
  "bsm_zero A =
     \<lparr>blk00 = sm_zero (blk00 A), blk01 = sm_zero (blk01 A),
      blk10 = sm_zero (blk10 A), blk11 = sm_zero (blk11 A)\<rparr>"

text \<open>\<open>BlockSparseMatrix::m()\<close> is the number of rows of the whole block matrix: the sum
  over the row blocks.\<close>

definition bsm_m :: "block_sparse_matrix \<Rightarrow> nat" where
  "bsm_m A = sm_m (blk00 A) + sm_m (blk10 A)"

subsection \<open>Mesh, degrees of freedom, constraints\<close>

record cell =
  level :: nat
  refine_flag :: bool
  coarsen_flag :: bool

type_synonym triangulation = "cell list"

text \<open>A \<open>DoFHandler\<close> is known by the mesh its degrees of freedom were last distributed on.\<close>

datatype dof_handler = DoFs triangulation

datatype boundary_function = BoundaryValues | ConstantFunction "real list" | ZeroFunction nat

text \<open>A \<open>ConstraintMatrix\<close> is known by the library calls that filled it, in order, and by
  whether \<open>close()\<close> has been called since the last \<open>clear()\<close>.\<close>

datatype constraint_line =
    HangingNodes dof_handler
  | BoundaryInterpolation dof_handler nat boundary_function "bool list"

record constraint_matrix =
  cm_lines :: "constraint_line list"
  cm_local :: "nat list option"
  cm_closed :: bool

definition cm_clear :: constraint_matrix where
  "cm_clear = \<lparr>cm_lines = [], cm_local = None, cm_closed = False\<rparr>"

definition cm_add :: "constraint_line \<Rightarrow> constraint_matrix \<Rightarrow> constraint_matrix" where
  "cm_add l c = c\<lparr>cm_lines := cm_lines c @ [l]\<rparr>"

definition cm_close :: "constraint_matrix \<Rightarrow> constraint_matrix" where
  "cm_close c = c\<lparr>cm_closed := True\<rparr>"

subsection \<open>Parameters, clock, errors, events\<close>

text \<open>\<open>Parameters::AllParameters\<close> as far as the two files read it, with the template
  parameter \<open>dim\<close> (2 or 3, here \<open>spacedim\<close>) and the size of the volume quadrature formula.
  \<open>fluid_dirichlet_bcs\<close> is a \<open>std::map\<close> from boundary id to (flag, values), listed in
  key order.\<close>

record params =
  spacedim :: nat
  viscosity :: real
  fluid_rho :: real
  grad_div :: real
  fluid_tolerance :: real
  fluid_max_iterations :: nat
  global_refinement :: nat
  use_hard_coded_values :: nat
  fluid_dirichlet_bcs :: "(nat \<times> nat \<times> real list) list"
  n_q_points :: nat
  dofs_per_cell :: nat

record time =
  time_current :: real
  delta_t :: real
  timestep :: nat
  time_end :: real

text \<open>Modelled from the spec: \<open>Time::increment\<close>, which is not in the source files given.
  The spec's TimeState holds the current time, the step size and the step index, advanced
  once per step.\<close>

definition time_increment :: "time \<Rightarrow> time" where
  "time_increment t = t\<lparr>time_current := time_current t + delta_t t, timestep := timestep t + 1\<rparr>"

datatype error =
    UnrecognizedComponentFlag
  | TooManyNewtonIterations
  | NoConvergence
  | ZeroDiagonal
  | NullPreconditioner
  | ReadPastEnd

datatype precondition_kind = SparseILU | PreconditionBlockJacobi | PreconditionIdentity

record solver_control =
  max_steps :: nat
  tol :: real
  log_history :: bool


text \<open>The \<open>BlockSchurPreconditioner\<close> object: its scalar members. Its three matrix
  members are pointers to the solver's \<open>system_matrix\<close>, \<open>mass_matrix\<close> and
  \<open>mass_schur\<close>, so an application reads the solver's matrices as they then are.\<close>

record block_schur_preconditioner =
  pc_gamma :: real
  pc_viscosity :: real
  pc_rho :: real
  pc_dt :: real

text \<open>The calls one application of the preconditioner makes, in the order made.\<close>

datatype vmult_call =
    CG_Mp solver_control precondition_kind
  | Scale_Mp real
  | CG_Sm solver_control precondition_kind
  | Scale_Sm real
  | Add_Mp_Sm
  | Vmult_BT
  | Subtract_From_v0
  | CG_A solver_control precondition_kind
  | Direct_A

text \<open>The calls of the solver classes that the claims speak about, recorded in call order.
  \<open>CallAssemble\<close> and \<open>CallSolve\<close> carry the step index, the outer iteration and the two
  flags (use the nonzero constraints, rebuild the matrices) of the call.\<close>

datatype event =
    TimeIncrement nat
  | OutputResults nat
  | CallAssemble nat nat bool bool
  | CallSolve nat nat bool bool
  | JacobiOnes
  | MMult "bool option"
  | NewPreconditioner
  | FGMRES solver_control
  | Distribute bool
  | NewtonUpdate
  | DistributeNonzero
  | EstimateError
  | FlagCells real real
  | ClearFlags nat nat
  | PrepareRefinement
  | Snapshot
  | ExecuteRefinement
  | SetupDofs
  | MakeConstraints
  | InitializeSystem
  | ComputeMmultPattern
  | SetupCellProperty
  | Interpolate

text \<open>\<open>CellProperty\<close> at one quadrature point (the tensors as component lists).\<close>

record qpoint =
  indicator :: int
  fsi_acceleration :: "real list"
  fsi_stress :: "real list"

record local_contribution =
  cell_matrix :: "real list"
  cell_mass_matrix :: "real list"
  cell_rhs :: "real list"
  local_dof_indices :: "nat list"

subsection \<open>The library, as parameters\<close>

text \<open>
  \<open>cg_solve A x0 b P c\<close> is \<open>SolverCG::solve(A, x, b, P)\<close> under the control \<open>c\<close>, started
  from the content \<open>x0\<close> of \<open>x\<close>; \<open>fgmres_solve A x0 b P c\<close> is \<open>SolverFGMRES::solve\<close>
  and also returns \<open>last_step()\<close> and \<open>last_value()\<close> of the control. A solver that
  does not converge within \<open>max_steps\<close> throws: it returns \<open>Inl\<close>.
  \<open>mmult C A B V flag\<close> is \<open>A.mmult(C, B, V, flag)\<close>, the product \<open>A diag(V) B\<close> written
  to \<open>C\<close>; the PETSc wrapper has no flag (\<open>None\<close>).
\<close>

record linalg =
  cg_solve :: "sparse_matrix \<Rightarrow> vec \<Rightarrow> vec \<Rightarrow> precondition_kind \<times> sparse_matrix
                 \<Rightarrow> solver_control \<Rightarrow> error + vec"
  direct_solve :: "sparse_matrix \<Rightarrow> vec \<Rightarrow> error + vec"
  fgmres_solve :: "block_sparse_matrix \<Rightarrow> block_vector \<Rightarrow> block_vector
                 \<Rightarrow> (block_vector \<Rightarrow> block_vector \<Rightarrow> error + block_vector)
                 \<Rightarrow> solver_control \<Rightarrow> error + (block_vector \<times> nat \<times> real)"
  sm_vmult :: "sparse_matrix \<Rightarrow> vec \<Rightarrow> vec"
  precondition_Jacobi :: "sparse_matrix \<Rightarrow> vec \<Rightarrow> vec"
  mmult :: "sparse_matrix \<Rightarrow> sparse_matrix \<Rightarrow> sparse_matrix \<Rightarrow> vec \<Rightarrow> bool option
                 \<Rightarrow> sparse_matrix"
  initialize_fails :: "precondition_kind \<Rightarrow> sparse_matrix \<Rightarrow> bool"

record femlib =
  count_dofs_per_block :: "dof_handler \<Rightarrow> nat \<times> nat"
  locally_owned_dofs :: "dof_handler \<Rightarrow> nat list"
  extract_locally_relevant_dofs :: "dof_handler \<Rightarrow> nat list"
  n_dofs :: "dof_handler \<Rightarrow> nat"
  make_sparsity_pattern :: "dof_handler \<Rightarrow> constraint_matrix
                 \<Rightarrow> sparsity \<times> sparsity \<times> sparsity \<times> sparsity"
  compute_mmult_pattern :: "sparsity \<Rightarrow> sparsity \<Rightarrow> sparsity"
  local_assembly :: "params \<Rightarrow> real \<Rightarrow> nat \<Rightarrow> qpoint list \<Rightarrow> block_vector list
                 \<Rightarrow> local_contribution"
  distribute_local_to_global :: "constraint_matrix \<Rightarrow> real list \<Rightarrow> real list \<Rightarrow> nat list
                 \<Rightarrow> block_sparse_matrix \<Rightarrow> block_vector \<Rightarrow> block_sparse_matrix \<times> block_vector"
  distribute_local_to_global_matrix :: "constraint_matrix \<Rightarrow> real list \<Rightarrow> nat list
                 \<Rightarrow> block_sparse_matrix \<Rightarrow> block_sparse_matrix"
  distribute_local_to_global_rhs :: "constraint_matrix \<Rightarrow> real list \<Rightarrow> nat list
                 \<Rightarrow> block_vector \<Rightarrow> block_vector"
  distribute :: "constraint_matrix \<Rightarrow> block_vector \<Rightarrow> block_vector"
  estimate :: "dof_handler \<Rightarrow> block_vector \<Rightarrow> real list"
  refine_and_coarsen_fixed_fraction :: "triangulation \<Rightarrow> real list \<Rightarrow> real \<Rightarrow> real
                 \<Rightarrow> nat \<Rightarrow> bool \<times> bool"
  prepare_coarsening_and_refinement :: "triangulation \<Rightarrow> triangulation"
  execute_coarsening_and_refinement :: "triangulation \<Rightarrow> triangulation"
  refine_global :: "nat \<Rightarrow> triangulation \<Rightarrow> triangulation"
  interpolate :: "dof_handler \<Rightarrow> block_vector \<Rightarrow> dof_handler \<Rightarrow> block_vector \<Rightarrow> block_vector"
  time_to_output :: "time \<Rightarrow> bool"
  time_to_refine :: "time \<Rightarrow> bool"

subsection \<open>The members of the solver classes\<close>

text \<open>The members the two classes share; \<open>viscosity\<close>, \<open>rho\<close>, \<open>gamma\<close>, \<open>tolerance\<close> and
  \<open>max_iteration\<close> are constant copies of the parameters and are read from \<open>params\<close>.\<close>

record fluid_state =
  triangulation :: triangulation
  dof_handler :: dof_handler
  dofs_per_block :: "nat list"
  nonzero_constraints :: constraint_matrix
  zero_constraints :: constraint_matrix
  sparsity_pattern :: block_sparsity_pattern
  system_matrix :: block_sparse_matrix
  mass_matrix :: block_sparse_matrix
  present_solution :: block_vector
  system_rhs :: block_vector
  preconditioner :: "block_schur_preconditioner option"
  cell_property :: "qpoint list list"
  time :: time
  trace :: "event list"

record imex_state = fluid_state +
  mass_schur_pattern :: sparsity
  mass_schur :: sparse_matrix
  solution_increment :: block_vector

text \<open>An \<open>IndexSet\<close>: the size of its index space and the indices it holds.\<close>

record index_set =
  is_size :: nat
  is_elements :: "nat list"

definition get_view :: "nat \<Rightarrow> nat \<Rightarrow> index_set \<Rightarrow> index_set" where
  "get_view b e I =
     \<lparr>is_size = e - b, is_elements = map (\<lambda>i. i - b) (filter (\<lambda>i. b \<le> i \<and> i < e) (is_elements I))\<rparr>"

record pns_state = fluid_state +
  mass_schur_blocks :: block_sparse_matrix
  newton_update :: block_vector
  evaluation_point :: block_vector
  owned_partitioning :: "index_set list"
  relevant_partitioning :: "index_set list"
  locally_relevant_dofs :: index_set

definition log_event :: "event \<Rightarrow> 'a fluid_state_scheme \<Rightarrow> 'a fluid_state_scheme" where
  "log_event e s = s\<lparr>trace := trace s @ [e]\<rparr>"


subsection \<open>BlockSchurPreconditioner: construction\<close>

text \<open>The constructors fill the solver's \<open>mass_schur\<close> through the pointer they are given:
  they return the new object, the new \<open>mass_schur\<close> and the library calls made.
  InsIMEX passes \<open>false\<close> for \<open>rebuild_sparsity_pattern\<close>; the PETSc \<open>mmult\<close> of
  ParallelNavierStokes has no such argument.\<close>

definition imex_BlockSchurPreconditioner ::
  "linalg \<Rightarrow> real \<Rightarrow> real \<Rightarrow> real \<Rightarrow> real \<Rightarrow> block_sparse_matrix \<Rightarrow> block_sparse_matrix
     \<Rightarrow> sparse_matrix \<Rightarrow> block_schur_preconditioner \<times> sparse_matrix \<times> event list" where
  "imex_BlockSchurPreconditioner L gamma visc rho dt system mass schur =
     (let tmp1 = replicate (sm_m (blk00 mass)) (0::real);
          tmp2 = tmp1;
          tmp1 = vec_fill 1 tmp1;
          tmp2 = vec_fill 0 tmp2;
          tmp2 = precondition_Jacobi L (blk00 mass) tmp1;
          schur' = mmult L schur (blk10 system) (blk01 system) tmp2 (Some False)
      in (\<lparr>pc_gamma = gamma, pc_viscosity = visc, pc_rho = rho, pc_dt = dt\<rparr>, schur',
          [JacobiOnes, MMult (Some False)]))"

definition pns_BlockSchurPreconditioner ::
  "linalg \<Rightarrow> real \<Rightarrow> real \<Rightarrow> real \<Rightarrow> real \<Rightarrow> index_set list \<Rightarrow> block_sparse_matrix
     \<Rightarrow> block_sparse_matrix \<Rightarrow> block_sparse_matrix
     \<Rightarrow> block_schur_preconditioner \<times> block_sparse_matrix \<times> event list" where
  "pns_BlockSchurPreconditioner L gamma visc rho dt owned system mass schur =
     (let tmp1 = bv_reinit (map is_size owned);
          tmp2 = bv_reinit (map is_size owned);
          tmp1 = bv_fill 1 tmp1;
          tmp2 = bv_fill 0 tmp2;
          tmp2 = tmp2\<lparr>block0 := precondition_Jacobi L (blk00 mass) (block0 tmp1)\<rparr>;
          schur' = schur\<lparr>blk11 := mmult L (blk11 schur) (blk10 system) (blk01 system)
                                      (block0 tmp2) None\<rparr>
      in (\<lparr>pc_gamma = gamma, pc_viscosity = visc, pc_rho = rho, pc_dt = dt\<rparr>, schur',
          [JacobiOnes, MMult None]))"

subsection \<open>BlockSchurPreconditioner: vmult\<close>

text \<open>\<open>dst\<close> is read as well as written: its blocks are the starting vectors of the
  solves for \<open>S_m\<close> and for \<open>A\<close>. The result is the new \<open>dst\<close> with the calls made.\<close>

definition imex_vmult ::
  "linalg \<Rightarrow> block_schur_preconditioner \<Rightarrow> block_sparse_matrix \<Rightarrow> block_sparse_matrix
     \<Rightarrow> sparse_matrix \<Rightarrow> block_vector \<Rightarrow> block_vector
     \<Rightarrow> error + (block_vector \<times> vmult_call list)" where
  "imex_vmult L pc system mass schur dst src =
     (let utmp = block0 src;
          tmp = vec_fill 0 (replicate (length (block1 src)) 0);
          mp_control = \<lparr>max_steps = length (block1 src),
                        tol = (1 / 1000000) * l2_norm (block1 src), log_history = False\<rparr>
      in if initialize_fails L SparseILU (blk11 mass) then Inl ZeroDiagonal
         else case cg_solve L (blk11 mass) tmp (block1 src) (SparseILU, blk11 mass) mp_control of
           Inl e \<Rightarrow> Inl e
         | Inr x1 \<Rightarrow>
          (let tmp = vec_scale (- (pc_viscosity pc + pc_gamma pc * pc_rho pc)) x1;
               sm_control = \<lparr>max_steps = length (block1 src),
                             tol = (1 / 1000000) * l2_norm (block1 src), log_history = False\<rparr>
           in if initialize_fails L SparseILU schur then Inl ZeroDiagonal
              else case cg_solve L schur (block1 dst) (block1 src) (SparseILU, schur) sm_control of
                Inl e \<Rightarrow> Inl e
              | Inr x2 \<Rightarrow>
               (let dst1 = vec_scale (- pc_rho pc / pc_dt pc) x2;
                    dst1 = vec_add dst1 tmp;
                    utmp = sm_vmult L (blk01 system) dst1;
                    utmp = vec_scale (- 1) utmp;
                    utmp = vec_add utmp (block0 src);
                    a_control = \<lparr>max_steps = length (block0 src),
                                 tol = (1 / 1000000) * l2_norm (block0 src), log_history = False\<rparr>
                in case cg_solve L (blk00 system) (block0 dst) utmp
                          (PreconditionIdentity, blk00 system) a_control of
                     Inl e \<Rightarrow> Inl e
                   | Inr x3 \<Rightarrow>
                       Inr (\<lparr>block0 = x3, block1 = dst1\<rparr>,
                            [CG_Mp mp_control SparseILU,
                             Scale_Mp (- (pc_viscosity pc + pc_gamma pc * pc_rho pc)),
                             CG_Sm sm_control SparseILU,
                             Scale_Sm (- pc_rho pc / pc_dt pc),
                             Add_Mp_Sm, Vmult_BT, Subtract_From_v0,
                             CG_A a_control PreconditionIdentity]))))"

definition pns_vmult ::
  "linalg \<Rightarrow> block_schur_preconditioner \<Rightarrow> block_sparse_matrix \<Rightarrow> block_sparse_matrix
     \<Rightarrow> block_sparse_matrix \<Rightarrow> block_vector \<Rightarrow> block_vector
     \<Rightarrow> error + (block_vector \<times> vmult_call list)" where
  "pns_vmult L pc system mass schur dst src =
     (let utmp = block0 src;
          solver_control = \<lparr>max_steps = length (block1 src),
                            tol = (1 / 1000000) * l2_norm (block1 src), log_history = False\<rparr>;
          tmp = block1 src;
          tmp = vec_fill 0 tmp
      in if initialize_fails L PreconditionBlockJacobi (blk11 mass) then Inl ZeroDiagonal
         else case cg_solve L (blk11 mass) tmp (block1 src)
                     (PreconditionBlockJacobi, blk11 mass) solver_control of
           Inl e \<Rightarrow> Inl e
         | Inr x1 \<Rightarrow>
          (let tmp = vec_scale (- (pc_viscosity pc + pc_gamma pc * pc_rho pc)) x1
           in if initialize_fails L PreconditionBlockJacobi (blk11 schur) then Inl ZeroDiagonal
              else case cg_solve L (blk11 schur) (block1 dst) (block1 src)
                          (PreconditionBlockJacobi, blk11 schur) solver_control of
                Inl e \<Rightarrow> Inl e
              | Inr x2 \<Rightarrow>
               (let dst1 = vec_scale (- pc_rho pc / pc_dt pc) x2;
                    dst1 = vec_add dst1 tmp;
                    utmp = sm_vmult L (blk01 system) dst1;
                    utmp = vec_scale (- 1) utmp;
                    utmp = vec_add utmp (block0 src)
                in case direct_solve L (blk00 system) utmp of
                     Inl e \<Rightarrow> Inl e
                   | Inr x3 \<Rightarrow>
                       Inr (\<lparr>block0 = x3, block1 = dst1\<rparr>,
                            [CG_Mp solver_control PreconditionBlockJacobi,
                             Scale_Mp (- (pc_viscosity pc + pc_gamma pc * pc_rho pc)),
                             CG_Sm solver_control PreconditionBlockJacobi,
                             Scale_Sm (- pc_rho pc / pc_dt pc),
                             Add_Mp_Sm, Vmult_BT, Subtract_From_v0, Direct_A]))))"

subsection \<open>setup_dofs\<close>

definition imex_setup_dofs :: "femlib \<Rightarrow> imex_state \<Rightarrow> imex_state" where
  "imex_setup_dofs F s =
     (let dh = DoFs (triangulation s);
          (dof_u, dof_p) = count_dofs_per_block F dh
      in log_event SetupDofs (s\<lparr>dof_handler := dh, dofs_per_block := [dof_u, dof_p]\<rparr>))"

definition pns_setup_dofs :: "femlib \<Rightarrow> pns_state \<Rightarrow> pns_state" where
  "pns_setup_dofs F s =
     (let dh = DoFs (triangulation s);
          (dof_u, dof_p) = count_dofs_per_block F dh;
          owned = \<lparr>is_size = n_dofs F dh, is_elements = locally_owned_dofs F dh\<rparr>;
          relevant = \<lparr>is_size = n_dofs F dh, is_elements = extract_locally_relevant_dofs F dh\<rparr>
      in log_event SetupDofs
           (s\<lparr>dof_handler := dh, dofs_per_block := [dof_u, dof_p],
              owned_partitioning := [get_view 0 dof_u owned, get_view dof_u (dof_u + dof_p) owned],
              locally_relevant_dofs := relevant,
              relevant_partitioning :=
                [get_view 0 dof_u relevant, get_view dof_u (dof_u + dof_p) relevant]\<rparr>))"

subsection \<open>make_constraints\<close>

text \<open>The \<open>switch\<close> on the component flag. \<open>mask\<close> (here \<open>cmask\<close>) and \<open>augmented_value\<close> have \<open>dim + 1\<close>
  entries, so every index written (at most 2) is in range. \<open>value[k]\<close> is an unchecked
  \<open>std::vector\<close> read: beyond the end of \<open>value\<close> the behaviour of the program is undefined
  (in practice it reads garbage or dies). The model makes such a read the error
  \<open>ReadPastEnd\<close>, so that no result is claimed for it.\<close>

definition component_mask :: "nat \<Rightarrow> nat \<Rightarrow> real list \<Rightarrow> error + (bool list \<times> real list)" where
  "component_mask d flag value =
     (let cmask = replicate (d + 1) False;
          augmented_value = replicate (d + 1) (0::real)
      in if flag = 1 then
           (if length value < 1 then Inl ReadPastEnd
            else Inr (cmask[0 := True], augmented_value[0 := value ! 0]))
         else if flag = 2 then
           (if length value < 1 then Inl ReadPastEnd
            else Inr (cmask[1 := True], augmented_value[1 := value ! 0]))
         else if flag = 3 then
           (if length value < 2 then Inl ReadPastEnd
            else Inr (cmask[0 := True, 1 := True],
                      augmented_value[0 := value ! 0, 1 := value ! 1]))
         else if flag = 4 then
           (if length value < 1 then Inl ReadPastEnd
            else Inr (cmask[2 := True], augmented_value[2 := value ! 0]))
         else if flag = 5 then
           (if length value < 2 then Inl ReadPastEnd
            else Inr (cmask[0 := True, 2 := True],
                      augmented_value[0 := value ! 0, 2 := value ! 1]))
         else if flag = 6 then
           (if length value < 2 then Inl ReadPastEnd
            else Inr (cmask[1 := True, 2 := True],
                      augmented_value[1 := value ! 0, 2 := value ! 1]))
         else if flag = 7 then
           (if length value < 3 then Inl ReadPastEnd
            else Inr (cmask[0 := True, 1 := True, 2 := True],
                      augmented_value[0 := value ! 0, 1 := value ! 1, 2 := value ! 2]))
         else Inl UnrecognizedComponentFlag)"

text \<open>The body of the loop over \<open>fluid_dirichlet_bcs\<close>, the same text in both classes.\<close>

definition dirichlet_bc ::
  "params \<Rightarrow> nat \<times> nat \<times> real list \<Rightarrow> 'a fluid_state_scheme
     \<Rightarrow> (error \<times> 'a fluid_state_scheme) + 'a fluid_state_scheme" where
  "dirichlet_bc P itr s =
     (let id = fst itr; flag = fst (snd itr); value = snd (snd itr)
      in case component_mask (spacedim P) flag value of
           Inl e \<Rightarrow> Inl (e, s)
         | Inr (cmask, augmented_value) \<Rightarrow>
            (let f = (if use_hard_coded_values P = 1 then BoundaryValues
                      else ConstantFunction augmented_value);
                 s = s\<lparr>nonzero_constraints :=
                         cm_add (BoundaryInterpolation (dof_handler s) id f cmask)
                                (nonzero_constraints s)\<rparr>
             in Inr (s\<lparr>zero_constraints :=
                         cm_add (BoundaryInterpolation (dof_handler s) id
                                   (ZeroFunction (spacedim P + 1)) cmask)
                                (zero_constraints s)\<rparr>)))"

fun dirichlet_bcs ::
  "params \<Rightarrow> (nat \<times> nat \<times> real list) list \<Rightarrow> 'a fluid_state_scheme
     \<Rightarrow> (error \<times> 'a fluid_state_scheme) + 'a fluid_state_scheme" where
  "dirichlet_bcs P [] s = Inr s"
| "dirichlet_bcs P (itr # rest) s =
     (case dirichlet_bc P itr s of Inl e \<Rightarrow> Inl e | Inr s' \<Rightarrow> dirichlet_bcs P rest s')"

definition imex_make_constraints ::
  "params \<Rightarrow> imex_state \<Rightarrow> (error \<times> imex_state) + imex_state" where
  "imex_make_constraints P s =
     (let s = log_event MakeConstraints s;
          s = s\<lparr>nonzero_constraints := cm_clear, zero_constraints := cm_clear\<rparr>;
          s = s\<lparr>nonzero_constraints := cm_add (HangingNodes (dof_handler s)) (nonzero_constraints s)\<rparr>;
          s = s\<lparr>zero_constraints := cm_add (HangingNodes (dof_handler s)) (zero_constraints s)\<rparr>
      in case dirichlet_bcs P (fluid_dirichlet_bcs P) s of
           Inl e \<Rightarrow> Inl e
         | Inr s \<Rightarrow> Inr (s\<lparr>nonzero_constraints := cm_close (nonzero_constraints s),
                           zero_constraints := cm_close (zero_constraints s)\<rparr>))"

definition pns_make_constraints ::
  "params \<Rightarrow> pns_state \<Rightarrow> (error \<times> pns_state) + pns_state" where
  "pns_make_constraints P s =
     (let s = log_event MakeConstraints s;
          s = s\<lparr>nonzero_constraints := cm_clear, zero_constraints := cm_clear\<rparr>;
          s = s\<lparr>nonzero_constraints :=
                  (nonzero_constraints s)\<lparr>cm_local := Some (is_elements (locally_relevant_dofs s))\<rparr>,
                zero_constraints :=
                  (zero_constraints s)\<lparr>cm_local := Some (is_elements (locally_relevant_dofs s))\<rparr>\<rparr>;
          s = s\<lparr>nonzero_constraints := cm_add (HangingNodes (dof_handler s)) (nonzero_constraints s)\<rparr>;
          s = s\<lparr>zero_constraints := cm_add (HangingNodes (dof_handler s)) (zero_constraints s)\<rparr>
      in case dirichlet_bcs P (fluid_dirichlet_bcs P) s of
           Inl e \<Rightarrow> Inl e
         | Inr s \<Rightarrow> Inr (s\<lparr>nonzero_constraints := cm_close (nonzero_constraints s),
                           zero_constraints := cm_close (zero_constraints s)\<rparr>))"


subsection \<open>setup_cell_property and initialize_system\<close>

definition setup_cell_property :: "params \<Rightarrow> 'a fluid_state_scheme \<Rightarrow> 'a fluid_state_scheme" where
  "setup_cell_property P s =
     log_event SetupCellProperty
       (s\<lparr>cell_property :=
            map (\<lambda>c. replicate (n_q_points P)
                        \<lparr>indicator = 0, fsi_acceleration = replicate (spacedim P) 0,
                         fsi_stress = replicate (spacedim P * spacedim P) 0\<rparr>)
                (triangulation s)\<rparr>)"

definition imex_initialize_system :: "femlib \<Rightarrow> params \<Rightarrow> imex_state \<Rightarrow> imex_state" where
  "imex_initialize_system F P s =
     (let s = log_event InitializeSystem s;
          s = s\<lparr>preconditioner := None, system_matrix := bsm_clear, mass_matrix := bsm_clear,
                mass_schur := sm_clear\<rparr>;
          (p00, p01, p10, p11) = make_sparsity_pattern F (dof_handler s) (nonzero_constraints s);
          s = s\<lparr>sparsity_pattern :=
                  \<lparr>row_sizes = dofs_per_block s, col_sizes = dofs_per_block s,
                   pat00 = p00, pat01 = p01, pat10 = p10, pat11 = p11\<rparr>\<rparr>;
          s = s\<lparr>system_matrix := bsm_reinit (sparsity_pattern s),
                mass_matrix := bsm_reinit (sparsity_pattern s)\<rparr>;
          s = s\<lparr>present_solution := bv_reinit (dofs_per_block s),
                solution_increment := bv_reinit (dofs_per_block s),
                system_rhs := bv_reinit (dofs_per_block s)\<rparr>;
          schur_pattern = compute_mmult_pattern F (pat10 (sparsity_pattern s))
                                                  (pat01 (sparsity_pattern s));
          s = log_event ComputeMmultPattern s;
          s = s\<lparr>mass_schur_pattern := schur_pattern\<rparr>;
          s = s\<lparr>mass_schur := sm_reinit (dofs_per_block s ! 1) (dofs_per_block s ! 1)
                                         (mass_schur_pattern s)\<rparr>
      in setup_cell_property P s)"

definition pns_initialize_system :: "femlib \<Rightarrow> params \<Rightarrow> pns_state \<Rightarrow> pns_state" where
  "pns_initialize_system F P s =
     (let s = log_event InitializeSystem s;
          s = s\<lparr>preconditioner := None, system_matrix := bsm_clear, mass_matrix := bsm_clear,
                mass_schur_blocks := bsm_clear\<rparr>;
          (p00, p01, p10, p11) = make_sparsity_pattern F (dof_handler s) (nonzero_constraints s);
          dsp = \<lparr>row_sizes = dofs_per_block s, col_sizes = dofs_per_block s,
                 pat00 = p00, pat01 = p01, pat10 = p10, pat11 = p11\<rparr>;
          s = s\<lparr>sparsity_pattern := dsp\<rparr>;
          s = s\<lparr>system_matrix := bsm_reinit dsp, mass_matrix := bsm_reinit dsp\<rparr>;
          schur_dsp = \<lparr>row_sizes = dofs_per_block s, col_sizes = dofs_per_block s,
                       pat00 = [], pat01 = [], pat10 = [],
                       pat11 = compute_mmult_pattern F (pat10 (sparsity_pattern s))
                                                       (pat01 (sparsity_pattern s))\<rparr>;
          s = log_event ComputeMmultPattern s;
          s = s\<lparr>mass_schur_blocks := bsm_reinit schur_dsp\<rparr>;
          s = s\<lparr>present_solution := bv_reinit (map is_size (owned_partitioning s)),
                newton_update := bv_reinit (map is_size (owned_partitioning s)),
                evaluation_point := bv_reinit (map is_size (owned_partitioning s)),
                system_rhs := bv_reinit (map is_size (owned_partitioning s))\<rparr>
      in setup_cell_property P s)"

subsection \<open>assemble\<close>

text \<open>The body of the loop over the active cells. The element integrals (shape functions,
  quadrature) are the library's \<open>local_assembly\<close>. In InsIMEX \<open>local_matrix\<close> and
  \<open>local_mass_matrix\<close> are zeroed only when \<open>assemble_system\<close> holds, so they are carried
  from cell to cell; \<open>local_rhs\<close> is zeroed for every cell.\<close>

definition imex_assemble_cell ::
  "femlib \<Rightarrow> params \<Rightarrow> bool \<Rightarrow> bool \<Rightarrow> nat \<Rightarrow> real list \<times> real list \<times> imex_state
     \<Rightarrow> real list \<times> real list \<times> imex_state" where
  "imex_assemble_cell F P use_nonzero_constraints assemble_system i acc =
     (let local_matrix = fst acc; local_mass_matrix = fst (snd acc); s = snd (snd acc);
          p = cell_property s ! i;
          local_matrix = (if assemble_system then vec_fill 0 local_matrix else local_matrix);
          local_mass_matrix =
            (if assemble_system then vec_fill 0 local_mass_matrix else local_mass_matrix);
          local_rhs = replicate (dofs_per_cell P) (0::real);
          c = local_assembly F P (delta_t (time s)) i p [present_solution s];
          local_matrix = vec_add local_matrix (cell_matrix c);
          local_mass_matrix = vec_add local_mass_matrix (cell_mass_matrix c);
          local_rhs = vec_add local_rhs (cell_rhs c);
          constraints_used =
            (if use_nonzero_constraints then nonzero_constraints s else zero_constraints s)
      in if assemble_system
         then (let (A, b) = distribute_local_to_global F constraints_used local_matrix local_rhs
                              (local_dof_indices c) (system_matrix s) (system_rhs s);
                   s = s\<lparr>system_matrix := A, system_rhs := b\<rparr>
               in (local_matrix, local_mass_matrix,
                   s\<lparr>mass_matrix := distribute_local_to_global_matrix F constraints_used
                                       local_mass_matrix (local_dof_indices c) (mass_matrix s)\<rparr>))
         else (local_matrix, local_mass_matrix,
               s\<lparr>system_rhs := distribute_local_to_global_rhs F constraints_used local_rhs
                                  (local_dof_indices c) (system_rhs s)\<rparr>))"

definition imex_assemble :: "femlib \<Rightarrow> params \<Rightarrow> bool \<Rightarrow> bool \<Rightarrow> imex_state \<Rightarrow> imex_state" where
  "imex_assemble F P use_nonzero_constraints assemble_system s =
     (let s = (if assemble_system
               then s\<lparr>system_matrix := bsm_zero (system_matrix s),
                      mass_matrix := bsm_zero (mass_matrix s)\<rparr>
               else s);
          s = s\<lparr>system_rhs := bv_fill 0 (system_rhs s)\<rparr>;
          local_matrix = replicate (dofs_per_cell P * dofs_per_cell P) (0::real);
          local_mass_matrix = replicate (dofs_per_cell P * dofs_per_cell P) (0::real)
      in snd (snd (fold (imex_assemble_cell F P use_nonzero_constraints assemble_system)
                        [0 ..< length (triangulation s)]
                        (local_matrix, local_mass_matrix, s))))"

text \<open>ParallelNavierStokes zeroes all three local objects for every cell and always
  distributes matrix, right-hand side and mass matrix. The process-local view
  (\<open>is_locally_owned\<close>, \<open>compress\<close>) is not modelled: every cell is visited.\<close>

definition pns_assemble_cell :: "femlib \<Rightarrow> params \<Rightarrow> bool \<Rightarrow> nat \<Rightarrow> pns_state \<Rightarrow> pns_state" where
  "pns_assemble_cell F P use_nonzero_constraints i s =
     (let p = cell_property s ! i;
          local_matrix = replicate (dofs_per_cell P * dofs_per_cell P) (0::real);
          local_mass_matrix = replicate (dofs_per_cell P * dofs_per_cell P) (0::real);
          local_rhs = replicate (dofs_per_cell P) (0::real);
          c = local_assembly F P (delta_t (time s)) i p [evaluation_point s, present_solution s];
          local_matrix = vec_add local_matrix (cell_matrix c);
          local_mass_matrix = vec_add local_mass_matrix (cell_mass_matrix c);
          local_rhs = vec_add local_rhs (cell_rhs c);
          constraints_used =
            (if use_nonzero_constraints then nonzero_constraints s else zero_constraints s);
          (A, b) = distribute_local_to_global F constraints_used local_matrix local_rhs
                     (local_dof_indices c) (system_matrix s) (system_rhs s);
          s = s\<lparr>system_matrix := A, system_rhs := b\<rparr>
      in s\<lparr>mass_matrix := distribute_local_to_global_matrix F constraints_used
                              local_mass_matrix (local_dof_indices c) (mass_matrix s)\<rparr>)"

definition pns_assemble :: "femlib \<Rightarrow> params \<Rightarrow> bool \<Rightarrow> pns_state \<Rightarrow> pns_state" where
  "pns_assemble F P use_nonzero_constraints s =
     (let s = s\<lparr>system_matrix := bsm_zero (system_matrix s),
                mass_matrix := bsm_zero (mass_matrix s),
                system_rhs := bv_fill 0 (system_rhs s)\<rparr>
      in fold (pns_assemble_cell F P use_nonzero_constraints) [0 ..< length (triangulation s)] s)"

subsection \<open>solve\<close>

text \<open>\<open>*preconditioner\<close> on an empty pointer has no defined behaviour in C++; the model
  makes it the error \<open>NullPreconditioner\<close>. The preconditioner handed to the Krylov
  solver reads the solver's matrices as they are at the call.\<close>

definition imex_solve ::
  "linalg \<Rightarrow> femlib \<Rightarrow> params \<Rightarrow> bool \<Rightarrow> bool \<Rightarrow> imex_state
     \<Rightarrow> (error \<times> imex_state) + (imex_state \<times> nat \<times> real)" where
  "imex_solve L F P use_nonzero_constraints assemble_system s =
     (let s = (if assemble_system
               then (let (pc, schur, evs) =
                           imex_BlockSchurPreconditioner L (grad_div P) (viscosity P) (fluid_rho P)
                              (delta_t (time s)) (system_matrix s) (mass_matrix s) (mass_schur s)
                     in s\<lparr>preconditioner := Some pc, mass_schur := schur,
                          trace := trace s @ evs @ [NewPreconditioner]\<rparr>)
               else s);
          solver_control = \<lparr>max_steps = bsm_m (system_matrix s),
                            tol = (1 / 100000000) * bv_l2_norm (system_rhs s),
                            log_history = True\<rparr>
      in case preconditioner s of
           None \<Rightarrow> Inl (NullPreconditioner, s)
         | Some pc \<Rightarrow>
            (let s = log_event (FGMRES solver_control) s
             in case fgmres_solve L (system_matrix s) (solution_increment s) (system_rhs s)
                       (\<lambda>dst src. map_sum id fst
                          (imex_vmult L pc (system_matrix s) (mass_matrix s) (mass_schur s) dst src))
                       solver_control of
                  Inl e \<Rightarrow> Inl (e, s)
                | Inr (x, last_step, last_value) \<Rightarrow>
                   (let constraints_used =
                          (if use_nonzero_constraints then nonzero_constraints s
                           else zero_constraints s);
                        s = log_event (Distribute use_nonzero_constraints)
                              (s\<lparr>solution_increment := distribute F constraints_used x\<rparr>)
                    in Inr (s, last_step, last_value))))"

definition pns_solve ::
  "linalg \<Rightarrow> femlib \<Rightarrow> params \<Rightarrow> bool \<Rightarrow> pns_state
     \<Rightarrow> (error \<times> pns_state) + (pns_state \<times> nat \<times> real)" where
  "pns_solve L F P use_nonzero_constraints s =
     (let (pc, schur, evs) =
            pns_BlockSchurPreconditioner L (grad_div P) (viscosity P) (fluid_rho P)
               (delta_t (time s)) (owned_partitioning s) (system_matrix s) (mass_matrix s)
               (mass_schur_blocks s);
          s = s\<lparr>preconditioner := Some pc, mass_schur_blocks := schur,
                trace := trace s @ evs @ [NewPreconditioner]\<rparr>;
          solver_control = \<lparr>max_steps = bsm_m (system_matrix s),
                            tol = (1 / 100000000) * bv_l2_norm (system_rhs s),
                            log_history = True\<rparr>;
          s = log_event (FGMRES solver_control) s
      in case fgmres_solve L (system_matrix s) (newton_update s) (system_rhs s)
                (\<lambda>dst src. map_sum id fst
                   (pns_vmult L pc (system_matrix s) (mass_matrix s) (mass_schur_blocks s) dst src))
                solver_control of
           Inl e \<Rightarrow> Inl (e, s)
         | Inr (x, last_step, last_value) \<Rightarrow>
            (let constraints_used =
                   (if use_nonzero_constraints then nonzero_constraints s else zero_constraints s);
                 s = log_event (Distribute use_nonzero_constraints)
                       (s\<lparr>newton_update := distribute F constraints_used x\<rparr>)
             in Inr (s, last_step, last_value)))"


subsection \<open>refine_mesh\<close>

text \<open>Active cells are visited level by level: \<open>begin_active(l)\<close> to \<open>end()\<close> are the active
  cells of level \<open>l\<close> and above, \<open>begin_active(l)\<close> to \<open>end_active(l)\<close> those of level \<open>l\<close>
  (none when the mesh has no such level). \<open>n_levels()\<close> is the number of levels in use.\<close>

definition n_levels :: "triangulation \<Rightarrow> nat" where
  "n_levels tria = Suc (fold max (map level tria) 0)"

definition set_flags :: "(nat \<Rightarrow> bool \<times> bool) \<Rightarrow> triangulation \<Rightarrow> triangulation" where
  "set_flags fl tria =
     map (\<lambda>(i, c). c\<lparr>refine_flag := fst (fl i), coarsen_flag := snd (fl i)\<rparr>) (enumerate 0 tria)"

definition clear_refine_flags_from :: "nat \<Rightarrow> triangulation \<Rightarrow> triangulation" where
  "clear_refine_flags_from l tria =
     map (\<lambda>c. if l \<le> level c then c\<lparr>refine_flag := False\<rparr> else c) tria"

definition clear_coarsen_flags_at :: "nat \<Rightarrow> triangulation \<Rightarrow> triangulation" where
  "clear_coarsen_flags_at l tria =
     map (\<lambda>c. if level c = l then c\<lparr>coarsen_flag := False\<rparr> else c) tria"

text \<open>The first part of \<open>refine_mesh\<close>, the same text in both classes: estimate, flag with
  the fractions 0.6 and 0.4, clear the flags at the level bounds. It yields the flagged
  mesh that is then prepared and refined.\<close>

definition refine_mesh_flags ::
  "femlib \<Rightarrow> nat \<Rightarrow> nat \<Rightarrow> 'a fluid_state_scheme \<Rightarrow> triangulation" where
  "refine_mesh_flags F min_grid_level max_grid_level s =
     (let estimated_error_per_cell = estimate F (dof_handler s) (present_solution s);
          tria = set_flags (refine_and_coarsen_fixed_fraction F (triangulation s)
                              estimated_error_per_cell (6 / 10) (4 / 10))
                           (triangulation s);
          tria = (if n_levels tria > max_grid_level
                  then clear_refine_flags_from max_grid_level tria else tria)
      in clear_coarsen_flags_at min_grid_level tria)"

definition imex_refine_mesh ::
  "femlib \<Rightarrow> params \<Rightarrow> nat \<Rightarrow> nat \<Rightarrow> imex_state \<Rightarrow> (error \<times> imex_state) + imex_state" where
  "imex_refine_mesh F P min_grid_level max_grid_level s =
     (let s = s\<lparr>triangulation := refine_mesh_flags F min_grid_level max_grid_level s,
                trace := trace s @ [EstimateError, FlagCells (6 / 10) (4 / 10),
                                    ClearFlags min_grid_level max_grid_level]\<rparr>;
          buffer = present_solution s;
          solution_transfer = dof_handler s;
          s = log_event PrepareRefinement
                (s\<lparr>triangulation := prepare_coarsening_and_refinement F (triangulation s)\<rparr>);
          s = log_event Snapshot s;
          s = log_event ExecuteRefinement
                (s\<lparr>triangulation := execute_coarsening_and_refinement F (triangulation s)\<rparr>);
          s = imex_setup_dofs F s
      in case imex_make_constraints P s of
           Inl e \<Rightarrow> Inl e
         | Inr s \<Rightarrow>
            (let s = imex_initialize_system F P s;
                 s = log_event Interpolate
                       (s\<lparr>present_solution := interpolate F solution_transfer buffer
                                                 (dof_handler s) (present_solution s)\<rparr>)
             in Inr (log_event DistributeNonzero
                       (s\<lparr>present_solution :=
                            distribute F (nonzero_constraints s) (present_solution s)\<rparr>))))"

definition pns_refine_mesh ::
  "femlib \<Rightarrow> params \<Rightarrow> nat \<Rightarrow> nat \<Rightarrow> pns_state \<Rightarrow> (error \<times> pns_state) + pns_state" where
  "pns_refine_mesh F P min_grid_level max_grid_level s =
     (let s = s\<lparr>triangulation := refine_mesh_flags F min_grid_level max_grid_level s,
                trace := trace s @ [EstimateError, FlagCells (6 / 10) (4 / 10),
                                    ClearFlags min_grid_level max_grid_level]\<rparr>;
          trans = dof_handler s;
          s = log_event PrepareRefinement
                (s\<lparr>triangulation := prepare_coarsening_and_refinement F (triangulation s)\<rparr>);
          saved = present_solution s;
          s = log_event Snapshot s;
          s = log_event ExecuteRefinement
                (s\<lparr>triangulation := execute_coarsening_and_refinement F (triangulation s)\<rparr>);
          s = pns_setup_dofs F s
      in case pns_make_constraints P s of
           Inl e \<Rightarrow> Inl e
         | Inr s \<Rightarrow>
            (let s = pns_initialize_system F P s;
                 tmp = newton_update s;
                 tmp = bv_fill 0 tmp;
                 tmp = interpolate F trans saved (dof_handler s) tmp;
                 s = log_event Interpolate s;
                 tmp = distribute F (nonzero_constraints s) tmp;
                 s = log_event DistributeNonzero s
             in Inr (s\<lparr>present_solution := tmp\<rparr>)))"

subsection \<open>run_one_step and run\<close>

definition imex_run_one_step ::
  "linalg \<Rightarrow> femlib \<Rightarrow> params \<Rightarrow> imex_state \<Rightarrow> (error \<times> imex_state) + imex_state" where
  "imex_run_one_step L F P s =
     (let s = (if timestep (time s) = 0 then log_event (OutputResults 0) s else s);
          s = s\<lparr>time := time_increment (time s)\<rparr>;
          s = log_event (TimeIncrement (timestep (time s))) s;
          s = s\<lparr>solution_increment := bv_fill 0 (solution_increment s)\<rparr>;
          apply_nonzero_constraints = (timestep (time s) = 1);
          assemble_system = (timestep (time s) < 3);
          s = log_event (CallAssemble (timestep (time s)) 0 apply_nonzero_constraints
                           assemble_system) s;
          s = imex_assemble F P apply_nonzero_constraints assemble_system s;
          s = log_event (CallSolve (timestep (time s)) 0 apply_nonzero_constraints
                           assemble_system) s
      in case imex_solve L F P apply_nonzero_constraints assemble_system s of
           Inl e \<Rightarrow> Inl e
         | Inr (s, state) \<Rightarrow>
            (let s = s\<lparr>present_solution := bv_add (present_solution s) (solution_increment s)\<rparr>;
                 s = (if time_to_output F (time s)
                      then log_event (OutputResults (timestep (time s))) s else s)
             in if time_to_refine F (time s) then imex_refine_mesh F P 1 3 s else Inr s))"

text \<open>The time loops run while \<open>time.end() - time.current() > 1e-12\<close>, which need not end
  (a step size that is not positive): they take a bound on the number of steps, and
  \<open>None\<close> says that the bound was reached with the loop condition still true.\<close>

fun imex_time_loop ::
  "linalg \<Rightarrow> femlib \<Rightarrow> params \<Rightarrow> nat \<Rightarrow> imex_state \<Rightarrow> ((error \<times> imex_state) + imex_state) option" where
  "imex_time_loop L F P 0 s =
     (if time_end (time s) - time_current (time s) > 1 / 10 ^ 12 then None else Some (Inr s))"
| "imex_time_loop L F P (Suc n) s =
     (if time_end (time s) - time_current (time s) > 1 / 10 ^ 12
      then (case imex_run_one_step L F P s of
              Inl e \<Rightarrow> Some (Inl e)
            | Inr s' \<Rightarrow> imex_time_loop L F P n s')
      else Some (Inr s))"

definition imex_run ::
  "linalg \<Rightarrow> femlib \<Rightarrow> params \<Rightarrow> nat \<Rightarrow> imex_state \<Rightarrow> ((error \<times> imex_state) + imex_state) option" where
  "imex_run L F P n s =
     (let s = s\<lparr>triangulation := refine_global F (global_refinement P) (triangulation s)\<rparr>;
          s = imex_setup_dofs F s
      in case imex_make_constraints P s of
           Inl e \<Rightarrow> Some (Inl e)
         | Inr s \<Rightarrow> imex_time_loop L F P n (imex_initialize_system F P s))"

text \<open>One pass through the body of the Newton loop of \<open>run_one_step\<close>; it returns the new
  members with \<open>current_residual\<close>.\<close>

definition pns_newton_iteration ::
  "linalg \<Rightarrow> femlib \<Rightarrow> params \<Rightarrow> bool \<Rightarrow> nat \<Rightarrow> pns_state
     \<Rightarrow> (error \<times> pns_state) + (pns_state \<times> real)" where
  "pns_newton_iteration L F P apply_nonzero_constraints outer_iteration s =
     (let s = s\<lparr>newton_update := bv_fill 0 (newton_update s)\<rparr>;
          s = log_event (CallAssemble (timestep (time s)) outer_iteration
                           (apply_nonzero_constraints \<and> outer_iteration = 0) True) s;
          s = pns_assemble F P (apply_nonzero_constraints \<and> outer_iteration = 0) s;
          s = log_event (CallSolve (timestep (time s)) outer_iteration
                           (apply_nonzero_constraints \<and> outer_iteration = 0) True) s
      in case pns_solve L F P (apply_nonzero_constraints \<and> outer_iteration = 0) s of
           Inl e \<Rightarrow> Inl e
         | Inr (s, state) \<Rightarrow>
            (let current_residual = bv_l2_norm (system_rhs s);
                 tmp = bv_reinit (map is_size (owned_partitioning s));
                 tmp = evaluation_point s;
                 tmp = bv_add tmp (newton_update s);
                 s = log_event NewtonUpdate s;
                 tmp = distribute F (nonzero_constraints s) tmp;
                 s = log_event DistributeNonzero s
             in Inr (s\<lparr>evaluation_point := tmp\<rparr>, current_residual)))"

function pns_newton_loop ::
  "linalg \<Rightarrow> femlib \<Rightarrow> params \<Rightarrow> bool \<Rightarrow> real \<Rightarrow> real \<Rightarrow> real \<Rightarrow> nat \<Rightarrow> pns_state
     \<Rightarrow> (error \<times> pns_state) + pns_state" where
  "pns_newton_loop L F P apply_nonzero_constraints current_residual initial_residual
       relative_residual outer_iteration s =
     (if relative_residual > fluid_tolerance P \<and> current_residual > 1 / 10 ^ 14
      then if \<not> outer_iteration < fluid_max_iterations P
           then Inl (TooManyNewtonIterations, s)
           else (case pns_newton_iteration L F P apply_nonzero_constraints outer_iteration s of
                   Inl e \<Rightarrow> Inl e
                 | Inr (s', current_residual') \<Rightarrow>
                    (let initial_residual' =
                           (if outer_iteration = 0 then current_residual' else initial_residual)
                     in pns_newton_loop L F P apply_nonzero_constraints current_residual'
                          initial_residual' (current_residual' / initial_residual')
                          (outer_iteration + 1) s'))
      else Inr s)"
  by pat_completeness auto
termination
  by (relation "measure (\<lambda>(L, F, P, a, c, i, r, k, s). fluid_max_iterations P - k)") auto

definition pns_run_one_step ::
  "linalg \<Rightarrow> femlib \<Rightarrow> params \<Rightarrow> bool \<Rightarrow> pns_state \<Rightarrow> (error \<times> pns_state) + pns_state" where
  "pns_run_one_step L F P apply_nonzero_constraints s =
     (let s = (if timestep (time s) = 0 then log_event (OutputResults 0) s else s);
          s = s\<lparr>time := time_increment (time s)\<rparr>;
          s = log_event (TimeIncrement (timestep (time s))) s;
          s = s\<lparr>evaluation_point := present_solution s\<rparr>
      in case pns_newton_loop L F P apply_nonzero_constraints 1 1 1 0 s of
           Inl e \<Rightarrow> Inl e
         | Inr s \<Rightarrow>
            (let s = s\<lparr>present_solution := evaluation_point s\<rparr>;
                 s = (if time_to_output F (time s)
                      then log_event (OutputResults (timestep (time s))) s else s)
             in if time_to_refine F (time s) then pns_refine_mesh F P 1 3 s else Inr s))"

fun pns_time_loop ::
  "linalg \<Rightarrow> femlib \<Rightarrow> params \<Rightarrow> nat \<Rightarrow> pns_state \<Rightarrow> ((error \<times> pns_state) + pns_state) option" where
  "pns_time_loop L F P 0 s =
     (if time_end (time s) - time_current (time s) > 1 / 10 ^ 12 then None else Some (Inr s))"
| "pns_time_loop L F P (Suc n) s =
     (if time_end (time s) - time_current (time s) > 1 / 10 ^ 12
      then (case pns_run_one_step L F P False s of
              Inl e \<Rightarrow> Some (Inl e)
            | Inr s' \<Rightarrow> pns_time_loop L F P n s')
      else Some (Inr s))"

definition pns_run ::
  "linalg \<Rightarrow> femlib \<Rightarrow> params \<Rightarrow> nat \<Rightarrow> pns_state \<Rightarrow> ((error \<times> pns_state) + pns_state) option" where
  "pns_run L F P n s =
     (let s = s\<lparr>triangulation := refine_global F (global_refinement P) (triangulation s)\<rparr>;
          s = pns_setup_dofs F s
      in case pns_make_constraints P s of
           Inl e \<Rightarrow> Some (Inl e)
         | Inr s \<Rightarrow>
            (case pns_run_one_step L F P True (pns_initialize_system F P s) of
               Inl e \<Rightarrow> Some (Inl e)
             | Inr s \<Rightarrow> pns_time_loop L F P n s))"


text \<open>The state an outcome carries, whether the run ended or was aborted.\<close>

definition state_of :: "(error \<times> 's) + 's \<Rightarrow> 's" where
  "state_of r = (case r of Inl (e, s) \<Rightarrow> s | Inr s \<Rightarrow> s)"

subsection \<open>Concrete inputs\<close>

text \<open>A small instance of the library for the examples: a one-cell mesh with two velocity
  and one pressure degree of freedom; the solvers return the right-hand side they are
  given.\<close>

definition demo_linalg :: linalg where
  "demo_linalg =
     \<lparr>cg_solve = (\<lambda>A x0 b P c. Inr b),
      direct_solve = (\<lambda>A b. Inr b),
      fgmres_solve = (\<lambda>A x0 b P c. Inr (b, 1, 0)),
      sm_vmult = (\<lambda>A v. replicate (sm_m A) 0),
      precondition_Jacobi = (\<lambda>A v. v),
      mmult = (\<lambda>C A B V flag. C),
      initialize_fails = (\<lambda>k A. False)\<rparr>"

definition demo_femlib :: femlib where
  "demo_femlib =
     \<lparr>count_dofs_per_block = (\<lambda>dh. (2, 1)),
      locally_owned_dofs = (\<lambda>dh. [0, 1, 2]),
      extract_locally_relevant_dofs = (\<lambda>dh. [0, 1, 2]),
      n_dofs = (\<lambda>dh. 3),
      make_sparsity_pattern = (\<lambda>dh c. ([(0, 0), (1, 1)], [(0, 0)], [(0, 0)], [])),
      compute_mmult_pattern = (\<lambda>p q. [(0, 0)]),
      local_assembly = (\<lambda>P dt i p fields.
         \<lparr>cell_matrix = [1], cell_mass_matrix = [1], cell_rhs = [0], local_dof_indices = [0]\<rparr>),
      distribute_local_to_global = (\<lambda>c lm lr dofs A b. (A, b)),
      distribute_local_to_global_matrix = (\<lambda>c lm dofs A. A),
      distribute_local_to_global_rhs = (\<lambda>c lr dofs b. b),
      distribute = (\<lambda>c v. v),
      estimate = (\<lambda>dh v. [0]),
      refine_and_coarsen_fixed_fraction = (\<lambda>tria err top bottom i. (True, False)),
      prepare_coarsening_and_refinement = (\<lambda>tria. tria),
      execute_coarsening_and_refinement = (\<lambda>tria. tria),
      refine_global = (\<lambda>n tria. tria),
      interpolate = (\<lambda>old saved new v. v),
      time_to_output = (\<lambda>t. False),
      time_to_refine = (\<lambda>t. False)\<rparr>"

definition demo_params :: params where
  "demo_params =
     \<lparr>spacedim = 2, viscosity = 1, fluid_rho = 1, grad_div = 0, fluid_tolerance = 1 / 2,
      fluid_max_iterations = 5, global_refinement = 0, use_hard_coded_values = 0,
      fluid_dirichlet_bcs = [(0, 3, [1, 0]), (1, 1, [0])], n_q_points = 1, dofs_per_cell = 1\<rparr>"

definition bad_flag_params :: params where
  "bad_flag_params = demo_params\<lparr>fluid_dirichlet_bcs := [(0, 3, [1, 0]), (1, 8, [0])]\<rparr>"

definition demo_block_vector :: block_vector where
  "demo_block_vector = \<lparr>block0 = [], block1 = []\<rparr>"

definition demo_pattern :: block_sparsity_pattern where
  "demo_pattern = \<lparr>row_sizes = [], col_sizes = [], pat00 = [], pat01 = [], pat10 = [], pat11 = []\<rparr>"

definition demo_time :: time where
  "demo_time = \<lparr>time_current = 0, delta_t = 1 / 100, timestep = 0, time_end = 1 / 100\<rparr>"

text \<open>The two solver objects as their constructors leave them, on a mesh of one cell.\<close>

definition demo_imex :: imex_state where
  "demo_imex =
     \<lparr>triangulation = [\<lparr>level = 0, refine_flag = False, coarsen_flag = False\<rparr>],
      dof_handler = DoFs [], dofs_per_block = [],
      nonzero_constraints = cm_clear, zero_constraints = cm_clear,
      sparsity_pattern = demo_pattern, system_matrix = bsm_clear, mass_matrix = bsm_clear,
      present_solution = demo_block_vector, system_rhs = demo_block_vector,
      preconditioner = None, cell_property = [], time = demo_time, trace = [],
      mass_schur_pattern = [], mass_schur = sm_clear, solution_increment = demo_block_vector\<rparr>"

definition demo_pns :: pns_state where
  "demo_pns =
     \<lparr>triangulation = [\<lparr>level = 0, refine_flag = False, coarsen_flag = False\<rparr>],
      dof_handler = DoFs [], dofs_per_block = [],
      nonzero_constraints = cm_clear, zero_constraints = cm_clear,
      sparsity_pattern = demo_pattern, system_matrix = bsm_clear, mass_matrix = bsm_clear,
      present_solution = demo_block_vector, system_rhs = demo_block_vector,
      preconditioner = None, cell_property = [], time = demo_time, trace = [],
      mass_schur_blocks = bsm_clear, newton_update = demo_block_vector,
      evaluation_point = demo_block_vector, owned_partitioning = [],
      relevant_partitioning = [],
      locally_relevant_dofs = \<lparr>is_size = 0, is_elements = []\<rparr>\<rparr>"

text \<open>The number of entries of \<open>value\<close> that the case of a component flag reads (none
  for an unrecognised flag), and the entries of the configuration that supply them.\<close>

definition values_read :: "nat \<Rightarrow> nat" where
  "values_read flag =
     (if flag = 1 \<or> flag = 2 \<or> flag = 4 then 1
      else if flag = 3 \<or> flag = 5 \<or> flag = 6 then 2
      else if flag = 7 then 3 else 0)"

definition values_present :: "nat \<times> nat \<times> real list \<Rightarrow> bool" where
  "values_present itr = (values_read (fst (snd itr)) \<le> length (snd (snd itr)))"

text \<open>A well-formed entry: a recognised flag with its values.\<close>

definition entry_ok :: "nat \<times> nat \<times> real list \<Rightarrow> bool" where
  "entry_ok itr = (fst (snd itr) \<in> {1..7} \<and> values_present itr)"

text \<open>A configuration with a recognised flag whose value list is empty.\<close>

definition short_value_params :: params where
  "short_value_params = demo_params\<lparr>fluid_dirichlet_bcs := [(0, 1, [])]\<rparr>"

text \<open>What the claims call assembling the right-hand side alone: starting from the zeroed
  vector, the local right-hand side of every cell, computed from the present solution, is
  distributed; no matrix is touched.\<close>

definition rhs_contribution ::
  "femlib \<Rightarrow> params \<Rightarrow> bool \<Rightarrow> imex_state \<Rightarrow> nat \<Rightarrow> block_vector \<Rightarrow> block_vector" where
  "rhs_contribution F P use_nonzero_constraints s i b =
     (let c = local_assembly F P (delta_t (time s)) i (cell_property s ! i) [present_solution s]
      in distribute_local_to_global_rhs F
           (if use_nonzero_constraints then nonzero_constraints s else zero_constraints s)
           (vec_add (replicate (dofs_per_cell P) 0) (cell_rhs c)) (local_dof_indices c) b)"

definition rhs_only_assembly :: "femlib \<Rightarrow> params \<Rightarrow> bool \<Rightarrow> imex_state \<Rightarrow> block_vector" where
  "rhs_only_assembly F P use_nonzero_constraints s =
     fold (rhs_contribution F P use_nonzero_constraints s) [0 ..< length (triangulation s)]
          (bv_fill 0 (system_rhs s))"

text \<open>\<open>assembly_frame s s'\<close>: the members of \<open>s'\<close> are those of \<open>s\<close> except for the
  system matrix, the mass matrix and the right-hand side.\<close>

definition assembly_frame :: "'a fluid_state_scheme \<Rightarrow> 'a fluid_state_scheme \<Rightarrow> bool" where
  "assembly_frame s s' =
     (s'\<lparr>system_matrix := system_matrix s, mass_matrix := mass_matrix s,
         system_rhs := system_rhs s\<rparr> = s)"

text \<open>The state a call of \<open>solve\<close>, or a pass of the Newton loop, ends in.\<close>

definition solve_state :: "(error \<times> 's) + ('s \<times> 'b) \<Rightarrow> 's" where
  "solve_state r = (case r of Inl (e, s) \<Rightarrow> s | Inr (s, v) \<Rightarrow> s)"

text \<open>The choice of constraint set the claims state for the Newton controller, as a test
  on the recorded calls: the nonzero set exactly at outer iteration 0 of time step 1.\<close>

fun newton_flags_ok :: "event \<Rightarrow> bool" where
  "newton_flags_ok (CallAssemble n k nz asm) = (nz = (n = 1 \<and> k = 0))"
| "newton_flags_ok (CallSolve n k nz asm) = (nz = (n = 1 \<and> k = 0))"
| "newton_flags_ok _ = True"

text \<open>The events of \<open>refine_mesh\<close>, whatever the outcome.\<close>

definition refine_events :: "nat \<Rightarrow> nat \<Rightarrow> bool \<Rightarrow> event list" where
  "refine_events lo hi completed =
     [EstimateError, FlagCells (6 / 10) (4 / 10), ClearFlags lo hi, PrepareRefinement,
      Snapshot, ExecuteRefinement, SetupDofs, MakeConstraints]
     @ (if completed
        then [InitializeSystem, ComputeMmultPattern, SetupCellProperty, Interpolate,
              DistributeNonzero]
        else [])"


text \<open>The recorded calls of \<open>assemble\<close> and \<open>solve\<close>, and the builds of the Schur surrogate.\<close>

fun is_call :: "event \<Rightarrow> bool" where
  "is_call (CallAssemble n k nz asm) = True"
| "is_call (CallSolve n k nz asm) = True"
| "is_call _ = False"

fun is_schur_build :: "event \<Rightarrow> bool" where
  "is_schur_build (MMult flag) = True"
| "is_schur_build _ = False"

text \<open>The choice of flags the claims state for the IMEX controller, as a test on the
  recorded calls: the nonzero constraints exactly in time step 1, the matrices rebuilt
  exactly in time steps 1 and 2.\<close>

fun imex_flags_ok :: "event \<Rightarrow> bool" where
  "imex_flags_ok (CallAssemble n k nz asm) = (nz = (n = 1) \<and> asm = (n < 3))"
| "imex_flags_ok (CallSolve n k nz asm) = (nz = (n = 1) \<and> asm = (n < 3))"
| "imex_flags_ok _ = True"

text \<open>\<open>same_operator s s'\<close>: the linear operator and its preconditioner are the same objects
  with the same content in \<open>s'\<close> as in \<open>s\<close>.\<close>

definition same_operator :: "imex_state \<Rightarrow> imex_state \<Rightarrow> bool" where
  "same_operator s s' =
     (system_matrix s' = system_matrix s \<and> mass_matrix s' = mass_matrix s
      \<and> mass_schur s' = mass_schur s \<and> preconditioner s' = preconditioner s)"

text \<open>Inputs for the examples of the IMEX controller: clocks ending after two and after
  three steps, and a library whose assembly adds 1 to every entry of the velocity block
  and whose cadence asks for a refinement at the end of time step 2.\<close>

definition two_step_imex :: imex_state where
  "two_step_imex = demo_imex\<lparr>time := demo_time\<lparr>time_end := 2 / 100\<rparr>\<rparr>"

definition three_step_imex :: imex_state where
  "three_step_imex = demo_imex\<lparr>time := demo_time\<lparr>time_end := 3 / 100\<rparr>\<rparr>"

definition assembling_femlib :: femlib where
  "assembling_femlib =
     demo_femlib\<lparr>distribute_local_to_global := (\<lambda>c lm lr dofs A b.
        (A\<lparr>blk00 := (blk00 A)\<lparr>sm_entries := map (\<lambda>(ij, v). (ij, v + 1)) (sm_entries (blk00 A))\<rparr>\<rparr>,
         b))\<rparr>"

definition refining_femlib :: femlib where
  "refining_femlib = assembling_femlib\<lparr>time_to_refine := (\<lambda>t. timestep t = 2)\<rparr>"

text \<open>The error an outcome carries, if the run was aborted.\<close>

definition error_of :: "(error \<times> 's) + 's \<Rightarrow> error option" where
  "error_of r = (case r of Inl (e, s) \<Rightarrow> Some e | Inr s \<Rightarrow> None)"

text \<open>The IMEX solver as it stands after two time steps of a run, with the end time moved
  to step 4.\<close>

definition step2_imex :: imex_state where
  "step2_imex =
     (case imex_run demo_linalg assembling_femlib demo_params 2 two_step_imex of
        Some (Inr s) \<Rightarrow> s\<lparr>time := (time s)\<lparr>time_end := 4 / 100\<rparr>\<rparr>
      | _ \<Rightarrow> demo_imex)"


text \<open>A preconditioner object and a system matrix with two velocity rows and one pressure
  row, for the examples of \<open>vmult\<close>.\<close>

definition demo_preconditioner :: block_schur_preconditioner where
  "demo_preconditioner = \<lparr>pc_gamma = 0, pc_viscosity = 1, pc_rho = 1, pc_dt = 1 / 2\<rparr>"

definition demo_system :: block_sparse_matrix where
  "demo_system =
     bsm_reinit \<lparr>row_sizes = [2, 1], col_sizes = [2, 1], pat00 = [(0, 0), (1, 1)],
                 pat01 = [(0, 0)], pat10 = [(0, 0)], pat11 = [(0, 0)]\<rparr>"

text \<open>What the claims call a constraint set rebuilt from scratch: on the handler \<open>dh\<close>, the
  hanging-node constraints, then one boundary interpolation for every Dirichlet entry of
  the configuration, in the order of the entries, with the mask and the values of its
  component flag (the zero function for the zero set), and the set closed.\<close>

definition boundary_line ::
  "params \<Rightarrow> dof_handler \<Rightarrow> bool \<Rightarrow> nat \<times> nat \<times> real list \<Rightarrow> constraint_line list" where
  "boundary_line P dh nonzero itr =
     (case component_mask (spacedim P) (fst (snd itr)) (snd (snd itr)) of
        Inl e \<Rightarrow> []
      | Inr (cmask, augmented_value) \<Rightarrow>
          [BoundaryInterpolation dh (fst itr)
             (if nonzero
              then (if use_hard_coded_values P = 1 then BoundaryValues
                    else ConstantFunction augmented_value)
              else ZeroFunction (spacedim P + 1))
             cmask])"

definition fresh_constraints ::
  "params \<Rightarrow> dof_handler \<Rightarrow> nat list option \<Rightarrow> bool \<Rightarrow> constraint_matrix" where
  "fresh_constraints P dh loc nonzero =
     \<lparr>cm_lines = HangingNodes dh # concat (map (boundary_line P dh nonzero) (fluid_dirichlet_bcs P)),
      cm_local = loc, cm_closed = True\<rparr>"

section \<open>Properties\<close>

subsection \<open>Component flags of the Dirichlet boundary conditions\<close>

lemma component_mask_ok:
  "flag \<in> {1..7} \<Longrightarrow> values_read flag \<le> length v \<Longrightarrow> \<exists>m. component_mask d flag v = Inr m"
proof -
  assume "flag \<in> {1..7}" and l: "values_read flag \<le> length v"
  then have "flag = 1 \<or> flag = 2 \<or> flag = 3 \<or> flag = 4 \<or> flag = 5 \<or> flag = 6 \<or> flag = 7"
    by auto
  with l show ?thesis
    by (auto simp: component_mask_def Let_def values_read_def)
qed

lemma component_mask_bad:
  "flag \<notin> {1..7} \<Longrightarrow> component_mask d flag v = Inl UnrecognizedComponentFlag"
proof -
  assume a: "flag \<notin> {1..7}"
  then have "flag = 0 \<or> 7 < flag" by auto
  then show ?thesis by (auto simp: component_mask_def Let_def)
qed

lemma component_mask_short:
  "flag \<in> {1..7} \<Longrightarrow> \<not> values_read flag \<le> length v \<Longrightarrow>
     component_mask d flag v = Inl ReadPastEnd"
proof -
  assume "flag \<in> {1..7}" and l: "\<not> values_read flag \<le> length v"
  then have "flag = 1 \<or> flag = 2 \<or> flag = 3 \<or> flag = 4 \<or> flag = 5 \<or> flag = 6 \<or> flag = 7"
    by auto
  with l show ?thesis
    by (auto simp: component_mask_def Let_def values_read_def not_le)
qed

lemma component_mask_fail:
  "\<not> (flag \<in> {1..7} \<and> values_read flag \<le> length v) \<Longrightarrow> \<exists>e. component_mask d flag v = Inl e"
  using component_mask_bad[of flag d v] component_mask_short[of flag v d] by blast

lemma dirichlet_bc_ok:
  "entry_ok itr \<Longrightarrow>
     \<exists>s'. dirichlet_bc P itr s = Inr s' \<and> trace s' = trace s \<and> time s' = time s
        \<and> cm_closed (nonzero_constraints s') = cm_closed (nonzero_constraints s)
        \<and> cm_closed (zero_constraints s') = cm_closed (zero_constraints s)"
proof -
  assume "entry_ok itr"
  then have "fst (snd itr) \<in> {1..7}" "values_read (fst (snd itr)) \<le> length (snd (snd itr))"
    by (simp_all add: entry_ok_def values_present_def)
  from component_mask_ok[OF this, of "spacedim P"]
  obtain m where m: "component_mask (spacedim P) (fst (snd itr)) (snd (snd itr)) = Inr m"
    by blast
  show ?thesis
    by (cases m) (simp add: dirichlet_bc_def Let_def m cm_add_def)
qed

lemma dirichlet_bc_bad:
  "fst (snd itr) \<notin> {1..7} \<Longrightarrow> dirichlet_bc P itr s = Inl (UnrecognizedComponentFlag, s)"
  by (simp add: dirichlet_bc_def Let_def component_mask_bad)

lemma dirichlet_bc_fail:
  "\<not> entry_ok itr \<Longrightarrow> \<exists>e. dirichlet_bc P itr s = Inl (e, s)"
proof -
  assume "\<not> entry_ok itr"
  then obtain e where "component_mask (spacedim P) (fst (snd itr)) (snd (snd itr)) = Inl e"
    using component_mask_fail[of "fst (snd itr)" "snd (snd itr)" "spacedim P"]
    by (auto simp: entry_ok_def values_present_def)
  then show ?thesis by (simp add: dirichlet_bc_def Let_def)
qed

lemma dirichlet_bcs_ok:
  "\<forall>itr \<in> set bcs. entry_ok itr \<Longrightarrow>
     \<exists>s'. dirichlet_bcs P bcs s = Inr s' \<and> trace s' = trace s \<and> time s' = time s
        \<and> cm_closed (nonzero_constraints s') = cm_closed (nonzero_constraints s)
        \<and> cm_closed (zero_constraints s') = cm_closed (zero_constraints s)"
proof (induction bcs arbitrary: s)
  case Nil
  then show ?case by simp
next
  case (Cons itr rest)
  then have "entry_ok itr" by simp
  from dirichlet_bc_ok[OF this, of P s] obtain s1 where
    s1: "dirichlet_bc P itr s = Inr s1" "trace s1 = trace s" "time s1 = time s"
        "cm_closed (nonzero_constraints s1) = cm_closed (nonzero_constraints s)"
        "cm_closed (zero_constraints s1) = cm_closed (zero_constraints s)" by blast
  from Cons have "\<forall>itr \<in> set rest. entry_ok itr" by simp
  from Cons.IH[OF this, of s1] s1 show ?case by auto
qed

lemma dirichlet_bcs_bad:
  "\<forall>itr \<in> set bcs. values_present itr \<Longrightarrow>
   \<not> (\<forall>itr \<in> set bcs. fst (snd itr) \<in> {1..7}) \<Longrightarrow>
     \<exists>s'. dirichlet_bcs P bcs s = Inl (UnrecognizedComponentFlag, s') \<and> trace s' = trace s
        \<and> time s' = time s
        \<and> cm_closed (nonzero_constraints s') = cm_closed (nonzero_constraints s)
        \<and> cm_closed (zero_constraints s') = cm_closed (zero_constraints s)"
proof (induction bcs arbitrary: s)
  case Nil
  then show ?case by simp
next
  case (Cons itr rest)
  show ?case
  proof (cases "fst (snd itr) \<in> {1..7}")
    case True
    with Cons.prems(1) have "entry_ok itr" by (simp add: entry_ok_def)
    from dirichlet_bc_ok[OF this, of P s] obtain s1 where
      s1: "dirichlet_bc P itr s = Inr s1" "trace s1 = trace s" "time s1 = time s"
        "cm_closed (nonzero_constraints s1) = cm_closed (nonzero_constraints s)"
        "cm_closed (zero_constraints s1) = cm_closed (zero_constraints s)" by blast
    from Cons.prems True have "\<forall>itr \<in> set rest. values_present itr"
      "\<not> (\<forall>itr \<in> set rest. fst (snd itr) \<in> {1..7})" by simp_all
    from Cons.IH[OF this, of s1] s1 show ?thesis by auto
  next
    case False
    then show ?thesis by (simp add: dirichlet_bc_bad)
  qed
qed

lemma dirichlet_bcs_fail:
  "\<not> (\<forall>itr \<in> set bcs. entry_ok itr) \<Longrightarrow>
     \<exists>e s'. dirichlet_bcs P bcs s = Inl (e, s') \<and> trace s' = trace s
        \<and> time s' = time s
        \<and> cm_closed (nonzero_constraints s') = cm_closed (nonzero_constraints s)
        \<and> cm_closed (zero_constraints s') = cm_closed (zero_constraints s)"
proof (induction bcs arbitrary: s)
  case Nil
  then show ?case by simp
next
  case (Cons itr rest)
  show ?case
  proof (cases "entry_ok itr")
    case True
    from dirichlet_bc_ok[OF this, of P s] obtain s1 where
      s1: "dirichlet_bc P itr s = Inr s1" "trace s1 = trace s" "time s1 = time s"
        "cm_closed (nonzero_constraints s1) = cm_closed (nonzero_constraints s)"
        "cm_closed (zero_constraints s1) = cm_closed (zero_constraints s)" by blast
    from Cons.prems True have "\<not> (\<forall>itr \<in> set rest. entry_ok itr)" by simp
    from Cons.IH[OF this, of s1] s1 show ?thesis by auto
  next
    case False
    from dirichlet_bc_fail[OF this, of P s] show ?thesis by auto
  qed
qed

lemma imex_make_constraints_ok:
  "\<forall>itr \<in> set (fluid_dirichlet_bcs P). entry_ok itr \<Longrightarrow>
     \<exists>s'. imex_make_constraints P s = Inr s' \<and> trace s' = trace s @ [MakeConstraints]
        \<and> time s' = time s"
proof -
  assume a: "\<forall>itr \<in> set (fluid_dirichlet_bcs P). entry_ok itr"
  let ?s = "log_event MakeConstraints s
       \<lparr>nonzero_constraints := cm_add (HangingNodes (dof_handler s)) cm_clear,
          zero_constraints := cm_add (HangingNodes (dof_handler s)) cm_clear\<rparr>"
  from dirichlet_bcs_ok[OF a, of P ?s] obtain s1 where
    "dirichlet_bcs P (fluid_dirichlet_bcs P) ?s = Inr s1" "trace s1 = trace ?s" "time s1 = time ?s"
    by blast
  then show ?thesis
    by (simp add: imex_make_constraints_def Let_def log_event_def)
qed

lemma imex_make_constraints_bad:
  "\<forall>itr \<in> set (fluid_dirichlet_bcs P). values_present itr \<Longrightarrow>
   \<not> (\<forall>itr \<in> set (fluid_dirichlet_bcs P). fst (snd itr) \<in> {1..7}) \<Longrightarrow>
     \<exists>s'. imex_make_constraints P s = Inl (UnrecognizedComponentFlag, s')
        \<and> trace s' = trace s @ [MakeConstraints] \<and> time s' = time s
        \<and> \<not> cm_closed (nonzero_constraints s') \<and> \<not> cm_closed (zero_constraints s')"
proof -
  assume v: "\<forall>itr \<in> set (fluid_dirichlet_bcs P). values_present itr"
    and a: "\<not> (\<forall>itr \<in> set (fluid_dirichlet_bcs P). fst (snd itr) \<in> {1..7})"
  let ?s = "log_event MakeConstraints s
       \<lparr>nonzero_constraints := cm_add (HangingNodes (dof_handler s)) cm_clear,
          zero_constraints := cm_add (HangingNodes (dof_handler s)) cm_clear\<rparr>"
  from dirichlet_bcs_bad[OF v a, of P ?s] obtain s1 where
    "dirichlet_bcs P (fluid_dirichlet_bcs P) ?s = Inl (UnrecognizedComponentFlag, s1)"
    "trace s1 = trace ?s" "time s1 = time ?s"
    "cm_closed (nonzero_constraints s1) = cm_closed (nonzero_constraints ?s)"
    "cm_closed (zero_constraints s1) = cm_closed (zero_constraints ?s)"
    by blast
  then show ?thesis
    by (simp add: imex_make_constraints_def Let_def log_event_def cm_add_def cm_clear_def)
qed

lemma imex_make_constraints_fail:
  "\<not> (\<forall>itr \<in> set (fluid_dirichlet_bcs P). entry_ok itr) \<Longrightarrow>
     \<exists>e s'. imex_make_constraints P s = Inl (e, s')
        \<and> trace s' = trace s @ [MakeConstraints] \<and> time s' = time s
        \<and> \<not> cm_closed (nonzero_constraints s') \<and> \<not> cm_closed (zero_constraints s')"
proof -
  assume a: "\<not> (\<forall>itr \<in> set (fluid_dirichlet_bcs P). entry_ok itr)"
  let ?s = "log_event MakeConstraints s
       \<lparr>nonzero_constraints := cm_add (HangingNodes (dof_handler s)) cm_clear,
          zero_constraints := cm_add (HangingNodes (dof_handler s)) cm_clear\<rparr>"
  from dirichlet_bcs_fail[OF a, of P ?s] obtain e s1 where
    "dirichlet_bcs P (fluid_dirichlet_bcs P) ?s = Inl (e, s1)"
    "trace s1 = trace ?s" "time s1 = time ?s"
    "cm_closed (nonzero_constraints s1) = cm_closed (nonzero_constraints ?s)"
    "cm_closed (zero_constraints s1) = cm_closed (zero_constraints ?s)"
    by blast
  then show ?thesis
    by (simp add: imex_make_constraints_def Let_def log_event_def cm_add_def cm_clear_def)
qed

lemma pns_make_constraints_ok:
  "\<forall>itr \<in> set (fluid_dirichlet_bcs P). entry_ok itr \<Longrightarrow>
     \<exists>s'. pns_make_constraints P s = Inr s' \<and> trace s' = trace s @ [MakeConstraints]
        \<and> time s' = time s"
proof -
  assume a: "\<forall>itr \<in> set (fluid_dirichlet_bcs P). entry_ok itr"
  let ?c = "cm_add (HangingNodes (dof_handler s))
              (cm_clear\<lparr>cm_local := Some (is_elements (locally_relevant_dofs s))\<rparr>)"
  let ?s = "log_event MakeConstraints s\<lparr>nonzero_constraints := ?c, zero_constraints := ?c\<rparr>"
  from dirichlet_bcs_ok[OF a, of P ?s] obtain s1 where
    "dirichlet_bcs P (fluid_dirichlet_bcs P) ?s = Inr s1" "trace s1 = trace ?s" "time s1 = time ?s"
    by blast
  then show ?thesis
    by (simp add: pns_make_constraints_def Let_def log_event_def)
qed

lemma pns_make_constraints_bad:
  "\<forall>itr \<in> set (fluid_dirichlet_bcs P). values_present itr \<Longrightarrow>
   \<not> (\<forall>itr \<in> set (fluid_dirichlet_bcs P). fst (snd itr) \<in> {1..7}) \<Longrightarrow>
     \<exists>s'. pns_make_constraints P s = Inl (UnrecognizedComponentFlag, s')
        \<and> trace s' = trace s @ [MakeConstraints] \<and> time s' = time s
        \<and> \<not> cm_closed (nonzero_constraints s') \<and> \<not> cm_closed (zero_constraints s')"
proof -
  assume v: "\<forall>itr \<in> set (fluid_dirichlet_bcs P). values_present itr"
    and a: "\<not> (\<forall>itr \<in> set (fluid_dirichlet_bcs P). fst (snd itr) \<in> {1..7})"
  let ?c = "cm_add (HangingNodes (dof_handler s))
              (cm_clear\<lparr>cm_local := Some (is_elements (locally_relevant_dofs s))\<rparr>)"
  let ?s = "log_event MakeConstraints s\<lparr>nonzero_constraints := ?c, zero_constraints := ?c\<rparr>"
  from dirichlet_bcs_bad[OF v a, of P ?s] obtain s1 where
    "dirichlet_bcs P (fluid_dirichlet_bcs P) ?s = Inl (UnrecognizedComponentFlag, s1)"
    "trace s1 = trace ?s" "time s1 = time ?s"
    "cm_closed (nonzero_constraints s1) = cm_closed (nonzero_constraints ?s)"
    "cm_closed (zero_constraints s1) = cm_closed (zero_constraints ?s)"
    by blast
  then show ?thesis
    by (simp add: pns_make_constraints_def Let_def log_event_def cm_add_def cm_clear_def)
qed


lemma imex_setup_dofs_frame:
  "trace (imex_setup_dofs F s) = trace s @ [SetupDofs]" "time (imex_setup_dofs F s) = time s"
  by (simp_all add: imex_setup_dofs_def Let_def log_event_def split: prod.splits)

lemma pns_setup_dofs_frame:
  "trace (pns_setup_dofs F s) = trace s @ [SetupDofs]" "time (pns_setup_dofs F s) = time s"
  by (simp_all add: pns_setup_dofs_def Let_def log_event_def split: prod.splits)

text \<open>
  Claim C9, for entries that supply the values their flag reads. Let every Dirichlet entry
  of the configuration hold at least the values that the case of its component flag reads
  (one for the flags 1, 2 and 4, two for 3, 5 and 6, three for 7). Then \<open>make_constraints\<close>
  of either class returns normally exactly when every component flag is one of 1, ..., 7.
  If some flag is not, it throws "unrecognized component flag" from inside the loop, when
  neither constraint set has been closed; \<open>run\<close> then ends with that error after \<open>setup_dofs\<close>
  and \<open>make_constraints\<close> alone, the clock untouched: no time step is taken.
\<close>

theorem make_constraints_component_flags:
  "(\<forall>itr \<in> set (fluid_dirichlet_bcs P). values_present itr) \<longrightarrow>
   ((\<exists>s'. imex_make_constraints P s = Inr s') \<longleftrightarrow>
        (\<forall>itr \<in> set (fluid_dirichlet_bcs P). fst (snd itr) \<in> {1..7}))
   \<and> ((\<exists>t'. pns_make_constraints P t = Inr t') \<longleftrightarrow>
        (\<forall>itr \<in> set (fluid_dirichlet_bcs P). fst (snd itr) \<in> {1..7}))
   \<and> (\<not> (\<forall>itr \<in> set (fluid_dirichlet_bcs P). fst (snd itr) \<in> {1..7}) \<longrightarrow>
        (\<exists>s'. imex_make_constraints P s = Inl (UnrecognizedComponentFlag, s')
              \<and> \<not> cm_closed (nonzero_constraints s') \<and> \<not> cm_closed (zero_constraints s'))
      \<and> (\<exists>t'. pns_make_constraints P t = Inl (UnrecognizedComponentFlag, t')
              \<and> \<not> cm_closed (nonzero_constraints t') \<and> \<not> cm_closed (zero_constraints t'))
      \<and> (\<exists>s'. imex_run L F P n s = Some (Inl (UnrecognizedComponentFlag, s'))
              \<and> time s' = time s \<and> trace s' = trace s @ [SetupDofs, MakeConstraints])
      \<and> (\<exists>t'. pns_run L F P n t = Some (Inl (UnrecognizedComponentFlag, t'))
              \<and> time t' = time t \<and> trace t' = trace t @ [SetupDofs, MakeConstraints]))"
proof
  assume v: "\<forall>itr \<in> set (fluid_dirichlet_bcs P). values_present itr"
  let ?ok = "\<forall>itr \<in> set (fluid_dirichlet_bcs P). fst (snd itr) \<in> {1..7}"
  have e: "?ok \<Longrightarrow> \<forall>itr \<in> set (fluid_dirichlet_bcs P). entry_ok itr"
    using v by (simp add: entry_ok_def)
  have i: "(\<exists>s'. imex_make_constraints P s = Inr s') \<longleftrightarrow> ?ok" for s
    using imex_make_constraints_ok[OF e, of s] imex_make_constraints_bad[OF v, of s] by fastforce
  have p: "(\<exists>t'. pns_make_constraints P t = Inr t') \<longleftrightarrow> ?ok" for t
    using pns_make_constraints_ok[OF e, of t] pns_make_constraints_bad[OF v, of t] by fastforce
  have ri: "\<exists>s'. imex_run L F P n s = Some (Inl (UnrecognizedComponentFlag, s'))
              \<and> time s' = time s \<and> trace s' = trace s @ [SetupDofs, MakeConstraints]"
    if bad: "\<not> ?ok"
  proof -
    let ?s = "imex_setup_dofs F
                (s\<lparr>triangulation := refine_global F (global_refinement P) (triangulation s)\<rparr>)"
    from imex_make_constraints_bad[OF v bad, of ?s] obtain s1 where
      "imex_make_constraints P ?s = Inl (UnrecognizedComponentFlag, s1)"
      "trace s1 = trace ?s @ [MakeConstraints]" "time s1 = time ?s" by blast
    then show ?thesis by (simp add: imex_run_def Let_def imex_setup_dofs_frame)
  qed
  have rp: "\<exists>t'. pns_run L F P n t = Some (Inl (UnrecognizedComponentFlag, t'))
              \<and> time t' = time t \<and> trace t' = trace t @ [SetupDofs, MakeConstraints]"
    if bad: "\<not> ?ok"
  proof -
    let ?s = "pns_setup_dofs F
                (t\<lparr>triangulation := refine_global F (global_refinement P) (triangulation t)\<rparr>)"
    from pns_make_constraints_bad[OF v bad, of ?s] obtain s1 where
      "pns_make_constraints P ?s = Inl (UnrecognizedComponentFlag, s1)"
      "trace s1 = trace ?s @ [MakeConstraints]" "time s1 = time ?s" by blast
    then show ?thesis by (simp add: pns_run_def Let_def pns_setup_dofs_frame)
  qed
  show "((\<exists>s'. imex_make_constraints P s = Inr s') \<longleftrightarrow> ?ok)
   \<and> ((\<exists>t'. pns_make_constraints P t = Inr t') \<longleftrightarrow> ?ok)
   \<and> (\<not> ?ok \<longrightarrow>
        (\<exists>s'. imex_make_constraints P s = Inl (UnrecognizedComponentFlag, s')
              \<and> \<not> cm_closed (nonzero_constraints s') \<and> \<not> cm_closed (zero_constraints s'))
      \<and> (\<exists>t'. pns_make_constraints P t = Inl (UnrecognizedComponentFlag, t')
              \<and> \<not> cm_closed (nonzero_constraints t') \<and> \<not> cm_closed (zero_constraints t'))
      \<and> (\<exists>s'. imex_run L F P n s = Some (Inl (UnrecognizedComponentFlag, s'))
              \<and> time s' = time s \<and> trace s' = trace s @ [SetupDofs, MakeConstraints])
      \<and> (\<exists>t'. pns_run L F P n t = Some (Inl (UnrecognizedComponentFlag, t'))
              \<and> time t' = time t \<and> trace t' = trace t @ [SetupDofs, MakeConstraints]))"
    using i[of s] p[of t] imex_make_constraints_bad[OF v, of s]
      pns_make_constraints_bad[OF v, of t] ri rp
    by blast
qed

theorem make_constraints_component_flags_witness:
  "(\<exists>s'. imex_make_constraints demo_params demo_imex = Inr s')
   \<and> (\<exists>t'. pns_make_constraints demo_params demo_pns = Inr t')
   \<and> (\<exists>s'. imex_run demo_linalg demo_femlib bad_flag_params 3 demo_imex
             = Some (Inl (UnrecognizedComponentFlag, s'))
           \<and> time s' = demo_time \<and> trace s' = [SetupDofs, MakeConstraints])
   \<and> (\<exists>t'. pns_run demo_linalg demo_femlib bad_flag_params 3 demo_pns
             = Some (Inl (UnrecognizedComponentFlag, t'))
           \<and> time t' = demo_time \<and> trace t' = [SetupDofs, MakeConstraints])"
proof -
  have v: "\<forall>itr \<in> set (fluid_dirichlet_bcs demo_params). values_present itr"
    "\<forall>itr \<in> set (fluid_dirichlet_bcs bad_flag_params). values_present itr"
    by (simp_all add: demo_params_def bad_flag_params_def values_present_def values_read_def)
  have ok: "\<forall>itr \<in> set (fluid_dirichlet_bcs demo_params). fst (snd itr) \<in> {1..7}"
    by (simp add: demo_params_def)
  have bad: "\<not> (\<forall>itr \<in> set (fluid_dirichlet_bcs bad_flag_params). fst (snd itr) \<in> {1..7})"
    by (simp add: bad_flag_params_def demo_params_def)
  have t: "time demo_imex = demo_time" "trace demo_imex = []"
          "time demo_pns = demo_time" "trace demo_pns = []"
    by (simp_all add: demo_imex_def demo_pns_def)
  show ?thesis
    using make_constraints_component_flags[of demo_params demo_imex demo_pns] ok v(1)
      make_constraints_component_flags[of bad_flag_params demo_imex demo_pns
         demo_linalg demo_femlib 3] bad v(2) t
    by simp
qed

text \<open>
  A recognised flag alone does not make the construction succeed: the entry with flag 1
  and an empty value list has \<open>value[0]\<close> read past the end of the list, and
  \<open>make_constraints\<close> of neither class returns normally.
\<close>

theorem make_constraints_short_value_counterexample:
  "fluid_dirichlet_bcs short_value_params = [(0, 1, [])]
   \<and> (1::nat) \<in> {1..7}
   \<and> isl (imex_make_constraints short_value_params demo_imex)
   \<and> isl (pns_make_constraints short_value_params demo_pns)"
  by (simp add: short_value_params_def demo_params_def imex_make_constraints_def
        pns_make_constraints_def dirichlet_bc_def component_mask_def Let_def)

subsection \<open>What assembly changes\<close>

lemma imex_cells_rhs_only:
  "\<exists>lm lmm. fold (imex_assemble_cell F P nz False) is (lm0, lmm0, s\<lparr>system_rhs := b\<rparr>)
      = (lm, lmm, s\<lparr>system_rhs := fold (rhs_contribution F P nz s) is b\<rparr>)"
proof (induction "is" arbitrary: lm0 lmm0 b)
  case Nil
  then show ?case by simp
next
  case (Cons i rest)
  have "\<exists>lm lmm. imex_assemble_cell F P nz False i (lm0, lmm0, s\<lparr>system_rhs := b\<rparr>)
          = (lm, lmm, s\<lparr>system_rhs := rhs_contribution F P nz s i b\<rparr>)"
    by (simp add: imex_assemble_cell_def rhs_contribution_def Let_def)
  then obtain lm lmm where
    "imex_assemble_cell F P nz False i (lm0, lmm0, s\<lparr>system_rhs := b\<rparr>)
          = (lm, lmm, s\<lparr>system_rhs := rhs_contribution F P nz s i b\<rparr>)" by blast
  moreover from Cons.IH obtain lm' lmm' where
    "fold (imex_assemble_cell F P nz False) rest
        (lm, lmm, s\<lparr>system_rhs := rhs_contribution F P nz s i b\<rparr>)
      = (lm', lmm', s\<lparr>system_rhs := fold (rhs_contribution F P nz s) rest
                                         (rhs_contribution F P nz s i b)\<rparr>)" by blast
  ultimately show ?case by simp
qed

lemma imex_assemble_rhs_only:
  "imex_assemble F P nz False s = s\<lparr>system_rhs := rhs_only_assembly F P nz s\<rparr>"
proof -
  let ?n = "dofs_per_cell P * dofs_per_cell P"
  from imex_cells_rhs_only
  obtain lm lmm where
    "fold (imex_assemble_cell F P nz False) [0 ..< length (triangulation s)]
        (replicate ?n 0, replicate ?n 0, s\<lparr>system_rhs := bv_fill 0 (system_rhs s)\<rparr>)
      = (lm, lmm, s\<lparr>system_rhs := fold (rhs_contribution F P nz s)
                      [0 ..< length (triangulation s)] (bv_fill 0 (system_rhs s))\<rparr>)"
    by blast
  then show ?thesis by (simp add: imex_assemble_def Let_def rhs_only_assembly_def)
qed

lemma assembly_frame_refl: "assembly_frame s s"
  by (simp add: assembly_frame_def)

lemma assembly_frame_trans:
  "assembly_frame s s1 \<Longrightarrow> assembly_frame s1 s2 \<Longrightarrow> assembly_frame s s2"
proof -
  assume a: "assembly_frame s s1" and b: "assembly_frame s1 s2"
  from b have "s2\<lparr>system_matrix := system_matrix s1, mass_matrix := mass_matrix s1,
         system_rhs := system_rhs s1\<rparr>\<lparr>system_matrix := system_matrix s, mass_matrix := mass_matrix s,
         system_rhs := system_rhs s\<rparr> = s1\<lparr>system_matrix := system_matrix s, mass_matrix := mass_matrix s,
         system_rhs := system_rhs s\<rparr>"
    by (simp only: assembly_frame_def)
  with a show ?thesis by (simp add: assembly_frame_def)
qed

lemma assembly_frame_eq:
  "assembly_frame s s' \<Longrightarrow>
     s' = s\<lparr>system_matrix := system_matrix s', mass_matrix := mass_matrix s',
           system_rhs := system_rhs s'\<rparr>"
proof -
  assume "assembly_frame s s'"
  then have "s = s'\<lparr>system_matrix := system_matrix s, mass_matrix := mass_matrix s,
         system_rhs := system_rhs s\<rparr>" by (simp add: assembly_frame_def)
  then have "s\<lparr>system_matrix := system_matrix s', mass_matrix := mass_matrix s',
           system_rhs := system_rhs s'\<rparr> = s'\<lparr>system_matrix := system_matrix s, mass_matrix := mass_matrix s,
         system_rhs := system_rhs s\<rparr>\<lparr>system_matrix := system_matrix s', mass_matrix := mass_matrix s',
           system_rhs := system_rhs s'\<rparr>" by simp
  then show ?thesis by simp
qed

lemma imex_cell_frame:
  "assembly_frame s (snd (snd (imex_assemble_cell F P nz asm i (lm0, lmm0, s))))"
  by (simp add: imex_assemble_cell_def Let_def split_beta assembly_frame_def)

lemma imex_cells_frame:
  "assembly_frame s (snd (snd (fold (imex_assemble_cell F P nz asm) is (lm0, lmm0, s))))"
proof (induction "is" arbitrary: lm0 lmm0 s)
  case Nil
  then show ?case by (simp add: assembly_frame_refl)
next
  case (Cons i rest)
  obtain lm lmm s1 where c: "imex_assemble_cell F P nz asm i (lm0, lmm0, s) = (lm, lmm, s1)"
    by (cases "imex_assemble_cell F P nz asm i (lm0, lmm0, s)") auto
  with imex_cell_frame[of s F P nz asm i lm0 lmm0] have "assembly_frame s s1" by simp
  moreover from Cons.IH have
    "assembly_frame s1 (snd (snd (fold (imex_assemble_cell F P nz asm) rest (lm, lmm, s1))))" .
  ultimately show ?case using c by (simp add: assembly_frame_trans)
qed

lemma imex_assemble_frame: "assembly_frame s (imex_assemble F P nz asm s)"
proof -
  let ?n = "dofs_per_cell P * dofs_per_cell P"
  let ?s = "(if asm then s\<lparr>system_matrix := bsm_zero (system_matrix s),
                      mass_matrix := bsm_zero (mass_matrix s)\<rparr> else s)
             \<lparr>system_rhs := bv_fill 0 (system_rhs s)\<rparr>"
  have "assembly_frame s ?s" by (simp add: assembly_frame_def)
  moreover have "assembly_frame ?s (snd (snd (fold (imex_assemble_cell F P nz asm)
       [0 ..< length (triangulation ?s)] (replicate ?n 0, replicate ?n 0, ?s))))"
    by (rule imex_cells_frame)
  ultimately have "assembly_frame s (snd (snd (fold (imex_assemble_cell F P nz asm)
       [0 ..< length (triangulation ?s)] (replicate ?n 0, replicate ?n 0, ?s))))"
    by (rule assembly_frame_trans)
  then show ?thesis by (cases asm) (simp_all add: imex_assemble_def Let_def)
qed

lemma pns_cell_frame: "assembly_frame s (pns_assemble_cell F P nz i s)"
  by (simp add: pns_assemble_cell_def Let_def split_beta assembly_frame_def)

lemma pns_cells_frame: "assembly_frame s (fold (pns_assemble_cell F P nz) is s)"
proof (induction "is" arbitrary: s)
  case Nil
  then show ?case by (simp add: assembly_frame_refl)
next
  case (Cons i rest)
  from pns_cell_frame Cons.IH show ?case
    by (simp del: fold_simps add: fold_Cons) (metis assembly_frame_trans)
qed

lemma pns_assemble_frame: "assembly_frame s (pns_assemble F P nz s)"
proof -
  let ?s = "s\<lparr>system_matrix := bsm_zero (system_matrix s),
                mass_matrix := bsm_zero (mass_matrix s),
                system_rhs := bv_fill 0 (system_rhs s)\<rparr>"
  have "assembly_frame s ?s" by (simp add: assembly_frame_def)
  moreover have "assembly_frame ?s (fold (pns_assemble_cell F P nz)
       [0 ..< length (triangulation ?s)] ?s)"
    by (rule pns_cells_frame)
  ultimately have "assembly_frame s (fold (pns_assemble_cell F P nz)
       [0 ..< length (triangulation ?s)] ?s)"
    by (rule assembly_frame_trans)
  then show ?thesis by (simp add: pns_assemble_def Let_def)
qed

lemma assembly_frame_fields:
  assumes "assembly_frame s s'"
  shows "trace s' = trace s" "time s' = time s" "preconditioner s' = preconditioner s"
    "nonzero_constraints s' = nonzero_constraints s" "zero_constraints s' = zero_constraints s"
    "present_solution s' = present_solution s" "triangulation s' = triangulation s"
    "dof_handler s' = dof_handler s" "dofs_per_block s' = dofs_per_block s"
    "cell_property s' = cell_property s" "sparsity_pattern s' = sparsity_pattern s"
    "fluid_state.more s' = fluid_state.more s"
proof -
  from assms have e: "s = s'\<lparr>system_matrix := system_matrix s, mass_matrix := mass_matrix s,
         system_rhs := system_rhs s\<rparr>" by (simp add: assembly_frame_def)
  show "trace s' = trace s" by (subst e) simp
  show "time s' = time s" by (subst e) simp
  show "preconditioner s' = preconditioner s" by (subst e) simp
  show "nonzero_constraints s' = nonzero_constraints s" by (subst e) simp
  show "zero_constraints s' = zero_constraints s" by (subst e) simp
  show "present_solution s' = present_solution s" by (subst e) simp
  show "triangulation s' = triangulation s" by (subst e) simp
  show "dof_handler s' = dof_handler s" by (subst e) simp
  show "dofs_per_block s' = dofs_per_block s" by (subst e) simp
  show "cell_property s' = cell_property s" by (subst e) simp
  show "sparsity_pattern s' = sparsity_pattern s" by (subst e) simp
  show "fluid_state.more s' = fluid_state.more s" by (subst e) simp
qed


lemma rhs_only_assembly_cong:
  "system_rhs s' = system_rhs s \<Longrightarrow> triangulation s' = triangulation s \<Longrightarrow> time s' = time s
   \<Longrightarrow> cell_property s' = cell_property s \<Longrightarrow> present_solution s' = present_solution s
   \<Longrightarrow> nonzero_constraints s' = nonzero_constraints s
   \<Longrightarrow> zero_constraints s' = zero_constraints s
   \<Longrightarrow> rhs_only_assembly F P nz s' = rhs_only_assembly F P nz s"
proof -
  assume a: "system_rhs s' = system_rhs s" "triangulation s' = triangulation s" "time s' = time s"
    "cell_property s' = cell_property s" "present_solution s' = present_solution s"
    "nonzero_constraints s' = nonzero_constraints s" "zero_constraints s' = zero_constraints s"
  then have "rhs_contribution F P nz s' = rhs_contribution F P nz s"
    by (intro ext) (simp add: rhs_contribution_def)
  with a show ?thesis by (simp add: rhs_only_assembly_def)
qed


lemma pns_solve_trace:
  "\<exists>c rest. trace (solve_state (pns_solve L F P nz s))
        = trace s @ [JacobiOnes, MMult None, NewPreconditioner, FGMRES c] @ rest
      \<and> (rest = [] \<or> rest = [Distribute nz])"
  by (auto simp add: pns_solve_def Let_def split_beta solve_state_def log_event_def
           pns_BlockSchurPreconditioner_def split: sum.splits)




lemmas pns_assemble_fields = assembly_frame_fields[OF pns_assemble_frame]

lemmas imex_assemble_fields = assembly_frame_fields[OF imex_assemble_frame]

lemma pns_newton_iteration_trace:
  "\<exists>evs. trace (solve_state (pns_newton_iteration L F P a k s))
        = trace s @ [CallAssemble (timestep (time s)) k (a \<and> k = 0) True,
                     CallSolve (timestep (time s)) k (a \<and> k = 0) True] @ evs
      \<and> list_all newton_flags_ok evs"
proof -
  let ?s1 = "log_event (CallAssemble (timestep (time s)) k (a \<and> k = 0) True)
               (s\<lparr>newton_update := bv_fill 0 (newton_update s)\<rparr>)"
  let ?s2 = "log_event (CallSolve (timestep (time s)) k (a \<and> k = 0) True)
               (pns_assemble F P (a \<and> k = 0) ?s1)"
  have t2: "trace ?s2 = trace s @ [CallAssemble (timestep (time s)) k (a \<and> k = 0) True,
                     CallSolve (timestep (time s)) k (a \<and> k = 0) True]"
    by (simp add: log_event_def pns_assemble_fields)
  obtain c rest where
    r: "trace (solve_state (pns_solve L F P (a \<and> k = 0) ?s2))
          = trace ?s2 @ [JacobiOnes, MMult None, NewPreconditioner, FGMRES c] @ rest"
       "rest = [] \<or> rest = [Distribute (a \<and> k = 0)]"
    using pns_solve_trace by blast
  have it: "pns_newton_iteration L F P a k s =
     (case pns_solve L F P (a \<and> k = 0) ?s2 of
           Inl e \<Rightarrow> Inl e
         | Inr (s, state) \<Rightarrow>
            (let current_residual = bv_l2_norm (system_rhs s);
                 tmp = bv_reinit (map is_size (owned_partitioning s));
                 tmp = evaluation_point s;
                 tmp = bv_add tmp (newton_update s);
                 s = log_event NewtonUpdate s;
                 tmp = distribute F (nonzero_constraints s) tmp;
                 s = log_event DistributeNonzero s
             in Inr (s\<lparr>evaluation_point := tmp\<rparr>, current_residual)))"
    by (simp add: pns_newton_iteration_def Let_def log_event_def
          pns_assemble_fields)
  show ?thesis
  proof (cases "pns_solve L F P (a \<and> k = 0) ?s2")
    case (Inl e)
    then have "solve_state (pns_newton_iteration L F P a k s)
                 = solve_state (pns_solve L F P (a \<and> k = 0) ?s2)"
      by (simp add: it solve_state_def split: prod.splits)
    with r t2 show ?thesis by auto
  next
    case (Inr x)
    then obtain s3 st where x: "pns_solve L F P (a \<and> k = 0) ?s2 = Inr (s3, st)"
      by (cases x) auto
    then have "trace (solve_state (pns_newton_iteration L F P a k s))
                 = trace (solve_state (pns_solve L F P (a \<and> k = 0) ?s2))
                   @ [NewtonUpdate, DistributeNonzero]"
      by (simp add: it Let_def log_event_def solve_state_def)
    with r t2 show ?thesis by auto
  qed
qed



lemma dirichlet_bc_frame:
  "dirichlet_bc P itr s = Inr s' \<Longrightarrow>
     s' = s\<lparr>nonzero_constraints := nonzero_constraints s', zero_constraints := zero_constraints s'\<rparr>"
  by (auto simp: dirichlet_bc_def Let_def split: sum.splits prod.splits)

lemma dirichlet_bcs_frame:
  "dirichlet_bcs P bcs s = Inr s' \<Longrightarrow>
     s' = s\<lparr>nonzero_constraints := nonzero_constraints s', zero_constraints := zero_constraints s'\<rparr>"
proof (induction bcs arbitrary: s)
  case Nil
  then show ?case by auto
next
  case (Cons itr rest)
  from Cons.prems obtain s1 where s1: "dirichlet_bc P itr s = Inr s1" "dirichlet_bcs P rest s1 = Inr s'"
    by (auto split: sum.splits)
  from dirichlet_bc_frame[OF s1(1)] have
    a: "s1 = s\<lparr>nonzero_constraints := nonzero_constraints s1, zero_constraints := zero_constraints s1\<rparr>" .
  from Cons.IH[OF s1(2)] have
    "s' = s1\<lparr>nonzero_constraints := nonzero_constraints s', zero_constraints := zero_constraints s'\<rparr>" .
  then have "s' = s\<lparr>nonzero_constraints := nonzero_constraints s1, zero_constraints := zero_constraints s1\<rparr>
                   \<lparr>nonzero_constraints := nonzero_constraints s', zero_constraints := zero_constraints s'\<rparr>"
    using a by simp
  then show ?case by simp
qed

lemma dirichlet_bcs_closed:
  "dirichlet_bcs P bcs s = Inr s' \<Longrightarrow>
     cm_closed (nonzero_constraints s') = cm_closed (nonzero_constraints s)
     \<and> cm_closed (zero_constraints s') = cm_closed (zero_constraints s)"
proof (cases "\<forall>itr \<in> set bcs. entry_ok itr")
  case True
  assume "dirichlet_bcs P bcs s = Inr s'"
  with dirichlet_bcs_ok[OF True, of P s] show ?thesis by auto
next
  case False
  assume "dirichlet_bcs P bcs s = Inr s'"
  with dirichlet_bcs_fail[OF False, of P s] show ?thesis by auto
qed

lemma imex_make_constraints_frame:
  "imex_make_constraints P s = Inr s' \<Longrightarrow>
     s' = s\<lparr>nonzero_constraints := nonzero_constraints s', zero_constraints := zero_constraints s',
             trace := trace s @ [MakeConstraints]\<rparr>
     \<and> cm_closed (nonzero_constraints s') \<and> cm_closed (zero_constraints s')"
proof -
  assume a: "imex_make_constraints P s = Inr s'"
  let ?s = "log_event MakeConstraints s
       \<lparr>nonzero_constraints := cm_add (HangingNodes (dof_handler s)) cm_clear,
          zero_constraints := cm_add (HangingNodes (dof_handler s)) cm_clear\<rparr>"
  from a obtain s1 where s1: "dirichlet_bcs P (fluid_dirichlet_bcs P) ?s = Inr s1"
    and s': "s' = s1\<lparr>nonzero_constraints := cm_close (nonzero_constraints s1),
                     zero_constraints := cm_close (zero_constraints s1)\<rparr>"
    by (auto simp: imex_make_constraints_def Let_def log_event_def split: sum.splits)
  from dirichlet_bcs_frame[OF s1] obtain N Z where
    "s1 = ?s\<lparr>nonzero_constraints := N, zero_constraints := Z\<rparr>" by blast
  with s' have "s' = s\<lparr>nonzero_constraints := cm_close N, zero_constraints := cm_close Z,
                       trace := trace s @ [MakeConstraints]\<rparr>"
    by (simp add: log_event_def)
  then show ?thesis by (simp add: cm_close_def)
qed

lemma pns_make_constraints_frame:
  "pns_make_constraints P s = Inr s' \<Longrightarrow>
     s' = s\<lparr>nonzero_constraints := nonzero_constraints s', zero_constraints := zero_constraints s',
             trace := trace s @ [MakeConstraints]\<rparr>
     \<and> cm_closed (nonzero_constraints s') \<and> cm_closed (zero_constraints s')"
proof -
  assume a: "pns_make_constraints P s = Inr s'"
  let ?c = "cm_add (HangingNodes (dof_handler s))
              (cm_clear\<lparr>cm_local := Some (is_elements (locally_relevant_dofs s))\<rparr>)"
  let ?s = "log_event MakeConstraints s\<lparr>nonzero_constraints := ?c, zero_constraints := ?c\<rparr>"
  from a obtain s1 where s1: "dirichlet_bcs P (fluid_dirichlet_bcs P) ?s = Inr s1"
    and s': "s' = s1\<lparr>nonzero_constraints := cm_close (nonzero_constraints s1),
                     zero_constraints := cm_close (zero_constraints s1)\<rparr>"
    by (auto simp: pns_make_constraints_def Let_def log_event_def split: sum.splits)
  from dirichlet_bcs_frame[OF s1] obtain N Z where
    "s1 = ?s\<lparr>nonzero_constraints := N, zero_constraints := Z\<rparr>" by blast
  with s' have "s' = s\<lparr>nonzero_constraints := cm_close N, zero_constraints := cm_close Z,
                       trace := trace s @ [MakeConstraints]\<rparr>"
    by (simp add: log_event_def)
  then show ?thesis by (simp add: cm_close_def)
qed

lemma fresh_constraints_closed: "cm_closed (fresh_constraints P dh loc b)"
  by (simp add: fresh_constraints_def)

lemma dirichlet_bc_lines:
  "dirichlet_bc P itr s = Inr s' \<Longrightarrow>
     nonzero_constraints s'
       = (nonzero_constraints s)\<lparr>cm_lines := cm_lines (nonzero_constraints s)
                                     @ boundary_line P (dof_handler s) True itr\<rparr>
     \<and> zero_constraints s'
       = (zero_constraints s)\<lparr>cm_lines := cm_lines (zero_constraints s)
                                     @ boundary_line P (dof_handler s) False itr\<rparr>
     \<and> dof_handler s' = dof_handler s"
  by (auto simp: dirichlet_bc_def Let_def boundary_line_def cm_add_def split: sum.splits prod.splits)

lemma dirichlet_bcs_lines:
  "dirichlet_bcs P bcs s = Inr s' \<Longrightarrow>
     nonzero_constraints s'
       = (nonzero_constraints s)\<lparr>cm_lines := cm_lines (nonzero_constraints s)
                                     @ concat (map (boundary_line P (dof_handler s) True) bcs)\<rparr>
     \<and> zero_constraints s'
       = (zero_constraints s)\<lparr>cm_lines := cm_lines (zero_constraints s)
                                     @ concat (map (boundary_line P (dof_handler s) False) bcs)\<rparr>
     \<and> dof_handler s' = dof_handler s"
proof (induction bcs arbitrary: s)
  case Nil
  then show ?case by auto
next
  case (Cons itr rest)
  from Cons.prems obtain s1 where
    s1: "dirichlet_bc P itr s = Inr s1" "dirichlet_bcs P rest s1 = Inr s'"
    by (auto split: sum.splits)
  from dirichlet_bc_lines[OF s1(1)] Cons.IH[OF s1(2)] show ?case by simp
qed

lemma imex_make_constraints_fresh:
  assumes "imex_make_constraints P s = Inr s'"
  shows "nonzero_constraints s' = fresh_constraints P (dof_handler s) None True"
    and "zero_constraints s' = fresh_constraints P (dof_handler s) None False"
proof -
  let ?s = "log_event MakeConstraints s
       \<lparr>nonzero_constraints := cm_add (HangingNodes (dof_handler s)) cm_clear,
          zero_constraints := cm_add (HangingNodes (dof_handler s)) cm_clear\<rparr>"
  from assms obtain s1 where s1: "dirichlet_bcs P (fluid_dirichlet_bcs P) ?s = Inr s1"
    and s': "s' = s1\<lparr>nonzero_constraints := cm_close (nonzero_constraints s1),
                     zero_constraints := cm_close (zero_constraints s1)\<rparr>"
    by (auto simp: imex_make_constraints_def Let_def log_event_def split: sum.splits)
  from dirichlet_bcs_lines[OF s1] s'
  show "nonzero_constraints s' = fresh_constraints P (dof_handler s) None True"
    and "zero_constraints s' = fresh_constraints P (dof_handler s) None False"
    by (simp_all add: fresh_constraints_def cm_close_def cm_add_def cm_clear_def log_event_def)
qed

lemma pns_make_constraints_fresh:
  assumes "pns_make_constraints P s = Inr s'"
  shows "nonzero_constraints s'
           = fresh_constraints P (dof_handler s) (Some (is_elements (locally_relevant_dofs s))) True"
    and "zero_constraints s'
           = fresh_constraints P (dof_handler s) (Some (is_elements (locally_relevant_dofs s))) False"
proof -
  let ?c = "cm_add (HangingNodes (dof_handler s))
              (cm_clear\<lparr>cm_local := Some (is_elements (locally_relevant_dofs s))\<rparr>)"
  let ?s = "log_event MakeConstraints s\<lparr>nonzero_constraints := ?c, zero_constraints := ?c\<rparr>"
  from assms obtain s1 where s1: "dirichlet_bcs P (fluid_dirichlet_bcs P) ?s = Inr s1"
    and s': "s' = s1\<lparr>nonzero_constraints := cm_close (nonzero_constraints s1),
                     zero_constraints := cm_close (zero_constraints s1)\<rparr>"
    by (auto simp: pns_make_constraints_def Let_def log_event_def split: sum.splits)
  from dirichlet_bcs_lines[OF s1] s'
  show "nonzero_constraints s'
           = fresh_constraints P (dof_handler s) (Some (is_elements (locally_relevant_dofs s))) True"
    and "zero_constraints s'
           = fresh_constraints P (dof_handler s) (Some (is_elements (locally_relevant_dofs s))) False"
    by (simp_all add: fresh_constraints_def cm_close_def cm_add_def cm_clear_def log_event_def)
qed

lemma imex_refine_mesh_ok:
  assumes ok: "\<forall>itr \<in> set (fluid_dirichlet_bcs P). entry_ok itr"
  shows "\<exists>s'. imex_refine_mesh F P lo hi s = Inr s'
     \<and> trace s' = trace s @ [EstimateError, FlagCells (6 / 10) (4 / 10), ClearFlags lo hi,
           PrepareRefinement, Snapshot, ExecuteRefinement, SetupDofs, MakeConstraints,
           InitializeSystem, ComputeMmultPattern, SetupCellProperty, Interpolate,
           DistributeNonzero]
     \<and> time s' = time s
     \<and> triangulation s' = execute_coarsening_and_refinement F
           (prepare_coarsening_and_refinement F (refine_mesh_flags F lo hi s))
     \<and> dof_handler s' = DoFs (triangulation s')
     \<and> dofs_per_block s' = [fst (count_dofs_per_block F (dof_handler s')),
                             snd (count_dofs_per_block F (dof_handler s'))]
     \<and> cm_closed (nonzero_constraints s') \<and> cm_closed (zero_constraints s')
     \<and> nonzero_constraints s' = fresh_constraints P (dof_handler s') None True
     \<and> zero_constraints s' = fresh_constraints P (dof_handler s') None False
     \<and> sparsity_pattern s'
          = (case make_sparsity_pattern F (dof_handler s') (nonzero_constraints s') of
               (p00, p01, p10, p11) \<Rightarrow>
                 \<lparr>row_sizes = dofs_per_block s', col_sizes = dofs_per_block s',
                  pat00 = p00, pat01 = p01, pat10 = p10, pat11 = p11\<rparr>)
     \<and> mass_schur_pattern s'
          = compute_mmult_pattern F (pat10 (sparsity_pattern s')) (pat01 (sparsity_pattern s'))
     \<and> system_matrix s' = bsm_reinit (sparsity_pattern s')
     \<and> mass_matrix s' = bsm_reinit (sparsity_pattern s')
     \<and> mass_schur s' = sm_reinit (dofs_per_block s' ! 1) (dofs_per_block s' ! 1)
                          (mass_schur_pattern s')
     \<and> preconditioner s' = None
     \<and> system_rhs s' = bv_reinit (dofs_per_block s')
     \<and> solution_increment s' = bv_reinit (dofs_per_block s')
     \<and> present_solution s' = distribute F (nonzero_constraints s')
          (interpolate F (dof_handler s) (present_solution s) (dof_handler s')
             (bv_reinit (dofs_per_block s')))"
proof -
  define s2 where "s2 = imex_setup_dofs F
     (s\<lparr>triangulation := execute_coarsening_and_refinement F
            (prepare_coarsening_and_refinement F (refine_mesh_flags F lo hi s)),
        trace := trace s @ [EstimateError, FlagCells (6 / 10) (4 / 10), ClearFlags lo hi,
                            PrepareRefinement, Snapshot, ExecuteRefinement]\<rparr>)"
  from imex_make_constraints_ok[OF ok, of s2] obtain s3 where
    s3: "imex_make_constraints P s2 = Inr s3" by blast
  from imex_make_constraints_frame[OF s3] obtain N Z where
    f: "s3 = s2\<lparr>nonzero_constraints := N, zero_constraints := Z,
             trace := trace s2 @ [MakeConstraints]\<rparr>" and c: "cm_closed N" "cm_closed Z"
    by blast
  from imex_make_constraints_fresh[OF s3] f have
    nz: "N = fresh_constraints P (dof_handler s2) None True"
        "Z = fresh_constraints P (dof_handler s2) None False"
    by simp_all
  have s2f: "trace s2 = trace s @ [EstimateError, FlagCells (6 / 10) (4 / 10), ClearFlags lo hi,
                            PrepareRefinement, Snapshot, ExecuteRefinement, SetupDofs]"
    "time s2 = time s"
    "triangulation s2 = execute_coarsening_and_refinement F
            (prepare_coarsening_and_refinement F (refine_mesh_flags F lo hi s))"
    "dof_handler s2 = DoFs (triangulation s2)"
    "dofs_per_block s2 = [fst (count_dofs_per_block F (dof_handler s2)),
                          snd (count_dofs_per_block F (dof_handler s2))]"
    by (simp_all add: s2_def imex_setup_dofs_def Let_def split_beta log_event_def)
  have r: "imex_refine_mesh F P lo hi s =
            (let s1 = imex_initialize_system F P s3;
                 s1 = log_event Interpolate
                       (s1\<lparr>present_solution := interpolate F (dof_handler s) (present_solution s)
                                                 (dof_handler s1) (present_solution s1)\<rparr>)
             in Inr (log_event DistributeNonzero
                       (s1\<lparr>present_solution :=
                            distribute F (nonzero_constraints s1) (present_solution s1)\<rparr>)))"
    by (simp add: imex_refine_mesh_def Let_def log_event_def s3[unfolded s2_def, simplified])
  show ?thesis
    unfolding r f
    by (simp add: imex_initialize_system_def Let_def split_beta setup_cell_property_def
          log_event_def s2f c nz fresh_constraints_closed cong: let_weak_cong)
qed

lemma imex_refine_mesh_bad:
  assumes bad: "\<not> (\<forall>itr \<in> set (fluid_dirichlet_bcs P). entry_ok itr)"
  shows "\<exists>e s'. imex_refine_mesh F P lo hi s = Inl (e, s')
     \<and> trace s' = trace s @ [EstimateError, FlagCells (6 / 10) (4 / 10), ClearFlags lo hi,
           PrepareRefinement, Snapshot, ExecuteRefinement, SetupDofs, MakeConstraints]
     \<and> time s' = time s"
proof -
  define s2 where "s2 = imex_setup_dofs F
     (s\<lparr>triangulation := execute_coarsening_and_refinement F
            (prepare_coarsening_and_refinement F (refine_mesh_flags F lo hi s)),
        trace := trace s @ [EstimateError, FlagCells (6 / 10) (4 / 10), ClearFlags lo hi,
                            PrepareRefinement, Snapshot, ExecuteRefinement]\<rparr>)"
  from imex_make_constraints_fail[OF bad, of s2] obtain e s3 where
    s3: "imex_make_constraints P s2 = Inl (e, s3)"
    and t: "trace s3 = trace s2 @ [MakeConstraints]" "time s3 = time s2" by blast
  have "imex_refine_mesh F P lo hi s = Inl (e, s3)"
    by (simp add: imex_refine_mesh_def Let_def log_event_def s3[unfolded s2_def, simplified])
  moreover have "trace s2 = trace s @ [EstimateError, FlagCells (6 / 10) (4 / 10),
        ClearFlags lo hi, PrepareRefinement, Snapshot, ExecuteRefinement, SetupDofs]"
    "time s2 = time s"
    by (simp_all add: s2_def imex_setup_dofs_def Let_def split_beta log_event_def)
  ultimately show ?thesis using t by simp
qed

lemma pns_refine_mesh_ok:
  assumes ok: "\<forall>itr \<in> set (fluid_dirichlet_bcs P). entry_ok itr"
  shows "\<exists>s'. pns_refine_mesh F P lo hi s = Inr s'
     \<and> trace s' = trace s @ [EstimateError, FlagCells (6 / 10) (4 / 10), ClearFlags lo hi,
           PrepareRefinement, Snapshot, ExecuteRefinement, SetupDofs, MakeConstraints,
           InitializeSystem, ComputeMmultPattern, SetupCellProperty, Interpolate,
           DistributeNonzero]
     \<and> time s' = time s
     \<and> triangulation s' = execute_coarsening_and_refinement F
           (prepare_coarsening_and_refinement F (refine_mesh_flags F lo hi s))
     \<and> dof_handler s' = DoFs (triangulation s')
     \<and> dofs_per_block s' = [fst (count_dofs_per_block F (dof_handler s')),
                             snd (count_dofs_per_block F (dof_handler s'))]
     \<and> cm_closed (nonzero_constraints s') \<and> cm_closed (zero_constraints s')
     \<and> nonzero_constraints s' = fresh_constraints P (dof_handler s') (Some (is_elements (locally_relevant_dofs s'))) True
     \<and> zero_constraints s' = fresh_constraints P (dof_handler s') (Some (is_elements (locally_relevant_dofs s'))) False
     \<and> sparsity_pattern s'
          = (case make_sparsity_pattern F (dof_handler s') (nonzero_constraints s') of
               (p00, p01, p10, p11) \<Rightarrow>
                 \<lparr>row_sizes = dofs_per_block s', col_sizes = dofs_per_block s',
                  pat00 = p00, pat01 = p01, pat10 = p10, pat11 = p11\<rparr>)
     \<and> locally_relevant_dofs s'
          = \<lparr>is_size = n_dofs F (dof_handler s'),
             is_elements = extract_locally_relevant_dofs F (dof_handler s')\<rparr>
     \<and> owned_partitioning s'
          = [get_view 0 (dofs_per_block s' ! 0)
               \<lparr>is_size = n_dofs F (dof_handler s'),
                is_elements = locally_owned_dofs F (dof_handler s')\<rparr>,
             get_view (dofs_per_block s' ! 0) (dofs_per_block s' ! 0 + dofs_per_block s' ! 1)
               \<lparr>is_size = n_dofs F (dof_handler s'),
                is_elements = locally_owned_dofs F (dof_handler s')\<rparr>]
     \<and> mass_schur_blocks s'
          = bsm_reinit \<lparr>row_sizes = dofs_per_block s', col_sizes = dofs_per_block s',
                        pat00 = [], pat01 = [], pat10 = [],
                        pat11 = compute_mmult_pattern F (pat10 (sparsity_pattern s'))
                                  (pat01 (sparsity_pattern s'))\<rparr>
     \<and> system_matrix s' = bsm_reinit (sparsity_pattern s')
     \<and> mass_matrix s' = bsm_reinit (sparsity_pattern s')
     \<and> preconditioner s' = None
     \<and> system_rhs s' = bv_reinit (map is_size (owned_partitioning s'))
     \<and> newton_update s' = bv_reinit (map is_size (owned_partitioning s'))
     \<and> evaluation_point s' = bv_reinit (map is_size (owned_partitioning s'))
     \<and> present_solution s' = distribute F (nonzero_constraints s')
          (interpolate F (dof_handler s) (present_solution s) (dof_handler s')
             (bv_fill 0 (bv_reinit (map is_size (owned_partitioning s')))))"
proof -
  define s2 where "s2 = pns_setup_dofs F
     (s\<lparr>triangulation := execute_coarsening_and_refinement F
            (prepare_coarsening_and_refinement F (refine_mesh_flags F lo hi s)),
        trace := trace s @ [EstimateError, FlagCells (6 / 10) (4 / 10), ClearFlags lo hi,
                            PrepareRefinement, Snapshot, ExecuteRefinement]\<rparr>)"
  from pns_make_constraints_ok[OF ok, of s2] obtain s3 where
    s3: "pns_make_constraints P s2 = Inr s3" by blast
  from pns_make_constraints_frame[OF s3] obtain N Z where
    f: "s3 = s2\<lparr>nonzero_constraints := N, zero_constraints := Z,
             trace := trace s2 @ [MakeConstraints]\<rparr>" and c: "cm_closed N" "cm_closed Z"
    by blast
  from pns_make_constraints_fresh[OF s3] f have
    nz: "N = fresh_constraints P (dof_handler s2) (Some (is_elements (locally_relevant_dofs s2))) True"
        "Z = fresh_constraints P (dof_handler s2) (Some (is_elements (locally_relevant_dofs s2))) False"
    by simp_all
  have s2f: "trace s2 = trace s @ [EstimateError, FlagCells (6 / 10) (4 / 10), ClearFlags lo hi,
                            PrepareRefinement, Snapshot, ExecuteRefinement, SetupDofs]"
    "time s2 = time s"
    "triangulation s2 = execute_coarsening_and_refinement F
            (prepare_coarsening_and_refinement F (refine_mesh_flags F lo hi s))"
    "dof_handler s2 = DoFs (triangulation s2)"
    "dofs_per_block s2 = [fst (count_dofs_per_block F (dof_handler s2)),
                          snd (count_dofs_per_block F (dof_handler s2))]"
    "locally_relevant_dofs s2
          = \<lparr>is_size = n_dofs F (dof_handler s2),
             is_elements = extract_locally_relevant_dofs F (dof_handler s2)\<rparr>"
    "owned_partitioning s2
          = [get_view 0 (fst (count_dofs_per_block F (dof_handler s2)))
               \<lparr>is_size = n_dofs F (dof_handler s2),
                is_elements = locally_owned_dofs F (dof_handler s2)\<rparr>,
             get_view (fst (count_dofs_per_block F (dof_handler s2)))
               (fst (count_dofs_per_block F (dof_handler s2))
                  + snd (count_dofs_per_block F (dof_handler s2)))
               \<lparr>is_size = n_dofs F (dof_handler s2),
                is_elements = locally_owned_dofs F (dof_handler s2)\<rparr>]"
    by (simp_all add: s2_def pns_setup_dofs_def Let_def split_beta log_event_def)
  have r: "pns_refine_mesh F P lo hi s =
            (let s1 = pns_initialize_system F P s3;
                 tmp = newton_update s1;
                 tmp = bv_fill 0 tmp;
                 tmp = interpolate F (dof_handler s) (present_solution s) (dof_handler s1) tmp;
                 s1 = log_event Interpolate s1;
                 tmp = distribute F (nonzero_constraints s1) tmp;
                 s1 = log_event DistributeNonzero s1
             in Inr (s1\<lparr>present_solution := tmp\<rparr>))"
    by (simp add: pns_refine_mesh_def Let_def log_event_def s3[unfolded s2_def, simplified])
  show ?thesis
    unfolding r f
    by (simp add: pns_initialize_system_def Let_def split_beta setup_cell_property_def
          log_event_def s2f c nz fresh_constraints_closed cong: let_weak_cong)
qed


lemma imex_refine_mesh_outcome:
  "\<exists>b. trace (state_of (imex_refine_mesh F P lo hi s)) = trace s @ refine_events lo hi b"
  "time (state_of (imex_refine_mesh F P lo hi s)) = time s"
proof -
  show "\<exists>b. trace (state_of (imex_refine_mesh F P lo hi s)) = trace s @ refine_events lo hi b"
  proof (cases "\<forall>itr \<in> set (fluid_dirichlet_bcs P). entry_ok itr")
    case True
    from imex_refine_mesh_ok[OF True, of F lo hi s] show ?thesis
      by (intro exI[of _ True]) (auto simp: state_of_def refine_events_def)
  next
    case False
    from imex_refine_mesh_bad[OF False, of F lo hi s] show ?thesis
      by (intro exI[of _ False]) (auto simp: state_of_def refine_events_def)
  qed
  show "time (state_of (imex_refine_mesh F P lo hi s)) = time s"
  proof (cases "\<forall>itr \<in> set (fluid_dirichlet_bcs P). entry_ok itr")
    case True
    from imex_refine_mesh_ok[OF True, of F lo hi s] show ?thesis
      by (auto simp: state_of_def)
  next
    case False
    from imex_refine_mesh_bad[OF False, of F lo hi s] show ?thesis
      by (auto simp: state_of_def)
  qed
qed


subsection \<open>The refinement sequence\<close>

text \<open>
  Claim C7. In a run (whose \<open>make_constraints\<close> has accepted the Dirichlet entries, the
  parameters being constant), every call of \<open>refine_mesh\<close> of either class returns, and
  makes its calls in this order: estimate and flag, prepare the mesh change, take the
  current solution into the solution transfer, execute the coarsening and refinement,
  \<open>setup_dofs\<close>, \<open>make_constraints\<close>, \<open>initialize_system\<close>, interpolate, distribute the
  nonzero constraints. On return the mesh is the refined one and the degrees of freedom
  are those of the new mesh. Both constraint sets are rebuilt from scratch on the new
  handler: each holds the hanging-node constraints and then one boundary interpolation
  for every Dirichlet entry of the configuration, with the mask of its flag and, in the
  nonzero set, its values, and is closed. The sparsity pattern is made anew from the new
  handler and the new nonzero set, matrices and vectors are freshly initialised on it,
  the preconditioner is gone, and the present solution is the interpolant of the solution
  held on entry with the new nonzero set distributed over it.
\<close>

theorem refine_mesh_sequence:
  "(\<forall>itr \<in> set (fluid_dirichlet_bcs P). entry_ok itr) \<longrightarrow>
   (\<exists>s'. imex_refine_mesh F P lo hi s = Inr s'
     \<and> trace s' = trace s @ [EstimateError, FlagCells (6 / 10) (4 / 10), ClearFlags lo hi,
           PrepareRefinement, Snapshot, ExecuteRefinement, SetupDofs, MakeConstraints,
           InitializeSystem, ComputeMmultPattern, SetupCellProperty, Interpolate,
           DistributeNonzero]
     \<and> time s' = time s
     \<and> triangulation s' = execute_coarsening_and_refinement F
           (prepare_coarsening_and_refinement F (refine_mesh_flags F lo hi s))
     \<and> dof_handler s' = DoFs (triangulation s')
     \<and> dofs_per_block s' = [fst (count_dofs_per_block F (dof_handler s')),
                             snd (count_dofs_per_block F (dof_handler s'))]
     \<and> cm_closed (nonzero_constraints s') \<and> cm_closed (zero_constraints s')
     \<and> nonzero_constraints s' = fresh_constraints P (dof_handler s') None True
     \<and> zero_constraints s' = fresh_constraints P (dof_handler s') None False
     \<and> sparsity_pattern s'
          = (case make_sparsity_pattern F (dof_handler s') (nonzero_constraints s') of
               (p00, p01, p10, p11) \<Rightarrow>
                 \<lparr>row_sizes = dofs_per_block s', col_sizes = dofs_per_block s',
                  pat00 = p00, pat01 = p01, pat10 = p10, pat11 = p11\<rparr>)
     \<and> mass_schur_pattern s'
          = compute_mmult_pattern F (pat10 (sparsity_pattern s')) (pat01 (sparsity_pattern s'))
     \<and> system_matrix s' = bsm_reinit (sparsity_pattern s')
     \<and> mass_matrix s' = bsm_reinit (sparsity_pattern s')
     \<and> mass_schur s' = sm_reinit (dofs_per_block s' ! 1) (dofs_per_block s' ! 1)
                          (mass_schur_pattern s')
     \<and> preconditioner s' = None
     \<and> system_rhs s' = bv_reinit (dofs_per_block s')
     \<and> solution_increment s' = bv_reinit (dofs_per_block s')
     \<and> present_solution s' = distribute F (nonzero_constraints s')
          (interpolate F (dof_handler s) (present_solution s) (dof_handler s')
             (bv_reinit (dofs_per_block s'))))
   \<and> (\<exists>t'. pns_refine_mesh F P lo hi t = Inr t'
     \<and> trace t' = trace t @ [EstimateError, FlagCells (6 / 10) (4 / 10), ClearFlags lo hi,
           PrepareRefinement, Snapshot, ExecuteRefinement, SetupDofs, MakeConstraints,
           InitializeSystem, ComputeMmultPattern, SetupCellProperty, Interpolate,
           DistributeNonzero]
     \<and> time t' = time t
     \<and> triangulation t' = execute_coarsening_and_refinement F
           (prepare_coarsening_and_refinement F (refine_mesh_flags F lo hi t))
     \<and> dof_handler t' = DoFs (triangulation t')
     \<and> dofs_per_block t' = [fst (count_dofs_per_block F (dof_handler t')),
                             snd (count_dofs_per_block F (dof_handler t'))]
     \<and> cm_closed (nonzero_constraints t') \<and> cm_closed (zero_constraints t')
     \<and> nonzero_constraints t' = fresh_constraints P (dof_handler t') (Some (is_elements (locally_relevant_dofs t'))) True
     \<and> zero_constraints t' = fresh_constraints P (dof_handler t') (Some (is_elements (locally_relevant_dofs t'))) False
     \<and> sparsity_pattern t'
          = (case make_sparsity_pattern F (dof_handler t') (nonzero_constraints t') of
               (p00, p01, p10, p11) \<Rightarrow>
                 \<lparr>row_sizes = dofs_per_block t', col_sizes = dofs_per_block t',
                  pat00 = p00, pat01 = p01, pat10 = p10, pat11 = p11\<rparr>)
     \<and> locally_relevant_dofs t'
          = \<lparr>is_size = n_dofs F (dof_handler t'),
             is_elements = extract_locally_relevant_dofs F (dof_handler t')\<rparr>
     \<and> owned_partitioning t'
          = [get_view 0 (dofs_per_block t' ! 0)
               \<lparr>is_size = n_dofs F (dof_handler t'),
                is_elements = locally_owned_dofs F (dof_handler t')\<rparr>,
             get_view (dofs_per_block t' ! 0) (dofs_per_block t' ! 0 + dofs_per_block t' ! 1)
               \<lparr>is_size = n_dofs F (dof_handler t'),
                is_elements = locally_owned_dofs F (dof_handler t')\<rparr>]
     \<and> mass_schur_blocks t'
          = bsm_reinit \<lparr>row_sizes = dofs_per_block t', col_sizes = dofs_per_block t',
                        pat00 = [], pat01 = [], pat10 = [],
                        pat11 = compute_mmult_pattern F (pat10 (sparsity_pattern t'))
                                  (pat01 (sparsity_pattern t'))\<rparr>
     \<and> system_matrix t' = bsm_reinit (sparsity_pattern t')
     \<and> mass_matrix t' = bsm_reinit (sparsity_pattern t')
     \<and> preconditioner t' = None
     \<and> system_rhs t' = bv_reinit (map is_size (owned_partitioning t'))
     \<and> newton_update t' = bv_reinit (map is_size (owned_partitioning t'))
     \<and> evaluation_point t' = bv_reinit (map is_size (owned_partitioning t'))
     \<and> present_solution t' = distribute F (nonzero_constraints t')
          (interpolate F (dof_handler t) (present_solution t) (dof_handler t')
             (bv_fill 0 (bv_reinit (map is_size (owned_partitioning t'))))))"
proof
  assume ok: "\<forall>itr \<in> set (fluid_dirichlet_bcs P). entry_ok itr"
  from imex_refine_mesh_ok[OF ok, of F lo hi s] pns_refine_mesh_ok[OF ok, of F lo hi t]
  show "(\<exists>s'. imex_refine_mesh F P lo hi s = Inr s'
     \<and> trace s' = trace s @ [EstimateError, FlagCells (6 / 10) (4 / 10), ClearFlags lo hi,
           PrepareRefinement, Snapshot, ExecuteRefinement, SetupDofs, MakeConstraints,
           InitializeSystem, ComputeMmultPattern, SetupCellProperty, Interpolate,
           DistributeNonzero]
     \<and> time s' = time s
     \<and> triangulation s' = execute_coarsening_and_refinement F
           (prepare_coarsening_and_refinement F (refine_mesh_flags F lo hi s))
     \<and> dof_handler s' = DoFs (triangulation s')
     \<and> dofs_per_block s' = [fst (count_dofs_per_block F (dof_handler s')),
                             snd (count_dofs_per_block F (dof_handler s'))]
     \<and> cm_closed (nonzero_constraints s') \<and> cm_closed (zero_constraints s')
     \<and> nonzero_constraints s' = fresh_constraints P (dof_handler s') None True
     \<and> zero_constraints s' = fresh_constraints P (dof_handler s') None False
     \<and> sparsity_pattern s'
          = (case make_sparsity_pattern F (dof_handler s') (nonzero_constraints s') of
               (p00, p01, p10, p11) \<Rightarrow>
                 \<lparr>row_sizes = dofs_per_block s', col_sizes = dofs_per_block s',
                  pat00 = p00, pat01 = p01, pat10 = p10, pat11 = p11\<rparr>)
     \<and> mass_schur_pattern s'
          = compute_mmult_pattern F (pat10 (sparsity_pattern s')) (pat01 (sparsity_pattern s'))
     \<and> system_matrix s' = bsm_reinit (sparsity_pattern s')
     \<and> mass_matrix s' = bsm_reinit (sparsity_pattern s')
     \<and> mass_schur s' = sm_reinit (dofs_per_block s' ! 1) (dofs_per_block s' ! 1)
                          (mass_schur_pattern s')
     \<and> preconditioner s' = None
     \<and> system_rhs s' = bv_reinit (dofs_per_block s')
     \<and> solution_increment s' = bv_reinit (dofs_per_block s')
     \<and> present_solution s' = distribute F (nonzero_constraints s')
          (interpolate F (dof_handler s) (present_solution s) (dof_handler s')
             (bv_reinit (dofs_per_block s'))))
   \<and> (\<exists>t'. pns_refine_mesh F P lo hi t = Inr t'
     \<and> trace t' = trace t @ [EstimateError, FlagCells (6 / 10) (4 / 10), ClearFlags lo hi,
           PrepareRefinement, Snapshot, ExecuteRefinement, SetupDofs, MakeConstraints,
           InitializeSystem, ComputeMmultPattern, SetupCellProperty, Interpolate,
           DistributeNonzero]
     \<and> time t' = time t
     \<and> triangulation t' = execute_coarsening_and_refinement F
           (prepare_coarsening_and_refinement F (refine_mesh_flags F lo hi t))
     \<and> dof_handler t' = DoFs (triangulation t')
     \<and> dofs_per_block t' = [fst (count_dofs_per_block F (dof_handler t')),
                             snd (count_dofs_per_block F (dof_handler t'))]
     \<and> cm_closed (nonzero_constraints t') \<and> cm_closed (zero_constraints t')
     \<and> nonzero_constraints t' = fresh_constraints P (dof_handler t') (Some (is_elements (locally_relevant_dofs t'))) True
     \<and> zero_constraints t' = fresh_constraints P (dof_handler t') (Some (is_elements (locally_relevant_dofs t'))) False
     \<and> sparsity_pattern t'
          = (case make_sparsity_pattern F (dof_handler t') (nonzero_constraints t') of
               (p00, p01, p10, p11) \<Rightarrow>
                 \<lparr>row_sizes = dofs_per_block t', col_sizes = dofs_per_block t',
                  pat00 = p00, pat01 = p01, pat10 = p10, pat11 = p11\<rparr>)
     \<and> locally_relevant_dofs t'
          = \<lparr>is_size = n_dofs F (dof_handler t'),
             is_elements = extract_locally_relevant_dofs F (dof_handler t')\<rparr>
     \<and> owned_partitioning t'
          = [get_view 0 (dofs_per_block t' ! 0)
               \<lparr>is_size = n_dofs F (dof_handler t'),
                is_elements = locally_owned_dofs F (dof_handler t')\<rparr>,
             get_view (dofs_per_block t' ! 0) (dofs_per_block t' ! 0 + dofs_per_block t' ! 1)
               \<lparr>is_size = n_dofs F (dof_handler t'),
                is_elements = locally_owned_dofs F (dof_handler t')\<rparr>]
     \<and> mass_schur_blocks t'
          = bsm_reinit \<lparr>row_sizes = dofs_per_block t', col_sizes = dofs_per_block t',
                        pat00 = [], pat01 = [], pat10 = [],
                        pat11 = compute_mmult_pattern F (pat10 (sparsity_pattern t'))
                                  (pat01 (sparsity_pattern t'))\<rparr>
     \<and> system_matrix t' = bsm_reinit (sparsity_pattern t')
     \<and> mass_matrix t' = bsm_reinit (sparsity_pattern t')
     \<and> preconditioner t' = None
     \<and> system_rhs t' = bv_reinit (map is_size (owned_partitioning t'))
     \<and> newton_update t' = bv_reinit (map is_size (owned_partitioning t'))
     \<and> evaluation_point t' = bv_reinit (map is_size (owned_partitioning t'))
     \<and> present_solution t' = distribute F (nonzero_constraints t')
          (interpolate F (dof_handler t) (present_solution t) (dof_handler t')
             (bv_fill 0 (bv_reinit (map is_size (owned_partitioning t'))))))"
    by (rule conjI)
qed

theorem refine_mesh_sequence_witness:
  "(\<exists>s'. imex_refine_mesh demo_femlib demo_params 1 3 demo_imex = Inr s'
     \<and> trace s' = [EstimateError, FlagCells (6 / 10) (4 / 10), ClearFlags 1 3,
           PrepareRefinement, Snapshot, ExecuteRefinement, SetupDofs, MakeConstraints,
           InitializeSystem, ComputeMmultPattern, SetupCellProperty, Interpolate,
           DistributeNonzero]
     \<and> dofs_per_block s' = [2, 1]
     \<and> nonzero_constraints s'
          = \<lparr>cm_lines = [HangingNodes (dof_handler s'),
                          BoundaryInterpolation (dof_handler s') 0 (ConstantFunction [1, 0, 0])
                            [True, True, False],
                          BoundaryInterpolation (dof_handler s') 1 (ConstantFunction [0, 0, 0])
                            [True, False, False]],
             cm_local = None, cm_closed = True\<rparr>
     \<and> zero_constraints s'
          = \<lparr>cm_lines = [HangingNodes (dof_handler s'),
                          BoundaryInterpolation (dof_handler s') 0 (ZeroFunction 3)
                            [True, True, False],
                          BoundaryInterpolation (dof_handler s') 1 (ZeroFunction 3)
                            [True, False, False]],
             cm_local = None, cm_closed = True\<rparr>
     \<and> present_solution s' = \<lparr>block0 = [0, 0], block1 = [0]\<rparr>)
   \<and> (\<exists>t'. pns_refine_mesh demo_femlib demo_params 1 3 demo_pns = Inr t'
     \<and> trace t' = [EstimateError, FlagCells (6 / 10) (4 / 10), ClearFlags 1 3,
           PrepareRefinement, Snapshot, ExecuteRefinement, SetupDofs, MakeConstraints,
           InitializeSystem, ComputeMmultPattern, SetupCellProperty, Interpolate,
           DistributeNonzero]
     \<and> dofs_per_block t' = [2, 1]
     \<and> cm_lines (nonzero_constraints t')
          = [HangingNodes (dof_handler t'),
             BoundaryInterpolation (dof_handler t') 0 (ConstantFunction [1, 0, 0])
               [True, True, False],
             BoundaryInterpolation (dof_handler t') 1 (ConstantFunction [0, 0, 0])
               [True, False, False]]
     \<and> preconditioner t' = None)"
proof -
  have ok: "\<forall>itr \<in> set (fluid_dirichlet_bcs demo_params). entry_ok itr"
    by (simp add: demo_params_def entry_ok_def values_present_def values_read_def)
  have t: "trace demo_imex = []" "trace demo_pns = []"
    by (simp_all add: demo_imex_def demo_pns_def)
  have f: "count_dofs_per_block demo_femlib = (\<lambda>dh. (2, 1))"
    "distribute demo_femlib = (\<lambda>c v. v)" "interpolate demo_femlib = (\<lambda>old saved new v. v)"
    by (simp_all add: demo_femlib_def)
  have l: "fresh_constraints demo_params dh loc True
          = \<lparr>cm_lines = [HangingNodes dh,
                          BoundaryInterpolation dh 0 (ConstantFunction [1, 0, 0])
                            [True, True, False],
                          BoundaryInterpolation dh 1 (ConstantFunction [0, 0, 0])
                            [True, False, False]],
             cm_local = loc, cm_closed = True\<rparr>"
    "fresh_constraints demo_params dh loc False
          = \<lparr>cm_lines = [HangingNodes dh,
                          BoundaryInterpolation dh 0 (ZeroFunction 3) [True, True, False],
                          BoundaryInterpolation dh 1 (ZeroFunction 3) [True, False, False]],
             cm_local = loc, cm_closed = True\<rparr>" for dh loc
    by (simp_all add: fresh_constraints_def boundary_line_def component_mask_def demo_params_def
          Let_def eval_nat_numeral)
  from refine_mesh_sequence[of demo_params demo_femlib 1 3 demo_imex demo_pns] ok
  obtain s' t' where
    s': "imex_refine_mesh demo_femlib demo_params 1 3 demo_imex = Inr s'"
      "trace s' = trace demo_imex @ [EstimateError, FlagCells (6 / 10) (4 / 10), ClearFlags 1 3,
           PrepareRefinement, Snapshot, ExecuteRefinement, SetupDofs, MakeConstraints,
           InitializeSystem, ComputeMmultPattern, SetupCellProperty, Interpolate,
           DistributeNonzero]"
      "dofs_per_block s' = [fst (count_dofs_per_block demo_femlib (dof_handler s')),
                             snd (count_dofs_per_block demo_femlib (dof_handler s'))]"
      "nonzero_constraints s' = fresh_constraints demo_params (dof_handler s') None True"
      "zero_constraints s' = fresh_constraints demo_params (dof_handler s') None False"
      "present_solution s' = distribute demo_femlib (nonzero_constraints s')
          (interpolate demo_femlib (dof_handler demo_imex) (present_solution demo_imex)
             (dof_handler s') (bv_reinit (dofs_per_block s')))"
    and t': "pns_refine_mesh demo_femlib demo_params 1 3 demo_pns = Inr t'"
      "trace t' = trace demo_pns @ [EstimateError, FlagCells (6 / 10) (4 / 10), ClearFlags 1 3,
           PrepareRefinement, Snapshot, ExecuteRefinement, SetupDofs, MakeConstraints,
           InitializeSystem, ComputeMmultPattern, SetupCellProperty, Interpolate,
           DistributeNonzero]"
      "dofs_per_block t' = [fst (count_dofs_per_block demo_femlib (dof_handler t')),
                             snd (count_dofs_per_block demo_femlib (dof_handler t'))]"
      "nonzero_constraints t' = fresh_constraints demo_params (dof_handler t')
          (Some (is_elements (locally_relevant_dofs t'))) True"
      "preconditioner t' = None"
    by blast
  from s'(3) have ds: "dofs_per_block s' = [2, 1]" by (simp add: f)
  from t'(3) have dt: "dofs_per_block t' = [2, 1]" by (simp add: f)
  from s'(6) have ps: "present_solution s' = \<lparr>block0 = [0, 0], block1 = [0]\<rparr>"
    by (simp add: f ds bv_reinit_def eval_nat_numeral)
  from s'(1,2,4,5) t'(1,2,4,5) ds dt ps show ?thesis by (simp add: t l)
qed

subsection \<open>Flags at the level bounds\<close>















lemmas demo_defs = demo_linalg_def demo_femlib_def demo_params_def demo_imex_def demo_pns_def
  demo_time_def demo_pattern_def demo_block_vector_def

lemmas model_defs = imex_run_def imex_setup_dofs_def imex_make_constraints_def
  imex_initialize_system_def imex_run_one_step_def imex_assemble_def imex_assemble_cell_def
  imex_solve_def imex_BlockSchurPreconditioner_def imex_refine_mesh_def
  pns_run_def pns_setup_dofs_def pns_make_constraints_def
  pns_initialize_system_def pns_run_one_step_def pns_assemble_def pns_assemble_cell_def
  pns_solve_def pns_BlockSchurPreconditioner_def pns_refine_mesh_def pns_newton_iteration_def
  refine_mesh_flags_def set_flags_def clear_coarsen_flags_at_def clear_refine_flags_from_def
  n_levels_def get_view_def
  setup_cell_property_def log_event_def dirichlet_bc_def component_mask_def cm_add_def
  cm_clear_def cm_close_def bsm_reinit_def bsm_clear_def bsm_zero_def sm_reinit_def sm_clear_def
  sm_zero_def bv_reinit_def bv_fill_def bv_add_def bv_l2_norm_def l2_norm_def vec_fill_def
  vec_add_def vec_scale_def time_increment_def bsm_m_def state_of_def Let_def

lemmas weak_congs = let_weak_cong sum.case_cong_weak prod.case_cong_weak option.case_cong_weak


subsection \<open>The constraint set used by the Newton controller\<close>








subsection \<open>When the Newton loop stops\<close>

lemma pns_newton_loop_unfold:
  "(rel \<le> fluid_tolerance P \<or> cur \<le> 1 / 10 ^ 14 \<longrightarrow>
       pns_newton_loop L F P a cur init rel k s = Inr s)
   \<and> (fluid_tolerance P < rel \<and> 1 / 10 ^ 14 < cur \<and> \<not> k < fluid_max_iterations P \<longrightarrow>
       pns_newton_loop L F P a cur init rel k s = Inl (TooManyNewtonIterations, s))
   \<and> (fluid_tolerance P < rel \<and> 1 / 10 ^ 14 < cur \<and> k < fluid_max_iterations P \<longrightarrow>
       pns_newton_loop L F P a cur init rel k s =
         (case pns_newton_iteration L F P a k s of
            Inl e \<Rightarrow> Inl e
          | Inr (s', cur') \<Rightarrow>
              pns_newton_loop L F P a cur' (if k = 0 then cur' else init)
                (cur' / (if k = 0 then cur' else init)) (k + 1) s'))"
proof (intro conjI impI)
  assume "rel \<le> fluid_tolerance P \<or> cur \<le> 1 / 10 ^ 14"
  then have "\<not> (rel > fluid_tolerance P \<and> cur > 1 / 10 ^ 14)" by auto
  then show "pns_newton_loop L F P a cur init rel k s = Inr s"
    by (subst pns_newton_loop.simps) (simp only: if_False)
next
  assume "fluid_tolerance P < rel \<and> 1 / 10 ^ 14 < cur \<and> \<not> k < fluid_max_iterations P"
  then have go: "rel > fluid_tolerance P \<and> cur > 1 / 10 ^ 14" and ge: "\<not> k < fluid_max_iterations P"
    by auto
  show "pns_newton_loop L F P a cur init rel k s = Inl (TooManyNewtonIterations, s)"
    by (subst pns_newton_loop.simps) (simp only: go ge if_True simp_thms)
next
  assume "fluid_tolerance P < rel \<and> 1 / 10 ^ 14 < cur \<and> k < fluid_max_iterations P"
  then have go: "rel > fluid_tolerance P \<and> cur > 1 / 10 ^ 14" and lt: "k < fluid_max_iterations P"
    by auto
  show "pns_newton_loop L F P a cur init rel k s =
         (case pns_newton_iteration L F P a k s of
            Inl e \<Rightarrow> Inl e
          | Inr (s', cur') \<Rightarrow>
              pns_newton_loop L F P a cur' (if k = 0 then cur' else init)
                (cur' / (if k = 0 then cur' else init)) (k + 1) s')"
    by (subst pns_newton_loop.simps)
       (simp only: go lt if_True if_False simp_thms Let_def)
qed

lemma pns_newton_loop_trace:
  "\<exists>evs. trace (state_of (pns_newton_loop L F P a cur init rel k s)) = trace s @ evs"
proof (induction L F P a cur init rel k s rule: pns_newton_loop.induct)
  case (1 L F P a cur init rel k s)
  note u = pns_newton_loop_unfold[of rel P cur L F a init k s]
  show ?case
  proof (cases "rel > fluid_tolerance P \<and> cur > 1 / 10 ^ 14")
    case False
    then have "pns_newton_loop L F P a cur init rel k s = Inr s" using u by auto
    then show ?thesis by (simp add: state_of_def)
  next
    case go: True
    show ?thesis
    proof (cases "k < fluid_max_iterations P")
      case False
      then have "pns_newton_loop L F P a cur init rel k s = Inl (TooManyNewtonIterations, s)"
        using u go by auto
      then show ?thesis by (simp add: state_of_def)
    next
      case lt: True
      from pns_newton_iteration_trace[of L F P a k s] obtain evs where
        it: "trace (solve_state (pns_newton_iteration L F P a k s)) = trace s @ evs" by auto
      have eq: "pns_newton_loop L F P a cur init rel k s =
         (case pns_newton_iteration L F P a k s of
            Inl e \<Rightarrow> Inl e
          | Inr (s', cur') \<Rightarrow>
              pns_newton_loop L F P a cur' (if k = 0 then cur' else init)
                (cur' / (if k = 0 then cur' else init)) (k + 1) s')"
        using u go lt by blast
      show ?thesis
      proof (cases "pns_newton_iteration L F P a k s")
        case (Inl e)
        with it eq show ?thesis by (auto simp: state_of_def solve_state_def split: prod.splits)
      next
        case (Inr x)
        then obtain s' c' where x: "pns_newton_iteration L F P a k s = Inr (s', c')"
          by (cases x) auto
        from "1.IH"[OF go _ x refl refl] lt obtain evs' where
          "trace (state_of (pns_newton_loop L F P a c' (if k = 0 then c' else init)
                (c' / (if k = 0 then c' else init)) (k + 1) s')) = trace s' @ evs'" by auto
        with it x eq show ?thesis by (simp add: solve_state_def)
      qed
    qed
  qed
qed

text \<open>
  Claim C2, as amended. The Newton loop of a time step stops as soon as the relative
  residual is at most the tolerance or the absolute residual is at most 1e-14: it then
  returns with nothing further assembled or solved. Another pass (preceded by the check of
  the iteration limit, whose failure is fatal) is made exactly while the relative residual
  exceeds the tolerance and the absolute residual exceeds 1e-14; the pass begins with a
  call of \<open>assemble\<close> and one of \<open>solve\<close>, and the loop goes on from the residuals it yields.
\<close>

theorem newton_loop_stops:
  "(rel \<le> fluid_tolerance P \<or> cur \<le> 1 / 10 ^ 14 \<longrightarrow>
       pns_newton_loop L F P a cur init rel k s = Inr s)
   \<and> (fluid_tolerance P < rel \<and> 1 / 10 ^ 14 < cur \<and> \<not> k < fluid_max_iterations P \<longrightarrow>
       pns_newton_loop L F P a cur init rel k s = Inl (TooManyNewtonIterations, s))
   \<and> (fluid_tolerance P < rel \<and> 1 / 10 ^ 14 < cur \<and> k < fluid_max_iterations P \<longrightarrow>
       pns_newton_loop L F P a cur init rel k s =
         (case pns_newton_iteration L F P a k s of
            Inl e \<Rightarrow> Inl e
          | Inr (s', cur') \<Rightarrow>
              pns_newton_loop L F P a cur' (if k = 0 then cur' else init)
                (cur' / (if k = 0 then cur' else init)) (k + 1) s')
       \<and> (\<exists>evs. trace (state_of (pns_newton_loop L F P a cur init rel k s))
                 = trace s @ [CallAssemble (timestep (time s)) k (a \<and> k = 0) True,
                              CallSolve (timestep (time s)) k (a \<and> k = 0) True] @ evs))"
proof -
  note u = pns_newton_loop_unfold[of rel P cur L F a init k s]
  have "\<exists>evs. trace (state_of (pns_newton_loop L F P a cur init rel k s))
                 = trace s @ [CallAssemble (timestep (time s)) k (a \<and> k = 0) True,
                              CallSolve (timestep (time s)) k (a \<and> k = 0) True] @ evs"
    if c: "fluid_tolerance P < rel \<and> 1 / 10 ^ 14 < cur \<and> k < fluid_max_iterations P"
  proof -
    from pns_newton_iteration_trace[of L F P a k s] obtain evs where
      it: "trace (solve_state (pns_newton_iteration L F P a k s))
             = trace s @ [CallAssemble (timestep (time s)) k (a \<and> k = 0) True,
                          CallSolve (timestep (time s)) k (a \<and> k = 0) True] @ evs" by auto
    have eq: "pns_newton_loop L F P a cur init rel k s =
         (case pns_newton_iteration L F P a k s of
            Inl e \<Rightarrow> Inl e
          | Inr (s', cur') \<Rightarrow>
              pns_newton_loop L F P a cur' (if k = 0 then cur' else init)
                (cur' / (if k = 0 then cur' else init)) (k + 1) s')"
      using u c by blast
    show ?thesis
    proof (cases "pns_newton_iteration L F P a k s")
      case (Inl e)
      with it eq show ?thesis by (auto simp: state_of_def solve_state_def split: prod.splits)
    next
      case (Inr x)
      then obtain s' c' where x: "pns_newton_iteration L F P a k s = Inr (s', c')"
        by (cases x) auto
      from pns_newton_loop_trace[of L F P a c' "if k = 0 then c' else init"
             "c' / (if k = 0 then c' else init)" "k + 1" s'] obtain evs' where
        "trace (state_of (pns_newton_loop L F P a c' (if k = 0 then c' else init)
                (c' / (if k = 0 then c' else init)) (k + 1) s')) = trace s' @ evs'" by auto
      with it x eq show ?thesis by (simp add: solve_state_def)
    qed
  qed
  with u show ?thesis by blast
qed

theorem newton_loop_stops_witness:
  "pns_newton_loop demo_linalg demo_femlib demo_params True 0 1 1 0 demo_pns = Inr demo_pns
   \<and> pns_newton_loop demo_linalg demo_femlib demo_params True 1 1 1 5 demo_pns
       = Inl (TooManyNewtonIterations, demo_pns)
   \<and> (\<exists>evs. trace (state_of (pns_newton_loop demo_linalg demo_femlib demo_params True 1 1 1 0
                                 demo_pns))
         = [CallAssemble 0 0 True True, CallSolve 0 0 True True] @ evs)"
proof -
  have p: "fluid_tolerance demo_params = 1 / 2" "fluid_max_iterations demo_params = 5"
    by (simp_all add: demo_params_def)
  have t: "trace demo_pns = []" "timestep (time demo_pns) = 0"
    by (simp_all add: demo_pns_def demo_time_def)
  from newton_loop_stops[of 1 demo_params 0 demo_linalg demo_femlib True 1 0 demo_pns]
  have 1: "pns_newton_loop demo_linalg demo_femlib demo_params True 0 1 1 0 demo_pns = Inr demo_pns"
    by simp
  from newton_loop_stops[of 1 demo_params 1 demo_linalg demo_femlib True 1 5 demo_pns]
  have 2: "pns_newton_loop demo_linalg demo_femlib demo_params True 1 1 1 5 demo_pns
       = Inl (TooManyNewtonIterations, demo_pns)"
    by (simp add: p)
  have c: "fluid_tolerance demo_params < 1 \<and> 1 / 10 ^ 14 < (1::real)
             \<and> 0 < fluid_max_iterations demo_params"
    by (simp add: p)
  from newton_loop_stops[of 1 demo_params 1 demo_linalg demo_femlib True 1 0 demo_pns] c
  have "\<exists>evs. trace (state_of (pns_newton_loop demo_linalg demo_femlib demo_params True 1 1 1 0
                                 demo_pns))
         = trace demo_pns @ [CallAssemble (timestep (time demo_pns)) 0 (True \<and> (0::nat) = 0) True,
                             CallSolve (timestep (time demo_pns)) 0 (True \<and> (0::nat) = 0) True] @ evs"
    by blast
  then have 3: "\<exists>evs. trace (state_of (pns_newton_loop demo_linalg demo_femlib demo_params True 1 1 1 0
                                 demo_pns))
         = [CallAssemble 0 0 True True, CallSolve 0 0 True True] @ evs"
    by (simp add: t)
  from 1 2 3 show ?thesis by blast
qed

text \<open>
  The loop does not wait for both conditions: with the tolerance 1/2, a relative residual
  of 1/4 and an absolute residual of 1, it returns at once, although the absolute residual
  is far above 1e-14.
\<close>

theorem newton_loop_stop_counterexample:
  "pns_newton_loop demo_linalg demo_femlib demo_params False 1 4 (1 / 4) 1 demo_pns = Inr demo_pns
   \<and> (1 / 4 :: real) \<le> fluid_tolerance demo_params
   \<and> \<not> ((1 :: real) < 1 / 10 ^ 14)"
  by (subst pns_newton_loop.simps) (simp add: demo_params_def)

subsection \<open>The IMEX step\<close>

lemma imex_solve_trace:
  "\<exists>evs. trace (solve_state (imex_solve L F P nz asm s))
        = trace s @ (if asm then [JacobiOnes, MMult (Some False), NewPreconditioner] else []) @ evs
      \<and> (evs = [] \<or> (\<exists>c. evs = [FGMRES c] \<or> evs = [FGMRES c, Distribute nz]))"
  by (cases asm)
     (auto simp add: imex_solve_def Let_def split_beta solve_state_def log_event_def
           imex_BlockSchurPreconditioner_def split: sum.splits option.splits)

lemma imex_solve_fields:
  "time (solve_state (imex_solve L F P nz asm s)) = time s"
  "system_matrix (solve_state (imex_solve L F P nz asm s)) = system_matrix s"
  "mass_matrix (solve_state (imex_solve L F P nz asm s)) = mass_matrix s"
  "system_rhs (solve_state (imex_solve L F P nz asm s)) = system_rhs s"
  "present_solution (solve_state (imex_solve L F P nz asm s)) = present_solution s"
  by (simp_all add: imex_solve_def Let_def split_beta solve_state_def log_event_def
           split: sum.splits option.splits)

lemma imex_solve_frozen:
  "mass_schur (solve_state (imex_solve L F P nz False s)) = mass_schur s"
  "preconditioner (solve_state (imex_solve L F P nz False s)) = preconditioner s"
  by (simp_all add: imex_solve_def Let_def split_beta solve_state_def log_event_def
           split: sum.splits option.splits)

lemma imex_assemble_more:
  "mass_schur (imex_assemble F P nz asm s) = mass_schur s"
  "solution_increment (imex_assemble F P nz asm s) = solution_increment s"
proof -
  let ?s' = "imex_assemble F P nz asm s"
  have e: "s = ?s'\<lparr>system_matrix := system_matrix s, mass_matrix := mass_matrix s,
         system_rhs := system_rhs s\<rparr>"
    using imex_assemble_frame[of s F P nz asm] by (simp add: assembly_frame_def)
  show "mass_schur ?s' = mass_schur s" by (subst (2) e) simp
  show "solution_increment ?s' = solution_increment s" by (subst (2) e) simp
qed

lemma refine_events_imex:
  "list_all imex_flags_ok (refine_events lo hi b)"
  "filter is_schur_build (refine_events lo hi b) = []"
  "filter is_call (refine_events lo hi b) = []"
  by (simp_all add: refine_events_def)

lemma imex_run_one_step_facts:
  fixes L F P s
  defines "n \<equiv> timestep (time s) + 1"
  defines "r \<equiv> imex_run_one_step L F P s"
  shows "\<exists>evs. trace (state_of r) = trace s @ evs \<and> list_all imex_flags_ok evs
           \<and> length (filter is_schur_build evs) = (if n < 3 then 1 else 0)
           \<and> filter is_call evs = [CallAssemble n 0 (n = 1) (n < 3), CallSolve n 0 (n = 1) (n < 3)]"
    and "time (state_of r) = time_increment (time s)"
    and "3 \<le> n \<Longrightarrow> \<not> time_to_refine F (time_increment (time s)) \<Longrightarrow> same_operator s (state_of r)"
    and "3 \<le> n \<Longrightarrow> \<not> time_to_refine F (time_increment (time s)) \<Longrightarrow>
           system_rhs (state_of r)
             = rhs_only_assembly F P False (s\<lparr>time := time_increment (time s)\<rparr>)"
proof -
  define s3 where "s3 =
     (let s = (if timestep (time s) = 0 then log_event (OutputResults 0) s else s);
          s = s\<lparr>time := time_increment (time s)\<rparr>;
          s = log_event (TimeIncrement (timestep (time s))) s
      in s\<lparr>solution_increment := bv_fill 0 (solution_increment s)\<rparr>)"
  define K where "K = (\<lambda>s :: imex_state.
            (let s = s\<lparr>present_solution := bv_add (present_solution s) (solution_increment s)\<rparr>;
                 s = (if time_to_output F (time s)
                      then log_event (OutputResults (timestep (time s))) s else s)
             in if time_to_refine F (time s) then imex_refine_mesh F P 1 3 s else Inr s))"
  have eq0: "imex_run_one_step L F P s =
     (let s = s3;
          apply_nonzero_constraints = (timestep (time s) = 1);
          assemble_system = (timestep (time s) < 3);
          s = log_event (CallAssemble (timestep (time s)) 0 apply_nonzero_constraints
                           assemble_system) s;
          s = imex_assemble F P apply_nonzero_constraints assemble_system s;
          s = log_event (CallSolve (timestep (time s)) 0 apply_nonzero_constraints
                           assemble_system) s
      in case imex_solve L F P apply_nonzero_constraints assemble_system s of
           Inl e \<Rightarrow> Inl e
         | Inr (s, state) \<Rightarrow> K s)"
    unfolding imex_run_one_step_def s3_def K_def Let_def by (rule refl)
  have s3t: "time s3 = time_increment (time s)" "timestep (time s3) = n"
    by (simp_all add: s3_def Let_def log_event_def time_increment_def n_def)
  obtain pre where pre: "trace s3 = trace s @ pre" "list_all imex_flags_ok pre"
    "filter is_schur_build pre = []" "filter is_call pre = []"
    by (cases "timestep (time s) = 0") (simp_all add: s3_def Let_def log_event_def)
  have s3o: "same_operator s s3"
    by (simp add: s3_def Let_def log_event_def same_operator_def)
  define s4 where "s4 = log_event (CallAssemble n 0 (n = 1) (n < 3)) s3"
  define s5 where "s5 = imex_assemble F P (n = 1) (n < 3) s4"
  define s6 where "s6 = log_event (CallSolve n 0 (n = 1) (n < 3)) s5"
  have s5t: "time s5 = time s3" "trace s5 = trace s4"
    by (simp_all add: s5_def imex_assemble_fields s4_def log_event_def)
  have eq: "r = (case imex_solve L F P (n = 1) (n < 3) s6 of
           Inl e \<Rightarrow> Inl e
         | Inr (s, state) \<Rightarrow> K s)"
  proof -
    have tn: "timestep (time_increment (time s)) = n"
      by (simp add: time_increment_def n_def)
    show ?thesis
      unfolding r_def eq0 s6_def s5_def s4_def
      by (simp add: Let_def s3t(1) tn imex_assemble_fields log_event_def)
  qed
  have s6tr: "trace s6 = trace s @ pre @ [CallAssemble n 0 (n = 1) (n < 3),
                                           CallSolve n 0 (n = 1) (n < 3)]"
    by (simp add: s6_def s5t s4_def log_event_def pre)
  have s6t: "time s6 = time_increment (time s)"
    by (simp add: s6_def s5t s3t log_event_def)
  define s7 where "s7 = solve_state (imex_solve L F P (n = 1) (n < 3) s6)"
  from imex_solve_trace[of L F P "n = 1" "n < 3" s6] obtain sev where
    sev: "trace s7 = trace s6
             @ (if n < 3 then [JacobiOnes, MMult (Some False), NewPreconditioner] else []) @ sev"
         "sev = [] \<or> (\<exists>c. sev = [FGMRES c] \<or> sev = [FGMRES c, Distribute (n = 1)])"
    unfolding s7_def by blast
  have s7t: "time s7 = time_increment (time s)"
    by (simp add: s7_def imex_solve_fields s6t)
  define mid where "mid = pre @ [CallAssemble n 0 (n = 1) (n < 3), CallSolve n 0 (n = 1) (n < 3)]
             @ (if n < 3 then [JacobiOnes, MMult (Some False), NewPreconditioner] else []) @ sev"
  have mid: "trace s7 = trace s @ mid" "list_all imex_flags_ok mid"
    "length (filter is_schur_build mid) = (if n < 3 then 1 else 0)"
    "filter is_call mid = [CallAssemble n 0 (n = 1) (n < 3), CallSolve n 0 (n = 1) (n < 3)]"
    using sev pre by (auto simp: mid_def s6tr)
  have tail: "(\<exists>evs. trace (state_of (K t)) = trace t @ evs \<and> list_all imex_flags_ok evs
                \<and> filter is_schur_build evs = [] \<and> filter is_call evs = [])
              \<and> time (state_of (K t)) = time t
              \<and> (\<not> time_to_refine F (time t) \<longrightarrow>
                    same_operator t (state_of (K t)) \<and> system_rhs (state_of (K t)) = system_rhs t)"
    for t
  proof -
    define t1 where "t1 = (let s = t\<lparr>present_solution := bv_add (present_solution t)
                                                            (solution_increment t)\<rparr>
       in (if time_to_output F (time s)
                      then log_event (OutputResults (timestep (time s))) s else s))"
    have k: "K t = (if time_to_refine F (time t1) then imex_refine_mesh F P 1 3 t1 else Inr t1)"
      unfolding K_def t1_def Let_def by (rule refl)
    obtain o1 where t1f: "time t1 = time t" "trace t1 = trace t @ o1" "list_all imex_flags_ok o1"
      "filter is_schur_build o1 = []" "filter is_call o1 = []" "same_operator t t1"
      "system_rhs t1 = system_rhs t"
      by (cases "time_to_output F (time t)")
         (simp_all add: t1_def Let_def log_event_def same_operator_def)
    show ?thesis
    proof (cases "time_to_refine F (time t1)")
      case True
      from imex_refine_mesh_outcome[of F P 1 3 t1] obtain b where
        "trace (state_of (imex_refine_mesh F P 1 3 t1)) = trace t1 @ refine_events 1 3 b"
        "time (state_of (imex_refine_mesh F P 1 3 t1)) = time t1" by blast
      with True t1f show ?thesis by (simp add: k refine_events_imex)
    next
      case False
      with t1f show ?thesis by (simp add: k state_of_def)
    qed
  qed
  have frozen: "same_operator s s7 \<and> system_rhs s7
             = rhs_only_assembly F P False (s\<lparr>time := time_increment (time s)\<rparr>)"
    if n3: "3 \<le> n"
  proof -
    have f: "(n < 3) = False" "(n = 1) = False" using n3 by simp_all
    have s5e: "s5 = s4\<lparr>system_rhs := rhs_only_assembly F P False s4\<rparr>"
      unfolding s5_def f by (rule imex_assemble_rhs_only)
    have "rhs_only_assembly F P False s4
            = rhs_only_assembly F P False (s\<lparr>time := time_increment (time s)\<rparr>)"
      by (rule rhs_only_assembly_cong)
         (simp_all add: s4_def s3_def Let_def log_event_def)
    moreover have "same_operator s s6"
      using s3o by (simp add: s6_def s5e s4_def log_event_def same_operator_def)
    moreover have "system_rhs s6 = rhs_only_assembly F P False s4"
      by (simp add: s6_def s5e log_event_def)
    ultimately show ?thesis
      using imex_solve_fields[of L F P False False s6] imex_solve_frozen[of L F P False s6]
      unfolding s7_def f by (simp add: same_operator_def)
  qed
  have cases_r: "(\<exists>e. r = Inl (e, s7)) \<or> r = K s7"
    unfolding eq s7_def
    by (cases "imex_solve L F P (n = 1) (n < 3) s6") (auto simp: solve_state_def)
  show "\<exists>evs. trace (state_of r) = trace s @ evs \<and> list_all imex_flags_ok evs
           \<and> length (filter is_schur_build evs) = (if n < 3 then 1 else 0)
           \<and> filter is_call evs = [CallAssemble n 0 (n = 1) (n < 3), CallSolve n 0 (n = 1) (n < 3)]"
  proof -
    from cases_r show ?thesis
    proof
      assume "\<exists>e. r = Inl (e, s7)"
      then have "state_of r = s7" by (auto simp: state_of_def)
      with mid show ?thesis by auto
    next
      assume "r = K s7"
      with tail[of s7] obtain evs where
        "trace (state_of r) = trace s7 @ evs" "list_all imex_flags_ok evs"
        "filter is_schur_build evs = []" "filter is_call evs = []" by auto
      with mid show ?thesis by (intro exI[of _ "mid @ evs"]) simp
    qed
  qed
  show "time (state_of r) = time_increment (time s)"
    using cases_r tail[of s7] s7t by (auto simp: state_of_def)
  show "same_operator s (state_of r)"
    if "3 \<le> n" "\<not> time_to_refine F (time_increment (time s))"
    using cases_r tail[of s7] s7t frozen that by (auto simp: state_of_def same_operator_def)
  show "system_rhs (state_of r)
             = rhs_only_assembly F P False (s\<lparr>time := time_increment (time s)\<rparr>)"
    if "3 \<le> n" "\<not> time_to_refine F (time_increment (time s))"
    using cases_r tail[of s7] s7t frozen that by (auto simp: state_of_def)
qed





lemmas imex_demo_defs = two_step_imex_def three_step_imex_def assembling_femlib_def
  refining_femlib_def error_of_def refine_events_def

lemma imex_three_steps_calls:
  "map_option (\<lambda>r. (length (filter is_schur_build (trace (state_of r))),
                     filter is_call (trace (state_of r)), error_of r))
     (imex_run demo_linalg demo_femlib demo_params 3 three_step_imex)
   = Some (2, [CallAssemble 1 0 True True, CallSolve 1 0 True True,
               CallAssemble 2 0 False True, CallSolve 2 0 False True,
               CallAssemble 3 0 False False, CallSolve 3 0 False False], None)"
  by (simp add: demo_defs imex_demo_defs model_defs eval_nat_numeral cong: weak_congs)



subsection \<open>The constraint set used by the IMEX controller\<close>






lemma imex_solve_builds:
  "\<exists>evs. trace (solve_state (imex_solve L F P nz asm s)) = trace s @ evs
      \<and> filter is_schur_build evs = (if asm then [MMult (Some False)] else [])
      \<and> ComputeMmultPattern \<notin> set evs"
  using imex_solve_trace[of L F P nz asm s] by (cases asm) auto

lemma pns_solve_builds:
  "\<exists>evs. trace (solve_state (pns_solve L F P nz s)) = trace s @ evs
      \<and> filter is_schur_build evs = [MMult None]
      \<and> ComputeMmultPattern \<notin> set evs"
  using pns_solve_trace[of L F P nz s] by auto

lemma schur_constructors:
  "imex_BlockSchurPreconditioner L g v rho dt sys mass schur
     = (\<lparr>pc_gamma = g, pc_viscosity = v, pc_rho = rho, pc_dt = dt\<rparr>,
        mmult L schur (blk10 sys) (blk01 sys)
          (precondition_Jacobi L (blk00 mass) (replicate (sm_m (blk00 mass)) 1)) (Some False),
        [JacobiOnes, MMult (Some False)])"
  "pns_BlockSchurPreconditioner L g v rho dt owned sys mass bschur
     = (\<lparr>pc_gamma = g, pc_viscosity = v, pc_rho = rho, pc_dt = dt\<rparr>,
        bschur\<lparr>blk11 := mmult L (blk11 bschur) (blk10 sys) (blk01 sys)
          (precondition_Jacobi L (blk00 mass) (replicate (map is_size owned ! 0) 1)) None\<rparr>,
        [JacobiOnes, MMult None])"
  by (simp_all add: imex_BlockSchurPreconditioner_def pns_BlockSchurPreconditioner_def Let_def
        vec_fill_def bv_fill_def bv_reinit_def map_replicate_const)

lemma schur_pattern_at_initialization:
  "mass_schur (imex_initialize_system F P s)
     = sm_reinit (dofs_per_block s ! 1) (dofs_per_block s ! 1)
         (case make_sparsity_pattern F (dof_handler s) (nonzero_constraints s) of
            (p00, p01, p10, p11) \<Rightarrow> compute_mmult_pattern F p10 p01)"
  "blk11 (mass_schur_blocks (pns_initialize_system F P t))
     = sm_reinit (dofs_per_block t ! 1) (dofs_per_block t ! 1)
         (case make_sparsity_pattern F (dof_handler t) (nonzero_constraints t) of
            (p00, p01, p10, p11) \<Rightarrow> compute_mmult_pattern F p10 p01)"
  by (simp_all add: imex_initialize_system_def pns_initialize_system_def Let_def split_beta
        setup_cell_property_def log_event_def bsm_reinit_def)

subsection \<open>The operator of the IMEX controller after step 2\<close>

lemma step2_imex_fields:
  "timestep (time step2_imex) = 2"
  "trace step2_imex \<noteq> []"
  "sm_entries (blk00 (system_matrix step2_imex)) = [((0, 0), 1), ((1, 1), 1)]"
  "preconditioner step2_imex
     = Some \<lparr>pc_gamma = 0, pc_viscosity = 1, pc_rho = 1, pc_dt = 1 / 100\<rparr>"
  by (simp_all add: step2_imex_def demo_defs imex_demo_defs model_defs eval_nat_numeral
        cong: weak_congs)





subsection \<open>The right-hand side of the IMEX controller\<close>



subsection \<open>Building the Schur surrogate\<close>

lemma pns_newton_iteration_builds:
  "\<exists>evs. trace (solve_state (pns_newton_iteration L F P a k s)) = trace s @ evs
      \<and> filter is_schur_build evs = [MMult None]"
proof -
  let ?s1 = "log_event (CallAssemble (timestep (time s)) k (a \<and> k = 0) True)
               (s\<lparr>newton_update := bv_fill 0 (newton_update s)\<rparr>)"
  let ?s2 = "log_event (CallSolve (timestep (time s)) k (a \<and> k = 0) True)
               (pns_assemble F P (a \<and> k = 0) ?s1)"
  have t2: "trace ?s2 = trace s @ [CallAssemble (timestep (time s)) k (a \<and> k = 0) True,
                     CallSolve (timestep (time s)) k (a \<and> k = 0) True]"
    by (simp add: log_event_def pns_assemble_fields)
  obtain c rest where
    r: "trace (solve_state (pns_solve L F P (a \<and> k = 0) ?s2))
          = trace ?s2 @ [JacobiOnes, MMult None, NewPreconditioner, FGMRES c] @ rest"
       "rest = [] \<or> rest = [Distribute (a \<and> k = 0)]"
    using pns_solve_trace by blast
  have it: "pns_newton_iteration L F P a k s =
     (case pns_solve L F P (a \<and> k = 0) ?s2 of
           Inl e \<Rightarrow> Inl e
         | Inr (s, state) \<Rightarrow>
            (let current_residual = bv_l2_norm (system_rhs s);
                 tmp = bv_reinit (map is_size (owned_partitioning s));
                 tmp = evaluation_point s;
                 tmp = bv_add tmp (newton_update s);
                 s = log_event NewtonUpdate s;
                 tmp = distribute F (nonzero_constraints s) tmp;
                 s = log_event DistributeNonzero s
             in Inr (s\<lparr>evaluation_point := tmp\<rparr>, current_residual)))"
    by (simp add: pns_newton_iteration_def Let_def log_event_def
          pns_assemble_fields)
  show ?thesis
  proof (cases "pns_solve L F P (a \<and> k = 0) ?s2")
    case (Inl e)
    then have "solve_state (pns_newton_iteration L F P a k s)
                 = solve_state (pns_solve L F P (a \<and> k = 0) ?s2)"
      by (simp add: it solve_state_def split: prod.splits)
    with r t2 show ?thesis by auto
  next
    case (Inr x)
    then obtain s3 st where x: "pns_solve L F P (a \<and> k = 0) ?s2 = Inr (s3, st)"
      by (cases x) auto
    then have "trace (solve_state (pns_newton_iteration L F P a k s))
                 = trace (solve_state (pns_solve L F P (a \<and> k = 0) ?s2))
                   @ [NewtonUpdate, DistributeNonzero]"
      by (simp add: it Let_def log_event_def solve_state_def)
    with r t2 show ?thesis by auto
  qed
qed

lemma imex_run_one_step_builds:
  "\<exists>evs. trace (state_of (imex_run_one_step L F P s)) = trace s @ evs
      \<and> length (filter is_schur_build evs) = (if timestep (time s) + 1 < 3 then 1 else 0)"
  using imex_run_one_step_facts(1)[of L F P s] by blast

text \<open>
  Claim C4, with the count the code has. The constructor of the preconditioner applies the
  Jacobi preconditioner of the velocity mass block to the all-ones vector and hands the
  result, as the diagonal, to the sparse product of the blocks \<open>B\<close> and \<open>B\<^sup>T\<close> of the system
  matrix, which is written into the Schur surrogate: InsIMEX passes \<open>false\<close> for the rebuild
  of the sparsity pattern, the product of the distributed class has no such argument. The
  surrogate receives its pattern from \<open>compute_mmult_pattern\<close> in \<open>initialize_system\<close>, and
  \<open>solve\<close> never computes a pattern. The surrogate is built once in every construction of
  the preconditioner: in every call of \<open>solve\<close> of the distributed class, hence once in
  every pass of its Newton loop; in InsIMEX in the calls of \<open>solve\<close> that rebuild, hence
  once in each of the time steps 1 and 2 and not at all from step 3 on.
\<close>

theorem schur_surrogate_build:
  "imex_BlockSchurPreconditioner L g v rho dt sys mass schur
     = (\<lparr>pc_gamma = g, pc_viscosity = v, pc_rho = rho, pc_dt = dt\<rparr>,
        mmult L schur (blk10 sys) (blk01 sys)
          (precondition_Jacobi L (blk00 mass) (replicate (sm_m (blk00 mass)) 1)) (Some False),
        [JacobiOnes, MMult (Some False)])
   \<and> pns_BlockSchurPreconditioner L g v rho dt owned sys mass bschur
     = (\<lparr>pc_gamma = g, pc_viscosity = v, pc_rho = rho, pc_dt = dt\<rparr>,
        bschur\<lparr>blk11 := mmult L (blk11 bschur) (blk10 sys) (blk01 sys)
          (precondition_Jacobi L (blk00 mass) (replicate (map is_size owned ! 0) 1)) None\<rparr>,
        [JacobiOnes, MMult None])
   \<and> mass_schur (imex_initialize_system F P s)
     = sm_reinit (dofs_per_block s ! 1) (dofs_per_block s ! 1)
         (case make_sparsity_pattern F (dof_handler s) (nonzero_constraints s) of
            (p00, p01, p10, p11) \<Rightarrow> compute_mmult_pattern F p10 p01)
   \<and> blk11 (mass_schur_blocks (pns_initialize_system F P t))
     = sm_reinit (dofs_per_block t ! 1) (dofs_per_block t ! 1)
         (case make_sparsity_pattern F (dof_handler t) (nonzero_constraints t) of
            (p00, p01, p10, p11) \<Rightarrow> compute_mmult_pattern F p10 p01)
   \<and> (\<exists>evs. trace (solve_state (pns_solve L F P nz t)) = trace t @ evs
        \<and> filter is_schur_build evs = [MMult None]
        \<and> ComputeMmultPattern \<notin> set evs)
   \<and> (\<exists>evs. trace (solve_state (pns_newton_iteration L F P a k t)) = trace t @ evs
        \<and> filter is_schur_build evs = [MMult None])
   \<and> (\<exists>evs. trace (solve_state (imex_solve L F P nz asm s)) = trace s @ evs
        \<and> filter is_schur_build evs = (if asm then [MMult (Some False)] else [])
        \<and> ComputeMmultPattern \<notin> set evs)
   \<and> (\<exists>evs. trace (state_of (imex_run_one_step L F P s)) = trace s @ evs
        \<and> length (filter is_schur_build evs) = (if timestep (time s) + 1 < 3 then 1 else 0))"
  using schur_constructors(1)[where L = L and g = g and v = v and rho = rho and dt = dt
          and sys = sys and mass = mass and schur = schur]
        schur_constructors(2)[where L = L and g = g and v = v and rho = rho and dt = dt
          and sys = sys and mass = mass and owned = owned and bschur = bschur]
        schur_pattern_at_initialization(1)[where F = F and P = P and s = s]
        schur_pattern_at_initialization(2)[where F = F and P = P and t = t]
        pns_solve_builds[where L = L and F = F and P = P and nz = nz and s = t]
        pns_newton_iteration_builds[where L = L and F = F and P = P and a = a and k = k and s = t]
        imex_solve_builds[where L = L and F = F and P = P and nz = nz and asm = asm and s = s]
        imex_run_one_step_builds[where L = L and F = F and P = P and s = s]
  by (intro conjI)

theorem schur_surrogate_build_witness:
  "\<exists>evs. trace (state_of (imex_run_one_step demo_linalg demo_femlib demo_params step2_imex))
        = trace step2_imex @ evs
      \<and> filter is_schur_build evs = []"
proof -
  have t: "timestep (time step2_imex) = 2" by (rule step2_imex_fields)
  from schur_surrogate_build[where L = demo_linalg and F = demo_femlib and P = demo_params
      and s = step2_imex]
  have "\<exists>evs. trace (state_of (imex_run_one_step demo_linalg demo_femlib demo_params step2_imex))
        = trace step2_imex @ evs
      \<and> length (filter is_schur_build evs) = (if timestep (time step2_imex) + 1 < 3 then 1 else 0)"
    by blast
  then show ?thesis by (simp add: t)
qed

text \<open>
  The surrogate is not built once for every solve of the IMEX controller: a run of three
  time steps calls \<open>assemble\<close> and \<open>solve\<close> three times each and completes, and builds the
  surrogate twice.
\<close>

theorem schur_surrogate_once_counterexample:
  "map_option (\<lambda>r. (length (filter is_schur_build (trace (state_of r))),
                     filter is_call (trace (state_of r)), error_of r))
     (imex_run demo_linalg demo_femlib demo_params 3 three_step_imex)
   = Some (2, [CallAssemble 1 0 True True, CallSolve 1 0 True True,
               CallAssemble 2 0 False True, CallSolve 2 0 False True,
               CallAssemble 3 0 False False, CallSolve 3 0 False False], None)"
  by (rule imex_three_steps_calls)

subsection \<open>The outer Krylov solve\<close>













subsection \<open>One application of the block preconditioner\<close>

lemma imex_vmult_result:
  "(imex_vmult L pc sys mass schur dst src = Inr (r, calls)) =
   (\<not> initialize_fails L SparseILU (blk11 mass) \<and> \<not> initialize_fails L SparseILU schur
    \<and> (\<exists>x1 x2 x3.
          cg_solve L (blk11 mass) (replicate (length (block1 src)) 0) (block1 src)
             (SparseILU, blk11 mass)
             \<lparr>max_steps = length (block1 src), tol = (1 / 1000000) * l2_norm (block1 src),
              log_history = False\<rparr> = Inr x1
        \<and> cg_solve L schur (block1 dst) (block1 src) (SparseILU, schur)
             \<lparr>max_steps = length (block1 src), tol = (1 / 1000000) * l2_norm (block1 src),
              log_history = False\<rparr> = Inr x2
        \<and> cg_solve L (blk00 sys) (block0 dst)
             (vec_add (vec_scale (- 1) (sm_vmult L (blk01 sys)
                 (vec_add (vec_scale (- pc_rho pc / pc_dt pc) x2)
                          (vec_scale (- (pc_viscosity pc + pc_gamma pc * pc_rho pc)) x1))))
               (block0 src))
             (PreconditionIdentity, blk00 sys)
             \<lparr>max_steps = length (block0 src), tol = (1 / 1000000) * l2_norm (block0 src),
              log_history = False\<rparr> = Inr x3
        \<and> r = \<lparr>block0 = x3,
                 block1 = vec_add (vec_scale (- pc_rho pc / pc_dt pc) x2)
                            (vec_scale (- (pc_viscosity pc + pc_gamma pc * pc_rho pc)) x1)\<rparr>
        \<and> calls =
           [CG_Mp \<lparr>max_steps = length (block1 src), tol = (1 / 1000000) * l2_norm (block1 src),
                   log_history = False\<rparr> SparseILU,
            Scale_Mp (- (pc_viscosity pc + pc_gamma pc * pc_rho pc)),
            CG_Sm \<lparr>max_steps = length (block1 src), tol = (1 / 1000000) * l2_norm (block1 src),
                   log_history = False\<rparr> SparseILU,
            Scale_Sm (- pc_rho pc / pc_dt pc),
            Add_Mp_Sm, Vmult_BT, Subtract_From_v0,
            CG_A \<lparr>max_steps = length (block0 src), tol = (1 / 1000000) * l2_norm (block0 src),
                  log_history = False\<rparr> PreconditionIdentity]))"
  by (auto simp: imex_vmult_def Let_def vec_fill_def map_replicate_const
           split: sum.splits if_splits)

lemma pns_vmult_result:
  "(pns_vmult L pc sys mass bschur dst src = Inr (r, calls)) =
   (\<not> initialize_fails L PreconditionBlockJacobi (blk11 mass)
    \<and> \<not> initialize_fails L PreconditionBlockJacobi (blk11 bschur)
    \<and> (\<exists>x1 x2 x3.
          cg_solve L (blk11 mass) (replicate (length (block1 src)) 0) (block1 src)
             (PreconditionBlockJacobi, blk11 mass)
             \<lparr>max_steps = length (block1 src), tol = (1 / 1000000) * l2_norm (block1 src),
              log_history = False\<rparr> = Inr x1
        \<and> cg_solve L (blk11 bschur) (block1 dst) (block1 src)
             (PreconditionBlockJacobi, blk11 bschur)
             \<lparr>max_steps = length (block1 src), tol = (1 / 1000000) * l2_norm (block1 src),
              log_history = False\<rparr> = Inr x2
        \<and> direct_solve L (blk00 sys)
             (vec_add (vec_scale (- 1) (sm_vmult L (blk01 sys)
                 (vec_add (vec_scale (- pc_rho pc / pc_dt pc) x2)
                          (vec_scale (- (pc_viscosity pc + pc_gamma pc * pc_rho pc)) x1))))
               (block0 src)) = Inr x3
        \<and> r = \<lparr>block0 = x3,
                 block1 = vec_add (vec_scale (- pc_rho pc / pc_dt pc) x2)
                            (vec_scale (- (pc_viscosity pc + pc_gamma pc * pc_rho pc)) x1)\<rparr>
        \<and> calls =
           [CG_Mp \<lparr>max_steps = length (block1 src), tol = (1 / 1000000) * l2_norm (block1 src),
                   log_history = False\<rparr> PreconditionBlockJacobi,
            Scale_Mp (- (pc_viscosity pc + pc_gamma pc * pc_rho pc)),
            CG_Sm \<lparr>max_steps = length (block1 src), tol = (1 / 1000000) * l2_norm (block1 src),
                   log_history = False\<rparr> PreconditionBlockJacobi,
            Scale_Sm (- pc_rho pc / pc_dt pc),
            Add_Mp_Sm, Vmult_BT, Subtract_From_v0, Direct_A]))"
  by (auto simp: pns_vmult_def Let_def vec_fill_def map_replicate_const
           split: sum.splits if_splits)

text \<open>
  Claim C1. One application \<open>vmult(dst, src)\<close> of the block preconditioner, with
  \<open>src = (v0, v1)\<close>, returns exactly when neither incomplete factorisation fails and the
  three inner solves succeed, and then it has made these calls in this order: the CG
  solve of the pressure mass block \<open>M_p\<close> against \<open>v1\<close>, started from zero, with tolerance
  \<open>1e-6\<close> times the norm of \<open>v1\<close>, whose result \<open>x1\<close> is scaled by \<open>-(viscosity + gamma * rho)\<close>;
  the CG solve of the Schur surrogate \<open>S_m\<close> against \<open>v1\<close> under the same control, started
  from the pressure block of \<open>dst\<close>, whose result \<open>x2\<close> is scaled by \<open>-rho / dt\<close>; the sum of
  the two, which is the pressure block \<open>u1\<close> of the result; \<open>utmp = v0 - B\<^sup>T u1\<close>; and the
  solve of the velocity block \<open>A\<close> against \<open>utmp\<close>, by CG without preconditioning in InsIMEX
  and by the direct solver in ParallelNavierStokes, whose result is the velocity block
  \<open>u0\<close> of the result.
\<close>

theorem block_preconditioner_vmult:
  "((imex_vmult L pc sys mass schur dst src = Inr (r, calls)) =
   (\<not> initialize_fails L SparseILU (blk11 mass) \<and> \<not> initialize_fails L SparseILU schur
    \<and> (\<exists>x1 x2 x3.
          cg_solve L (blk11 mass) (replicate (length (block1 src)) 0) (block1 src)
             (SparseILU, blk11 mass)
             \<lparr>max_steps = length (block1 src), tol = (1 / 1000000) * l2_norm (block1 src),
              log_history = False\<rparr> = Inr x1
        \<and> cg_solve L schur (block1 dst) (block1 src) (SparseILU, schur)
             \<lparr>max_steps = length (block1 src), tol = (1 / 1000000) * l2_norm (block1 src),
              log_history = False\<rparr> = Inr x2
        \<and> cg_solve L (blk00 sys) (block0 dst)
             (vec_add (vec_scale (- 1) (sm_vmult L (blk01 sys)
                 (vec_add (vec_scale (- pc_rho pc / pc_dt pc) x2)
                          (vec_scale (- (pc_viscosity pc + pc_gamma pc * pc_rho pc)) x1))))
               (block0 src))
             (PreconditionIdentity, blk00 sys)
             \<lparr>max_steps = length (block0 src), tol = (1 / 1000000) * l2_norm (block0 src),
              log_history = False\<rparr> = Inr x3
        \<and> r = \<lparr>block0 = x3,
                 block1 = vec_add (vec_scale (- pc_rho pc / pc_dt pc) x2)
                            (vec_scale (- (pc_viscosity pc + pc_gamma pc * pc_rho pc)) x1)\<rparr>
        \<and> calls =
           [CG_Mp \<lparr>max_steps = length (block1 src), tol = (1 / 1000000) * l2_norm (block1 src),
                   log_history = False\<rparr> SparseILU,
            Scale_Mp (- (pc_viscosity pc + pc_gamma pc * pc_rho pc)),
            CG_Sm \<lparr>max_steps = length (block1 src), tol = (1 / 1000000) * l2_norm (block1 src),
                   log_history = False\<rparr> SparseILU,
            Scale_Sm (- pc_rho pc / pc_dt pc),
            Add_Mp_Sm, Vmult_BT, Subtract_From_v0,
            CG_A \<lparr>max_steps = length (block0 src), tol = (1 / 1000000) * l2_norm (block0 src),
                  log_history = False\<rparr> PreconditionIdentity])))
   \<and> ((pns_vmult L pc sys mass bschur dst src = Inr (r, calls)) =
   (\<not> initialize_fails L PreconditionBlockJacobi (blk11 mass)
    \<and> \<not> initialize_fails L PreconditionBlockJacobi (blk11 bschur)
    \<and> (\<exists>x1 x2 x3.
          cg_solve L (blk11 mass) (replicate (length (block1 src)) 0) (block1 src)
             (PreconditionBlockJacobi, blk11 mass)
             \<lparr>max_steps = length (block1 src), tol = (1 / 1000000) * l2_norm (block1 src),
              log_history = False\<rparr> = Inr x1
        \<and> cg_solve L (blk11 bschur) (block1 dst) (block1 src)
             (PreconditionBlockJacobi, blk11 bschur)
             \<lparr>max_steps = length (block1 src), tol = (1 / 1000000) * l2_norm (block1 src),
              log_history = False\<rparr> = Inr x2
        \<and> direct_solve L (blk00 sys)
             (vec_add (vec_scale (- 1) (sm_vmult L (blk01 sys)
                 (vec_add (vec_scale (- pc_rho pc / pc_dt pc) x2)
                          (vec_scale (- (pc_viscosity pc + pc_gamma pc * pc_rho pc)) x1))))
               (block0 src)) = Inr x3
        \<and> r = \<lparr>block0 = x3,
                 block1 = vec_add (vec_scale (- pc_rho pc / pc_dt pc) x2)
                            (vec_scale (- (pc_viscosity pc + pc_gamma pc * pc_rho pc)) x1)\<rparr>
        \<and> calls =
           [CG_Mp \<lparr>max_steps = length (block1 src), tol = (1 / 1000000) * l2_norm (block1 src),
                   log_history = False\<rparr> PreconditionBlockJacobi,
            Scale_Mp (- (pc_viscosity pc + pc_gamma pc * pc_rho pc)),
            CG_Sm \<lparr>max_steps = length (block1 src), tol = (1 / 1000000) * l2_norm (block1 src),
                   log_history = False\<rparr> PreconditionBlockJacobi,
            Scale_Sm (- pc_rho pc / pc_dt pc),
            Add_Mp_Sm, Vmult_BT, Subtract_From_v0, Direct_A])))"
  using imex_vmult_result[where L = L and pc = pc and sys = sys and mass = mass
          and schur = schur and dst = dst and src = src and r = r and calls = calls]
        pns_vmult_result[where L = L and pc = pc and sys = sys and mass = mass
          and bschur = bschur and dst = dst and src = src and r = r and calls = calls]
  by (rule conjI)

theorem block_preconditioner_vmult_witness:
  "map_sum id fst
     (imex_vmult demo_linalg demo_preconditioner demo_system demo_system (blk11 demo_system)
        \<lparr>block0 = [0, 0], block1 = [0]\<rparr> \<lparr>block0 = [1, 2], block1 = [3]\<rparr>)
     = Inr \<lparr>block0 = [1, 2], block1 = [- 9]\<rparr>
   \<and> map_sum id fst
     (pns_vmult demo_linalg demo_preconditioner demo_system demo_system demo_system
        \<lparr>block0 = [0, 0], block1 = [0]\<rparr> \<lparr>block0 = [1, 2], block1 = [3]\<rparr>)
     = Inr \<lparr>block0 = [1, 2], block1 = [- 9]\<rparr>"
proof -
  let ?c1 = "\<lparr>max_steps = 1, tol = (1 / 1000000) * l2_norm [3], log_history = False\<rparr>"
  let ?c0 = "\<lparr>max_steps = 2, tol = (1 / 1000000) * l2_norm [1, 2], log_history = False\<rparr>"
  let ?r = "\<lparr>block0 = [1, 2], block1 = [- 9 :: real]\<rparr>"
  let ?dst = "\<lparr>block0 = [0, 0], block1 = [0 :: real]\<rparr>"
  let ?src = "\<lparr>block0 = [1, 2], block1 = [3 :: real]\<rparr>"
  from block_preconditioner_vmult[where L = demo_linalg and pc = demo_preconditioner
      and sys = demo_system and mass = demo_system and schur = "blk11 demo_system"
      and bschur = demo_system and dst = ?dst and src = ?src and r = ?r
      and calls = "[CG_Mp ?c1 SparseILU, Scale_Mp (- 1), CG_Sm ?c1 SparseILU, Scale_Sm (- 2),
                    Add_Mp_Sm, Vmult_BT, Subtract_From_v0, CG_A ?c0 PreconditionIdentity]",
      THEN conjunct1]
  have a: "imex_vmult demo_linalg demo_preconditioner demo_system demo_system (blk11 demo_system)
        ?dst ?src
     = Inr (?r, [CG_Mp ?c1 SparseILU, Scale_Mp (- 1), CG_Sm ?c1 SparseILU, Scale_Sm (- 2),
                    Add_Mp_Sm, Vmult_BT, Subtract_From_v0, CG_A ?c0 PreconditionIdentity])"
    by (simp add: demo_linalg_def demo_preconditioner_def demo_system_def bsm_reinit_def
          sm_reinit_def vec_add_def vec_scale_def eval_nat_numeral)
  from block_preconditioner_vmult[where L = demo_linalg and pc = demo_preconditioner
      and sys = demo_system and mass = demo_system and schur = "blk11 demo_system"
      and bschur = demo_system and dst = ?dst and src = ?src and r = ?r
      and calls = "[CG_Mp ?c1 PreconditionBlockJacobi, Scale_Mp (- 1),
                    CG_Sm ?c1 PreconditionBlockJacobi, Scale_Sm (- 2),
                    Add_Mp_Sm, Vmult_BT, Subtract_From_v0, Direct_A]",
      THEN conjunct2]
  have b: "pns_vmult demo_linalg demo_preconditioner demo_system demo_system demo_system
        ?dst ?src
     = Inr (?r, [CG_Mp ?c1 PreconditionBlockJacobi, Scale_Mp (- 1),
                    CG_Sm ?c1 PreconditionBlockJacobi, Scale_Sm (- 2),
                    Add_Mp_Sm, Vmult_BT, Subtract_From_v0, Direct_A])"
    by (simp add: demo_linalg_def demo_preconditioner_def demo_system_def bsm_reinit_def
          sm_reinit_def vec_add_def vec_scale_def eval_nat_numeral)
  from a b show ?thesis by simp
qed

end
